(* ===== verification/Prelude.thy ===== *)
theory Prelude
  imports Main
begin

text \<open>
  Shared vocabulary of the development: the names of the model's basic types, the
  string helpers that several components use (decimal numerals as JSON prints them,
  prefix stripping as the authorization header needs it, splitting a string at a
  separator as the token decoder needs it), and the generic lemmas about them that
  the component theories use through \<open>simp\<close>.
\<close>

named_theorems error_shape "responses of the handlers that have the error shape of the error-handling design"

type_synonym oid = nat \<comment> \<open>a MongoDB ObjectId, represented by its allocation index\<close>
type_synonym seconds = nat \<comment> \<open>a NumericDate: whole seconds since the epoch\<close>

subsection \<open>HTTP responses\<close>

text \<open>
  What a handler sends: \<open>res.status(code).json(value)\<close>, and what \<open>express.json()\<close>
  parses a request body into. A JSON value is a string, a non-negative integer, a
  boolean, null, an array, or an object given by its members in text order.
\<close>

datatype json =
  JStr string | JNum nat | JBool bool | JNull | JArr "json list" | JObj "(string \<times> json) list"

record response =
  status :: nat
  body :: json

definition json_error :: "nat \<Rightarrow> string \<Rightarrow> response" where
  "json_error code msg = \<lparr>status = code, body = JObj [(''error'', JStr msg)]\<rparr>"

text \<open>The shape every failure response should have: a status below 400, or a body that
  is an object with the one string member \<open>error\<close>.\<close>

fun error_body :: "json \<Rightarrow> bool" where
  "error_body (JObj [(k, JStr _)]) = (k = ''error'')"
| "error_body _ = False"

definition error_shaped :: "response \<Rightarrow> bool" where
  "error_shaped r \<longleftrightarrow> status r < 400 \<or> error_body (body r)"

subsection \<open>Library primitives left abstract\<close>

text \<open>
  Three functions of the libraries the program calls are not computed here: the
  Eksblowfish digest inside bcrypt, HMAC-SHA256 inside jsonwebtoken, and MongoDB's
  reading of a query condition that is an operator object such as \<open>{"$ne": null}\<close>
  or an array (the condition on a string path, as a predicate on the stored string, or
  \<open>None\<close> when mongoose rejects it with a CastError). They are the fields of a record
  that every operation using them takes as a parameter, so each theorem holds for
  every choice of them, and a theorem that needs a property of one (an injective
  digest, the meaning of an operator) says so in its hypotheses.
\<close>

record lib =
  eks_digest :: "string \<Rightarrow> string \<Rightarrow> string" \<comment> \<open>bcrypt setting, key bytes \<mapsto> 31-char checksum\<close>
  hmac_sha256 :: "string \<Rightarrow> string \<Rightarrow> string" \<comment> \<open>key, message \<mapsto> 32 raw bytes\<close>
  op_filter :: "json \<Rightarrow> (string \<Rightarrow> bool) option" \<comment> \<open>query condition \<mapsto> predicate\<close>

text \<open>
  A concrete instance for evaluating the model on examples: a digest that keeps the
  key (hence injective in it), a MAC that is the key, and of the operators only
  \<open>{"$ne": null}\<close>, which every stored string satisfies, as in MongoDB. Used by the
  witnesses only, never by an operation.
\<close>

definition demo_lib :: lib where
  "demo_lib = \<lparr>eks_digest = (\<lambda>s k. k), hmac_sha256 = (\<lambda>k m. k),
     op_filter = (\<lambda>v. if v = JObj [(''$ne'', JNull)] then Some (\<lambda>s. True) else None)\<rparr>"

subsection \<open>Decimal numerals\<close>

definition digit_char :: "nat \<Rightarrow> char" where
  "digit_char d = char_of (48 + d)"

definition is_digit :: "char \<Rightarrow> bool" where
  "is_digit c \<longleftrightarrow> 48 \<le> (of_char c :: nat) \<and> (of_char c :: nat) \<le> 57"

definition digit_val :: "char \<Rightarrow> nat" where
  "digit_val c = of_char c - 48"

fun nat_to_dec :: "nat \<Rightarrow> string" where
  "nat_to_dec n =
     (if n < 10 then [digit_char n] else nat_to_dec (n div 10) @ [digit_char (n mod 10)])"

declare nat_to_dec.simps [simp del]

definition dec_val :: "string \<Rightarrow> nat" where
  "dec_val s = foldl (\<lambda>acc c. 10 * acc + digit_val c) 0 s"

definition dec_to_nat :: "string \<Rightarrow> nat option" where
  "dec_to_nat s = (if s \<noteq> [] \<and> list_all is_digit s then Some (dec_val s) else None)"

subsection \<open>Prefixes and separators\<close>

fun strip_prefix :: "'a list \<Rightarrow> 'a list \<Rightarrow> 'a list option" where
  "strip_prefix [] ys = Some ys"
| "strip_prefix (x # xs) [] = None"
| "strip_prefix (x # xs) (y # ys) = (if x = y then strip_prefix xs ys else None)"

text \<open>\<open>split_at c s\<close> cuts \<open>s\<close> at the first occurrence of \<open>c\<close>.\<close>

fun split_at :: "'a \<Rightarrow> 'a list \<Rightarrow> ('a list \<times> 'a list) option" where
  "split_at c [] = None"
| "split_at c (x # xs) =
     (if x = c then Some ([], xs)
      else map_option (\<lambda>(a, b). (x # a, b)) (split_at c xs))"

subsection \<open>JavaScript values\<close>

text \<open>
  How the program and its libraries read a value of a parsed request body.
  \<open>json_field k j\<close> is \<open>req.body[k]\<close>: \<open>JSON.parse\<close> keeps the last member named
  \<open>k\<close>, and a body that is not an object has none (\<open>undefined\<close>, here \<open>None\<close>).
  \<open>json_truthy\<close> is JavaScript truthiness. \<open>cast_string\<close> is mongoose's cast of a
  value to a \<open>String\<close> path (\<open>lib/cast/string.js\<close>): a string stays, a number or a
  boolean becomes its text, an object with a non-empty string \<open>_id\<close> becomes that
  \<open>_id\<close>, and null, an array or another object gives no string (a CastError, or a
  null that the \<open>required\<close> validator rejects).
\<close>

definition json_field :: "string \<Rightarrow> json \<Rightarrow> json option" where
  "json_field k j = (case j of JObj ms \<Rightarrow> map_of (rev ms) k | _ \<Rightarrow> None)"

fun json_truthy :: "json \<Rightarrow> bool" where
  "json_truthy (JStr s) = (s \<noteq> [])"
| "json_truthy (JNum n) = (n \<noteq> 0)"
| "json_truthy (JBool b) = b"
| "json_truthy JNull = False"
| "json_truthy (JArr vs) = True"
| "json_truthy (JObj ms) = True"

definition show_bool :: "bool \<Rightarrow> string" where
  "show_bool b = (if b then ''true'' else ''false'')"

definition cast_string :: "json \<Rightarrow> string option" where
  "cast_string v =
     (case v of
        JStr s \<Rightarrow> Some s
      | JNum n \<Rightarrow> Some (nat_to_dec n)
      | JBool b \<Rightarrow> Some (show_bool b)
      | JObj ms \<Rightarrow> (case map_of (rev ms) ''_id'' of Some (JStr i) \<Rightarrow> if i = [] then None else Some i | _ \<Rightarrow> None)
      | _ \<Rightarrow> None)"

subsection \<open>Lemmas on decimal numerals\<close>

lemma digit_char_val [simp]: "d < 10 \<Longrightarrow> digit_val (digit_char d) = d"
  by (simp add: digit_char_def digit_val_def)

lemma digit_char_is_digit [simp]: "d < 10 \<Longrightarrow> is_digit (digit_char d)"
  by (simp add: digit_char_def is_digit_def)

lemma dec_val_snoc [simp]: "dec_val (xs @ [c]) = 10 * dec_val xs + digit_val c"
  by (simp add: dec_val_def)

lemma nat_to_dec_nonempty [simp]: "nat_to_dec n \<noteq> []"
  by (subst nat_to_dec.simps) simp

lemma nat_to_dec_digits: "list_all is_digit (nat_to_dec n)"
proof (induction n rule: nat_to_dec.induct)
  case (1 n)
  then show ?case by (subst nat_to_dec.simps) simp
qed

lemma dec_val_nat_to_dec [simp]: "dec_val (nat_to_dec n) = n"
proof (induction n rule: nat_to_dec.induct)
  case (1 n)
  show ?case
  proof (cases "n < 10")
    case True
    then show ?thesis by (subst nat_to_dec.simps) (simp add: dec_val_def)
  next
    case False
    with "1.IH" have "dec_val (nat_to_dec (n div 10)) = n div 10" by simp
    with False show ?thesis by (subst nat_to_dec.simps) simp
  qed
qed

lemma dec_to_nat_nat_to_dec [simp]: "dec_to_nat (nat_to_dec n) = Some n"
  by (simp add: dec_to_nat_def nat_to_dec_digits)

lemma nat_to_dec_inj [simp]: "nat_to_dec m = nat_to_dec n \<longleftrightarrow> m = n"
  by (metis dec_val_nat_to_dec)

lemma nat_to_dec_no_quote [simp]: "CHR ''\"'' \<notin> set (nat_to_dec n)"
  using nat_to_dec_digits [of n] by (auto simp: list_all_iff is_digit_def)

lemma nat_to_dec_no_comma [simp]: "CHR '','' \<notin> set (nat_to_dec n)"
  using nat_to_dec_digits [of n] by (auto simp: list_all_iff is_digit_def)

lemma nat_to_dec_no_brace [simp]: "CHR ''}'' \<notin> set (nat_to_dec n)"
  using nat_to_dec_digits [of n] by (auto simp: list_all_iff is_digit_def)

lemma nat_to_dec_no_dot [simp]: "CHR ''.'' \<notin> set (nat_to_dec n)"
  using nat_to_dec_digits [of n] by (auto simp: list_all_iff is_digit_def)

subsection \<open>Lemmas on JavaScript values\<close>

lemma cast_string_str [simp]: "cast_string (JStr s) = Some s"
  by (simp add: cast_string_def)

lemma json_field_obj [simp]: "json_field k (JObj ms) = map_of (rev ms) k"
  by (simp add: json_field_def)

subsection \<open>Lemmas on lists\<close>

lemma find_snoc_new: "find P xs = None \<Longrightarrow> P x \<Longrightarrow> find P (xs @ [x]) = Some x"
  by (induction xs) auto

subsection \<open>Lemmas on prefixes and separators\<close>

lemma strip_prefix_append [simp]: "strip_prefix p (p @ s) = Some s"
  by (induction p) auto

lemma strip_prefix_Some: "strip_prefix p s = Some r \<Longrightarrow> s = p @ r"
  by (induction p s rule: strip_prefix.induct) (auto split: if_splits)

lemma split_at_append [simp]:
  "c \<notin> set xs \<Longrightarrow> split_at c (xs @ c # ys) = Some (xs, ys)"
  by (induction xs) auto

lemma split_at_None_iff: "split_at c s = None \<longleftrightarrow> c \<notin> set s"
  by (induction s) auto

lemma split_at_Some:
  "split_at c s = Some (a, b) \<Longrightarrow> s = a @ c # b \<and> c \<notin> set a"
  by (induction s arbitrary: a) (auto split: if_splits)

lemma count_list_update:
  "i < length xs \<Longrightarrow> xs ! i \<noteq> a \<Longrightarrow>
   count_list (xs[i := y]) a = count_list xs a + (if y = a then 1 else 0)"
proof (induction xs arbitrary: i)
  case Nil then show ?case by simp
next
  case (Cons x xs)
  then show ?case by (cases i) auto
qed

lemma error_shaped_json_error [simp, error_shape]: "error_shaped (json_error c m)"
  by (simp add: error_shaped_def json_error_def)

lemma error_shaped_success [simp, error_shape]: "c < 400 \<Longrightarrow> error_shaped \<lparr>status = c, body = j\<rparr>"
  by (simp add: error_shaped_def)

end
