(* ===== verification/Base64.thy ===== *)
theory Base64
  imports Prelude
begin

text \<open>
  Base64url, the encoding of the three segments of a JSON Web Token (RFC 7515; the
  \<open>jws\<close> package that \<open>jsonwebtoken\<close> uses, through \<open>Buffer\<close>). A string is a
  byte string: every \<^typ>\<open>char\<close> is one byte. The encoder turns each group of three
  bytes into four characters of the 64-letter alphabet and a final group of one or two
  bytes into two or three characters, without padding. The decoder inverts it and,
  like \<open>Buffer\<close>, ignores the unused low bits of a final group; it rejects characters
  outside the alphabet and a final group of one character, which \<open>Buffer\<close> would skip.
  The round trip \<open>b64_decode (b64_encode s) = Some s\<close> is proved for every byte string,
  with the alphabet and the unpadded length of the encoding; in particular the encoding
  never contains the segment separator \<open>.\<close>.
\<close>

definition b64_alphabet :: string where
  "b64_alphabet = ''ABCDEFGHIJKLMNOPQRSTUVWXYZabcdefghijklmnopqrstuvwxyz0123456789-_''"

definition b64_char :: "nat \<Rightarrow> char" where
  "b64_char n = b64_alphabet ! n"

fun first_index :: "'a list \<Rightarrow> 'a \<Rightarrow> nat option" where
  "first_index [] x = None"
| "first_index (y # ys) x = (if y = x then Some 0 else map_option Suc (first_index ys x))"

definition b64_val :: "char \<Rightarrow> nat option" where
  "b64_val c = first_index b64_alphabet c"

fun b64_encode :: "string \<Rightarrow> string" where
  "b64_encode (a # b # c # r) =
     (let n = of_char a * 65536 + of_char b * 256 + of_char c in
      [b64_char (n div 262144), b64_char (n div 4096 mod 64), b64_char (n div 64 mod 64),
       b64_char (n mod 64)] @ b64_encode r)"
| "b64_encode [a, b] =
     (let n = of_char a * 65536 + of_char b * 256 in
      [b64_char (n div 262144), b64_char (n div 4096 mod 64), b64_char (n div 64 mod 64)])"
| "b64_encode [a] =
     (let n = of_char a * 65536 in [b64_char (n div 262144), b64_char (n div 4096 mod 64)])"
| "b64_encode [] = []"

fun b64_decode :: "string \<Rightarrow> string option" where
  "b64_decode (w # x # y # z # r) =
     (case (b64_val w, b64_val x, b64_val y, b64_val z) of
        (Some a, Some b, Some c, Some d) \<Rightarrow>
          (let n = a * 262144 + b * 4096 + c * 64 + d in
           map_option (\<lambda>s. [char_of (n div 65536), char_of (n div 256), char_of n] @ s) (b64_decode r))
      | _ \<Rightarrow> None)"
| "b64_decode [w, x, y] =
     (case (b64_val w, b64_val x, b64_val y) of
        (Some a, Some b, Some c) \<Rightarrow>
          (let n = a * 262144 + b * 4096 + c * 64 in Some [char_of (n div 65536), char_of (n div 256)])
      | _ \<Rightarrow> None)"
| "b64_decode [w, x] =
     (case (b64_val w, b64_val x) of
        (Some a, Some b) \<Rightarrow> (let n = a * 262144 + b * 4096 in Some [char_of (n div 65536)])
      | _ \<Rightarrow> None)"
| "b64_decode [w] = None"
| "b64_decode [] = Some []"

subsection \<open>Lemmas\<close>

lemma first_index_nth: "distinct xs \<Longrightarrow> i < length xs \<Longrightarrow> first_index xs (xs ! i) = Some i"
proof (induction xs arbitrary: i)
  case Nil then show ?case by simp
next
  case (Cons y ys)
  then show ?case by (cases i) (auto simp: nth_mem)
qed

lemma first_index_None: "first_index xs x = None \<longleftrightarrow> x \<notin> set xs"
  by (induction xs) auto

lemma b64_alphabet_distinct: "distinct b64_alphabet"
  by (simp add: b64_alphabet_def)

lemma b64_alphabet_length: "length b64_alphabet = 64"
  by (simp add: b64_alphabet_def)

lemma b64_val_char [simp]: "i < 64 \<Longrightarrow> b64_val (b64_char i) = Some i"
  by (simp add: b64_val_def b64_char_def first_index_nth b64_alphabet_distinct b64_alphabet_length)

lemma b64_char_in: "i < 64 \<Longrightarrow> b64_char i \<in> set b64_alphabet"
  by (simp add: b64_char_def b64_alphabet_length)

lemma div_64_split: "(n::nat) div (m * 64) * 64 + n div m mod 64 = n div m"
  by (metis div_mult2_eq div_mult_mod_eq mult.commute)

lemma sextets:
  "(n::nat) div 262144 * 262144 + n div 4096 mod 64 * 4096 + n div 64 mod 64 * 64 + n mod 64 = n"
proof -
  have a: "n div 64 * 64 + n mod 64 = n" by simp
  have b: "n div 4096 * 64 + n div 64 mod 64 = n div 64" using div_64_split [of n 64] by simp
  have c: "n div 262144 * 64 + n div 4096 mod 64 = n div 4096" using div_64_split [of n 4096] by simp
  from a b c show ?thesis by linarith
qed

lemma div_low: "(y::nat) < m \<Longrightarrow> (x * m + y) div m = x"
  by simp

lemma mod_low: "(y::nat) < m \<Longrightarrow> (x * m + y) mod m = y"
  by simp

lemma bytes3:
  assumes "(A::nat) < 256" "B < 256" "C < 256"
  shows "(A * 65536 + B * 256 + C) div 65536 = A \<and> (A * 65536 + B * 256 + C) div 256 mod 256 = B \<and>
   (A * 65536 + B * 256 + C) mod 256 = C \<and> (A * 65536 + B * 256 + C) div 262144 < 64"
proof -
  have e1: "A * 65536 + B * 256 + C = A * 65536 + (B * 256 + C)" by simp
  have e2: "A * 65536 + B * 256 + C = (A * 256 + B) * 256 + C" by simp
  have l: "B * 256 + C < 65536" using assms by simp
  have d1: "(A * 65536 + B * 256 + C) div 65536 = A" unfolding e1 using l by (rule div_low)
  have d2: "(A * 65536 + B * 256 + C) div 256 = A * 256 + B" unfolding e2 using assms(3) by (rule div_low)
  have d3: "(A * 65536 + B * 256 + C) mod 256 = C" unfolding e2 using assms(3) by (rule mod_low)
  have "(A * 65536 + B * 256 + C) div 262144 = A div 4"
    using d1 div_mult2_eq [of "A * 65536 + B * 256 + C" 65536 4] by simp
  with assms(1) d1 d2 d3 show ?thesis by simp
qed

lemma char_of_byte: "n mod 256 = of_char c \<Longrightarrow> char_of n = c"
  by (metis char_of_char char_of_mod_256)

lemma b64_decode_encode3:
  "b64_decode (b64_encode (a # b # c # r)) = map_option (\<lambda>s. [a, b, c] @ s) (b64_decode (b64_encode r))"
proof -
  let ?n = "of_char a * 65536 + of_char b * 256 + of_char c :: nat"
  have h: "?n div 65536 = of_char a" "?n div 256 mod 256 = of_char b" "?n mod 256 = of_char c"
    "?n div 262144 < 64"
    using bytes3 [of "of_char a" "of_char b" "of_char c"] by simp_all
  have "char_of (?n div 65536) = a" "char_of (?n div 256) = b" "char_of ?n = c"
    using h(1-3) by (auto intro: char_of_byte)
  then show ?thesis using h(4)
    by (cases "b64_decode (b64_encode r)") (simp_all add: Let_def sextets)
qed

lemma b64_decode_encode2: "b64_decode (b64_encode [a, b]) = Some [a, b]"
proof -
  let ?n = "of_char a * 65536 + of_char b * 256 + 0 :: nat"
  have h: "?n div 65536 = of_char a" "?n div 256 mod 256 = of_char b" "?n div 262144 < 64"
    using bytes3 [of "of_char a" "of_char b" 0] by simp_all
  have z: "?n mod 64 = 0" by simp
  have m: "?n div 262144 * 262144 + ?n div 4096 mod 64 * 4096 + ?n div 64 mod 64 * 64 = ?n"
    using sextets [of ?n] z by linarith
  have "char_of (?n div 65536) = a" "char_of (?n div 256) = b"
    using h(1,2) by (auto intro: char_of_byte)
  with m h(3) show ?thesis by (simp add: Let_def)
qed

lemma b64_decode_encode1: "b64_decode (b64_encode [a]) = Some [a]"
proof -
  let ?n = "of_char a * 65536 :: nat"
  have h: "?n div 65536 = of_char a" "?n div 262144 < 64"
    using bytes3 [of "of_char a" 0 0] by simp_all
  have z: "?n mod 64 = 0" "?n div 64 mod 64 = 0" by simp_all
  have m: "?n div 262144 * 262144 + ?n div 4096 mod 64 * 4096 = ?n"
    using sextets [of ?n] z by linarith
  have "char_of (?n div 65536) = a" using h(1) by (auto intro: char_of_byte)
  with m h(2) show ?thesis by (simp add: Let_def)
qed

lemma b64_decode_encode [simp]: "b64_decode (b64_encode s) = Some s"
  by (induction s rule: b64_encode.induct)
    (simp_all only: b64_decode_encode3 b64_decode_encode2 b64_decode_encode1 option.map
      b64_encode.simps(4) b64_decode.simps(5) append_Cons append_Nil)

lemma b64_encode_inj: "b64_encode x = b64_encode y \<Longrightarrow> x = y"
  by (metis b64_decode_encode option.inject)

lemma top_sextet: "(y::nat) < 65536 \<Longrightarrow> (of_char a * 65536 + y) div 262144 < 64"
proof -
  assume y: "y < 65536"
  have "of_char a < (256::nat)" by simp
  then have "of_char a * 65536 + y < 64 * 262144" using y by linarith
  then show ?thesis by (rule less_mult_imp_div_less)
qed

lemma b64_encode_alphabet: "set (b64_encode s) \<subseteq> set b64_alphabet"
proof (induction s rule: b64_encode.induct)
  case (1 a b c r)
  have "(of_char a * 65536 + (of_char b * 256 + of_char c)) div 262144 < (64::nat)"
    by (rule top_sextet)
      (use nat_of_char_less_256 [of b] nat_of_char_less_256 [of c] in linarith)
  with 1 show ?case by (simp add: Let_def b64_char_in add.assoc)
next
  case (2 a b)
  have "(of_char a * 65536 + of_char b * 256) div 262144 < (64::nat)" by (rule top_sextet) simp
  then show ?case by (simp add: Let_def b64_char_in)
next
  case (3 a)
  have "(of_char a * 65536 + 0) div 262144 < (64::nat)" by (rule top_sextet) simp
  then show ?case by (simp add: b64_char_in)
qed simp

lemma b64_encode_no_dot [simp]: "CHR ''.'' \<notin> set (b64_encode s)"
  using b64_encode_alphabet [of s] by (auto simp: b64_alphabet_def)


lemma b64_encode_length: "length (b64_encode s) = (4 * length s + 2) div 3"
  by (induction s rule: b64_encode.induct) (simp_all add: Let_def)

text \<open>The codec's contract, in one statement.\<close>

lemma b64_roundtrip:
  "b64_decode (b64_encode s) = Some s \<and> set (b64_encode s) \<subseteq> set b64_alphabet \<and>
   length (b64_encode s) = (4 * length s + 2) div 3"
  by (simp add: b64_encode_alphabet b64_encode_length)

end
