(* ===== verification/Bcrypt.thy ===== *)
theory Bcrypt
  imports Prelude
begin

text \<open>
  The password hasher: the three calls of the \<open>bcrypt\<close> library that
  \<open>src/src/models/User.js\<close> makes (\<open>genSalt\<close>, \<open>hash\<close>, \<open>compare\<close>). The library
  is not part of the repository; its behaviour is modelled from its documentation and
  the spec (section 4.1): a salt string \<open>$2b$NN$\<close> followed by 22 salt characters,
  a hash that is that 29-character setting followed by the 31-character checksum of the
  password, and a comparison that recomputes the hash with the setting embedded in the
  stored string. The checksum is the parameter \<open>eks_digest\<close> of \<^typ>\<open>lib\<close>.
  The key bcrypt hashes is the password with a terminating NUL, cut at 72 bytes.
\<close>

datatype hash_error = InvalidSalt

definition bcrypt_minor_ok :: "char \<Rightarrow> bool" where
  "bcrypt_minor_ok m \<longleftrightarrow> m = CHR ''a'' \<or> m = CHR ''b'' \<or> m = CHR ''y''"

definition two_digits :: "nat \<Rightarrow> string" where
  "two_digits r = [digit_char (r div 10), digit_char (r mod 10)]"

definition clamp_rounds :: "nat \<Rightarrow> nat" where
  "clamp_rounds r = (if r < 4 then 4 else if 31 < r then 31 else r)"

text \<open>
  \<open>genSalt(rounds)\<close>: the random part \<open>rnd\<close> (the 22 bcrypt-base64 characters of
  16 random bytes) is an input of the model, so that randomness is explicit.
\<close>

definition gen_salt :: "nat \<Rightarrow> string \<Rightarrow> string" where
  "gen_salt rounds rnd = ''$2b$'' @ two_digits (clamp_rounds rounds) @ ''$'' @ rnd"

definition setting_rounds :: "string \<Rightarrow> nat" where
  "setting_rounds s = dec_val [s ! 4, s ! 5]"

text \<open>The check bcrypt makes of a salt or of a stored hash before using it.\<close>

definition valid_setting :: "string \<Rightarrow> bool" where
  "valid_setting s \<longleftrightarrow>
     29 \<le> length s \<and> s ! 0 = CHR ''$'' \<and> s ! 1 = CHR ''2'' \<and> bcrypt_minor_ok (s ! 2) \<and>
     s ! 3 = CHR ''$'' \<and> is_digit (s ! 4) \<and> is_digit (s ! 5) \<and> s ! 6 = CHR ''$'' \<and>
     4 \<le> setting_rounds s \<and> setting_rounds s \<le> 31"

definition bcrypt_key :: "string \<Rightarrow> string" where
  "bcrypt_key pw = take 72 (pw @ [CHR 0x00])"

text \<open>\<open>hash(password, salt)\<close>: the salt may be a full hash; only its setting is used.\<close>

definition bcrypt_hash :: "lib \<Rightarrow> string \<Rightarrow> string \<Rightarrow> hash_error + string" where
  "bcrypt_hash cr pw salt =
     (if valid_setting salt
      then Inr (take 29 salt @ eks_digest cr (take 29 salt) (bcrypt_key pw))
      else Inl InvalidSalt)"

text \<open>\<open>compare(password, hash)\<close>: rehash with the stored string as salt; a stored
  value that is not a bcrypt string compares false, it does not throw.\<close>

definition bcrypt_compare :: "lib \<Rightarrow> string \<Rightarrow> string \<Rightarrow> bool" where
  "bcrypt_compare cr pw h = (case bcrypt_hash cr pw h of Inl _ \<Rightarrow> False | Inr h' \<Rightarrow> h' = h)"

subsection \<open>Lemmas\<close>

lemma two_digits_rounds: "r < 100 \<Longrightarrow> dec_val (two_digits r) = r"
  by (simp add: two_digits_def dec_val_def)

lemma clamp_rounds_bounds: "4 \<le> clamp_rounds r \<and> clamp_rounds r \<le> 31"
  by (simp add: clamp_rounds_def)

lemma gen_salt_length: "length (gen_salt r rnd) = 7 + length rnd"
  by (simp add: gen_salt_def two_digits_def)

lemma gen_salt_rounds: "setting_rounds (gen_salt r rnd) = clamp_rounds r"
proof -
  have "clamp_rounds r < 100" using clamp_rounds_bounds [of r] by simp
  then show ?thesis
    by (simp add: setting_rounds_def gen_salt_def two_digits_def dec_val_def)
qed

lemma gen_salt_valid: "length rnd = 22 \<Longrightarrow> valid_setting (gen_salt r rnd)"
proof -
  assume len: "length rnd = 22"
  have d: "clamp_rounds r div 10 < 10" "clamp_rounds r mod 10 < 10"
    by (auto simp: clamp_rounds_def)
  show ?thesis
    using len d gen_salt_rounds [of r rnd] clamp_rounds_bounds [of r]
    by (simp add: valid_setting_def gen_salt_def two_digits_def bcrypt_minor_ok_def)
qed

lemma valid_setting_take_append:
  "29 \<le> length s \<Longrightarrow> valid_setting (take 29 s @ t) = valid_setting s"
  by (simp add: valid_setting_def setting_rounds_def nth_append)

lemma gen_salt_valid_append: "length rnd = 22 \<Longrightarrow> valid_setting (gen_salt r rnd @ t)"
  using valid_setting_take_append [of "gen_salt r rnd" t]
  by (simp add: gen_salt_length gen_salt_valid)

lemma bcrypt_hash_Inr:
  "bcrypt_hash cr pw salt = Inr h \<Longrightarrow>
     valid_setting salt \<and> h = take 29 salt @ eks_digest cr (take 29 salt) (bcrypt_key pw)"
  by (simp add: bcrypt_hash_def split: if_splits)

lemma valid_setting_length: "valid_setting s \<Longrightarrow> 29 \<le> length s"
  by (simp add: valid_setting_def)

lemma bcrypt_hash_valid: "bcrypt_hash cr pw salt = Inr h \<Longrightarrow> valid_setting h"
proof -
  assume "bcrypt_hash cr pw salt = Inr h"
  then have v: "valid_setting salt"
    and h: "h = take 29 salt @ eks_digest cr (take 29 salt) (bcrypt_key pw)"
    by (auto dest: bcrypt_hash_Inr)
  from v have "29 \<le> length salt" by (rule valid_setting_length)
  with v h show ?thesis by (simp add: valid_setting_take_append)
qed

lemma bcrypt_hash_setting:
  "bcrypt_hash cr pw salt = Inr h \<Longrightarrow> take 29 h = take 29 salt"
  by (auto dest!: bcrypt_hash_Inr dest: valid_setting_length)

lemma bcrypt_compare_iff:
  "bcrypt_compare cr pw h \<longleftrightarrow>
     valid_setting h \<and> h = take 29 h @ eks_digest cr (take 29 h) (bcrypt_key pw)"
  by (auto simp: bcrypt_compare_def bcrypt_hash_def)

lemma bcrypt_key_long:
  "72 \<le> length pw \<Longrightarrow> bcrypt_key (pw @ x) = bcrypt_key pw"
  by (simp add: bcrypt_key_def)

lemma bcrypt_key_short_inj:
  "length p < 72 \<Longrightarrow> length q < 72 \<Longrightarrow> bcrypt_key p = bcrypt_key q \<Longrightarrow> p = q"
  by (simp add: bcrypt_key_def)

lemma bcrypt_hash_gen_salt:
  "length rnd = 22 \<Longrightarrow>
   bcrypt_hash cr pw (gen_salt r rnd) = Inr (gen_salt r rnd @ eks_digest cr (gen_salt r rnd) (bcrypt_key pw))"
  by (simp add: bcrypt_hash_def gen_salt_valid gen_salt_length)

lemma bcrypt_hash_compare: "bcrypt_hash cr pw salt = Inr h \<Longrightarrow> bcrypt_compare cr pw h"
proof -
  assume hs: "bcrypt_hash cr pw salt = Inr h"
  then have v: "valid_setting h" and t: "take 29 h = take 29 salt"
    and h: "h = take 29 salt @ eks_digest cr (take 29 salt) (bcrypt_key pw)"
    by (auto dest: bcrypt_hash_valid bcrypt_hash_setting bcrypt_hash_Inr)
  have "take 29 h @ eks_digest cr (take 29 h) (bcrypt_key pw) = h"
    by (simp only: t h [symmetric])
  with v show ?thesis by (simp add: bcrypt_compare_iff)
qed

subsection \<open>Properties of the password hasher\<close>

text \<open>
  C7. If the digest is injective in the key (the collision resistance bcrypt is trusted
  for), a stored hash of the password \<open>pw\<close> accepts exactly the candidates whose
  bcrypt key equals that of \<open>pw\<close>: the right password passes, and a password that
  differs within its first 72 bytes is rejected.
\<close>

theorem bcrypt_compare_iff_key:
  assumes hs: "bcrypt_hash cr pw salt = Inr h" and inj: "inj (eks_digest cr (take 29 salt))"
  shows "bcrypt_compare cr pw' h \<longleftrightarrow> bcrypt_key pw' = bcrypt_key pw"
proof -
  from hs have v: "valid_setting h" and t: "take 29 h = take 29 salt"
    and h: "h = take 29 salt @ eks_digest cr (take 29 salt) (bcrypt_key pw)"
    by (auto dest: bcrypt_hash_valid bcrypt_hash_setting bcrypt_hash_Inr)
  have "bcrypt_compare cr pw' h \<longleftrightarrow>
      eks_digest cr (take 29 salt) (bcrypt_key pw') = eks_digest cr (take 29 salt) (bcrypt_key pw)"
    using v t h by (auto simp: bcrypt_compare_iff)
  also have "\<dots> \<longleftrightarrow> bcrypt_key pw' = bcrypt_key pw"
    using inj by (simp add: inj_eq)
  finally show ?thesis .
qed

theorem bcrypt_compare_iff_key_witness:
  "bcrypt_hash demo_lib ''s3cret!'' (gen_salt 10 ''abcdefghijklmnopqrstuv'') =
     Inr (gen_salt 10 ''abcdefghijklmnopqrstuv'' @ bcrypt_key ''s3cret!'') \<and>
   inj (eks_digest demo_lib (take 29 (gen_salt 10 ''abcdefghijklmnopqrstuv''))) \<and>
   \<not> bcrypt_compare demo_lib ''wrong'' (gen_salt 10 ''abcdefghijklmnopqrstuv'' @ bcrypt_key ''s3cret!'') \<and>
   bcrypt_compare demo_lib ''s3cret!'' (gen_salt 10 ''abcdefghijklmnopqrstuv'' @ bcrypt_key ''s3cret!'')"
proof -
  have hs: "bcrypt_hash demo_lib ''s3cret!'' (gen_salt 10 ''abcdefghijklmnopqrstuv'') =
     Inr (gen_salt 10 ''abcdefghijklmnopqrstuv'' @ bcrypt_key ''s3cret!'')"
    by (simp add: bcrypt_hash_gen_salt demo_lib_def)
  have inj: "inj (eks_digest demo_lib (take 29 (gen_salt 10 ''abcdefghijklmnopqrstuv'')))"
    by (simp add: demo_lib_def inj_on_def)
  show ?thesis using hs inj bcrypt_compare_iff_key [OF hs inj, of "''wrong''"]
      bcrypt_compare_iff_key [OF hs inj, of "''s3cret!''"]
    by (simp add: bcrypt_key_def)
qed

text \<open>
  C8. bcrypt reads at most 72 bytes of the password: two passwords that agree on their
  first 72 bytes are accepted by the same stored hashes, so appending anything to a
  password of 72 bytes or more changes nothing that \<open>compare\<close> decides.
\<close>

theorem bcrypt_compare_truncates:
  "72 \<le> length pw \<Longrightarrow> bcrypt_compare cr (pw @ x) h = bcrypt_compare cr pw h"
  by (simp add: bcrypt_compare_iff bcrypt_key_long)

theorem bcrypt_compare_truncates_witness:
  "72 \<le> length (replicate 72 CHR ''a'') \<and>
   bcrypt_compare demo_lib (replicate 72 CHR ''a'' @ ''b'')
     (gen_salt 10 ''abcdefghijklmnopqrstuv'' @ bcrypt_key (replicate 72 CHR ''a''))"
proof -
  have l: "72 \<le> length (replicate 72 CHR ''a'')" by simp
  have "bcrypt_compare demo_lib (replicate 72 CHR ''a'')
     (gen_salt 10 ''abcdefghijklmnopqrstuv'' @ bcrypt_key (replicate 72 CHR ''a''))"
    by (rule bcrypt_hash_compare [where salt = "gen_salt 10 ''abcdefghijklmnopqrstuv''"])
      (simp add: bcrypt_hash_gen_salt demo_lib_def)
  then show ?thesis using l bcrypt_compare_truncates [OF l, of demo_lib "''b''"] by simp
qed

text \<open>
  Hashing the same password twice with salts from different random strings gives
  two different stored strings, and the password is accepted by both.
\<close>

theorem bcrypt_distinct_salts:
  assumes l1: "length rnd1 = 22" and l2: "length rnd2 = 22" and ne: "rnd1 \<noteq> rnd2"
    and h1: "bcrypt_hash cr pw (gen_salt r rnd1) = Inr h1"
    and h2: "bcrypt_hash cr pw (gen_salt r rnd2) = Inr h2"
  shows "h1 \<noteq> h2 \<and> bcrypt_compare cr pw h1 \<and> bcrypt_compare cr pw h2"
proof -
  have "take 29 h1 = gen_salt r rnd1" "take 29 h2 = gen_salt r rnd2"
    using h1 h2 l1 l2 by (auto dest!: bcrypt_hash_setting simp: gen_salt_length)
  moreover have "gen_salt r rnd1 \<noteq> gen_salt r rnd2" using ne by (simp add: gen_salt_def)
  ultimately have "h1 \<noteq> h2" by metis
  with h1 h2 show ?thesis by (blast intro: bcrypt_hash_compare)
qed

theorem bcrypt_distinct_salts_witness:
  "length ''abcdefghijklmnopqrstuv'' = 22 \<and> length ''ABCDEFGHIJKLMNOPQRSTUV'' = 22 \<and>
   ''abcdefghijklmnopqrstuv'' \<noteq> ''ABCDEFGHIJKLMNOPQRSTUV'' \<and>
   gen_salt 10 ''abcdefghijklmnopqrstuv'' @ bcrypt_key ''s3cret!'' \<noteq>
   gen_salt 10 ''ABCDEFGHIJKLMNOPQRSTUV'' @ bcrypt_key ''s3cret!''"
proof -
  have l1: "length ''abcdefghijklmnopqrstuv'' = 22" and l2: "length ''ABCDEFGHIJKLMNOPQRSTUV'' = 22"
    and ne: "''abcdefghijklmnopqrstuv'' \<noteq> ''ABCDEFGHIJKLMNOPQRSTUV''" by simp_all
  have h1: "bcrypt_hash demo_lib ''s3cret!'' (gen_salt 10 ''abcdefghijklmnopqrstuv'') =
      Inr (gen_salt 10 ''abcdefghijklmnopqrstuv'' @ bcrypt_key ''s3cret!'')"
    and h2: "bcrypt_hash demo_lib ''s3cret!'' (gen_salt 10 ''ABCDEFGHIJKLMNOPQRSTUV'') =
      Inr (gen_salt 10 ''ABCDEFGHIJKLMNOPQRSTUV'' @ bcrypt_key ''s3cret!'')"
    by (simp_all add: bcrypt_hash_gen_salt demo_lib_def)
  show ?thesis using l1 l2 ne bcrypt_distinct_salts [OF l1 l2 ne h1 h2] by simp
qed
end
