(* ===== verification/Jwt.thy ===== *)
theory Jwt
  imports Base64 "HOL-Library.Monad_Syntax"
begin

text \<open>
  The token issuer and verifier: the two calls of the \<open>jsonwebtoken\<close> library the
  program makes, \<open>jwt.sign({ id: user._id }, process.env.JWT_SECRET, { expiresIn:
  '24h' })\<close> in \<open>loginUser\<close> and \<open>jwt.verify\<close> in the authorization middleware.
  The library is not part of the repository; it is modelled from its documented
  behaviour and from the spec (section 4.3): the payload \<open>{"id":..,"iat":..,"exp":..}\<close>
  with \<open>exp = iat + 86400\<close>, the compact form \<open>header.payload.signature\<close> signed
  with HMAC-SHA256 (the parameter \<open>hmac_sha256\<close> of \<^typ>\<open>lib\<close>), and a
  verification that rejects a missing secret, a token that is not three segments, a
  payload it cannot decode, a header other than HS256, a signature that differs from
  the one recomputed with the secret, and an expiry at or before the current second.
  The three segments are the base64url encodings (theory \<open>Base64\<close>) of the header's
  JSON, of the payload's JSON and of the 32 bytes of the MAC, which is computed over
  the first two segments as they appear in the token.
\<close>

unbundle bit_operations_syntax

record claims =
  c_id :: oid
  c_iat :: seconds
  c_exp :: seconds

datatype jwt_error =
  SecretMissing | Malformed | InvalidToken | InvalidAlgorithm | InvalidSignature | TokenExpired

definition token_ttl :: seconds where
  "token_ttl = 86400" \<comment> \<open>\<open>expiresIn: '24h'\<close>\<close>

definition jwt_header :: string where
  \<open>jwt_header = ''{"alg":"HS256","typ":"JWT"}''\<close>

definition encode_claims :: "claims \<Rightarrow> string" where
  \<open>encode_claims c =
     ''{"id":"'' @ nat_to_dec (c_id c) @ ''","iat":'' @ nat_to_dec (c_iat c) @
     '',"exp":'' @ nat_to_dec (c_exp c) @ ''}''\<close>

definition decode_claims :: "string \<Rightarrow> claims option" where
  \<open>decode_claims s = do {
     r1 \<leftarrow> strip_prefix ''{"id":"'' s;
     (id_t, r2) \<leftarrow> split_at CHR ''"'' r1;
     r3 \<leftarrow> strip_prefix '',"iat":'' r2;
     (iat_t, r4) \<leftarrow> split_at CHR '','' r3;
     r5 \<leftarrow> strip_prefix ''"exp":'' r4;
     (exp_t, r6) \<leftarrow> split_at CHR ''}'' r5;
     if r6 \<noteq> [] then None
     else do {
       i \<leftarrow> dec_to_nat id_t;
       a \<leftarrow> dec_to_nat iat_t;
       e \<leftarrow> dec_to_nat exp_t;
       Some \<lparr>c_id = i, c_iat = a, c_exp = e\<rparr>
     }
   }\<close>

definition signing_input :: "string \<Rightarrow> string \<Rightarrow> string" where
  "signing_input h p = h @ ''.'' @ p"

definition jwt_encode :: "lib \<Rightarrow> string \<Rightarrow> claims \<Rightarrow> string" where
  "jwt_encode cr k c =
     (let m = signing_input (b64_encode jwt_header) (b64_encode (encode_claims c)) in
      m @ ''.'' @ b64_encode (hmac_sha256 cr k m))"

text \<open>A secret is usable when it is defined and not the empty string.\<close>

definition usable_secret :: "string option \<Rightarrow> string option" where
  "usable_secret sec = (case sec of None \<Rightarrow> None | Some k \<Rightarrow> if k = [] then None else Some k)"

definition jwt_sign :: "lib \<Rightarrow> string option \<Rightarrow> seconds \<Rightarrow> oid \<Rightarrow> jwt_error + string" where
  "jwt_sign cr sec now i =
     (case usable_secret sec of
        None \<Rightarrow> Inl SecretMissing
      | Some k \<Rightarrow> Inr (jwt_encode cr k \<lparr>c_id = i, c_iat = now, c_exp = now + token_ttl\<rparr>))"

text \<open>\<open>token.split('.')\<close> must give exactly three segments.\<close>

definition jwt_split :: "string \<Rightarrow> (string \<times> string \<times> string) option" where
  "jwt_split t =
     (case split_at CHR ''.'' t of
        None \<Rightarrow> None
      | Some (h, r) \<Rightarrow>
          (case split_at CHR ''.'' r of
             None \<Rightarrow> None
           | Some (p, s) \<Rightarrow> if CHR ''.'' \<in> set s then None else Some (h, p, s)))"

definition jwt_verify :: "lib \<Rightarrow> string option \<Rightarrow> seconds \<Rightarrow> string \<Rightarrow> jwt_error + claims" where
  "jwt_verify cr sec now t =
     (case usable_secret sec of
        None \<Rightarrow> Inl SecretMissing
      | Some k \<Rightarrow>
          (case jwt_split t of
             None \<Rightarrow> Inl Malformed
           | Some (h, p, s) \<Rightarrow>
               (case Option.bind (b64_decode p) decode_claims of
                  None \<Rightarrow> Inl InvalidToken
                | Some c \<Rightarrow>
                    if b64_decode h \<noteq> Some jwt_header then Inl InvalidAlgorithm
                    else if b64_encode (hmac_sha256 cr k (signing_input h p)) \<noteq> s
                    then Inl InvalidSignature
                    else if c_exp c \<le> now then Inl TokenExpired
                    else Inr c)))"

text \<open>The tampering of the spec's section 8: bit \<open>j\<close> of byte \<open>i\<close> of a raw signature
  flipped.\<close>

definition flip_bit :: "nat \<Rightarrow> nat \<Rightarrow> string \<Rightarrow> string" where
  "flip_bit i j s = s[i := char_of (of_char (s ! i) XOR (2::nat) ^ j)]"

subsection \<open>Lemmas\<close>

lemma jwt_header_no_dot [simp]: "CHR ''.'' \<notin> set jwt_header"
  by (simp add: jwt_header_def)

lemma encode_claims_no_dot [simp]: "CHR ''.'' \<notin> set (encode_claims c)"
  by (simp add: encode_claims_def)

lemma decode_encode_claims [simp]: "decode_claims (encode_claims c) = Some c"
  by (simp add: decode_claims_def encode_claims_def)

lemma jwt_split_join:
  assumes "CHR ''.'' \<notin> set h" "CHR ''.'' \<notin> set p" "CHR ''.'' \<notin> set s"
  shows "jwt_split (h @ ''.'' @ p @ ''.'' @ s) = Some (h, p, s)"
  using assms by (simp add: jwt_split_def)

lemma jwt_split_Some:
  "jwt_split t = Some (h, p, s) \<Longrightarrow> t = h @ ''.'' @ p @ ''.'' @ s"
  by (auto simp: jwt_split_def split: option.splits if_splits dest!: split_at_Some)

lemma jwt_sign_Inr:
  "jwt_sign cr sec now i = Inr t \<Longrightarrow>
   \<exists>k. usable_secret sec = Some k \<and>
       t = jwt_encode cr k \<lparr>c_id = i, c_iat = now, c_exp = now + token_ttl\<rparr>"
  by (simp add: jwt_sign_def split: option.splits)

lemma usable_secret_Some: "usable_secret sec = Some k \<Longrightarrow> sec = Some k \<and> k \<noteq> []"
  by (simp add: usable_secret_def split: option.splits if_splits)

lemma jwt_encode_split:
  "jwt_split (jwt_encode cr k c) =
     Some (b64_encode jwt_header, b64_encode (encode_claims c),
       b64_encode (hmac_sha256 cr k (signing_input (b64_encode jwt_header) (b64_encode (encode_claims c)))))"
  using jwt_split_join [of "b64_encode jwt_header" "b64_encode (encode_claims c)"]
  by (simp add: jwt_encode_def signing_input_def)

lemma jwt_verify_encode:
  "usable_secret sec = Some k \<Longrightarrow>
   jwt_verify cr sec now (jwt_encode cr k c) = (if c_exp c \<le> now then Inl TokenExpired else Inr c)"
  by (simp add: jwt_verify_def jwt_encode_split)

lemma usable_secret_simps [simp]:
  "usable_secret None = None" "usable_secret (Some (c # k)) = Some (c # k)"
  by (simp_all add: usable_secret_def)

lemma char_flip_neq: "j < 8 \<Longrightarrow> char_of (of_char c XOR (2::nat) ^ j) \<noteq> c"
proof
  assume j: "j < 8" and eq: "char_of (of_char c XOR (2::nat) ^ j) = c"
  have "of_char (char_of (of_char c XOR (2::nat) ^ j)) = (of_char c XOR (2::nat) ^ j) mod 256"
    by (rule of_char_of)
  then have "(of_char c XOR (2::nat) ^ j) mod 256 = of_char c" using eq by simp
  then have "bit ((of_char c XOR (2::nat) ^ j) mod 256) j = bit (of_char c :: nat) j" by simp
  moreover have "bit ((of_char c XOR (2::nat) ^ j) mod 256) j = bit (of_char c XOR (2::nat) ^ j) j"
    using j bit_take_bit_iff [where m = 8 and n = j and a = "of_char c XOR (2::nat) ^ j"]
    by (simp add: take_bit_eq_mod)
  moreover have "bit (of_char c XOR (2::nat) ^ j) j = (\<not> bit (of_char c :: nat) j)"
    by (simp add: bit_xor_iff bit_exp_iff)
  ultimately show False by simp
qed

lemma flip_bit_changes: "i < length s \<Longrightarrow> j < 8 \<Longrightarrow> flip_bit i j s \<noteq> s"
proof
  assume i: "i < length s" and j: "j < 8" and eq: "flip_bit i j s = s"
  have "flip_bit i j s ! i = char_of (of_char (s ! i) XOR (2::nat) ^ j)"
    using i by (simp add: flip_bit_def)
  with eq char_flip_neq [OF j, of "s ! i"] show False by simp
qed

subsection \<open>Properties of the token component\<close>

text \<open>
  C3. Authenticity: every token that \<open>jwt_verify\<close> accepts is a header segment and a
  payload segment followed by the base64url HMAC of exactly those two segments under
  the server's secret; the header decodes to the HS256 header, the payload decodes to
  the claims returned, and those claims have not expired.
\<close>

theorem jwt_verify_authentic:
  assumes "jwt_verify cr sec now t = Inr c"
  shows "\<exists>k h p. usable_secret sec = Some k \<and>
           t = signing_input h p @ ''.'' @ b64_encode (hmac_sha256 cr k (signing_input h p)) \<and>
           b64_decode h = Some jwt_header \<and> Option.bind (b64_decode p) decode_claims = Some c \<and>
           now < c_exp c"
proof -
  from assms obtain k where k: "usable_secret sec = Some k"
    by (auto simp: jwt_verify_def split: option.splits)
  with assms obtain h p s where sp: "jwt_split t = Some (h, p, s)"
    by (auto simp: jwt_verify_def split: option.splits)
  with k assms have v: "b64_decode h = Some jwt_header"
    "Option.bind (b64_decode p) decode_claims = Some c"
    "s = b64_encode (hmac_sha256 cr k (signing_input h p))" "now < c_exp c"
    by (auto simp: jwt_verify_def split: option.splits if_splits)
  have "t = signing_input h p @ ''.'' @ s"
    using jwt_split_Some [OF sp] by (simp add: signing_input_def)
  with k v show ?thesis by (intro exI [of _ k] exI [of _ h] exI [of _ p]) simp
qed

theorem jwt_verify_authentic_witness:
  "jwt_verify demo_lib (Some ''key'') 200
     (jwt_encode demo_lib ''key'' \<lparr>c_id = 7, c_iat = 100, c_exp = 300\<rparr>) =
     Inr \<lparr>c_id = 7, c_iat = 100, c_exp = 300\<rparr> \<and>
   (\<exists>k h p. usable_secret (Some ''key'') = Some k \<and>
      jwt_encode demo_lib ''key'' \<lparr>c_id = 7, c_iat = 100, c_exp = 300\<rparr> =
        signing_input h p @ ''.'' @ b64_encode (hmac_sha256 demo_lib k (signing_input h p)) \<and>
      b64_decode h = Some jwt_header \<and>
      Option.bind (b64_decode p) decode_claims = Some \<lparr>c_id = 7, c_iat = 100, c_exp = 300\<rparr> \<and>
      (200::nat) < c_exp \<lparr>c_id = 7, c_iat = 100, c_exp = 300\<rparr>)"
proof -
  have v: "jwt_verify demo_lib (Some ''key'') 200
     (jwt_encode demo_lib ''key'' \<lparr>c_id = 7, c_iat = 100, c_exp = 300\<rparr>) =
     Inr \<lparr>c_id = 7, c_iat = 100, c_exp = 300\<rparr>"
    by (simp add: jwt_verify_encode)
  show ?thesis using v jwt_verify_authentic [OF v] by simp
qed

text \<open>
  C4. A token issued by \<open>jwt_sign\<close> at second \<open>now\<close> for the id \<open>i\<close> is accepted
  by \<open>jwt_verify\<close> with the same secret at any second before \<open>now + 86400\<close>, and it
  resolves to the claims \<open>{id: i, iat: now, exp: now + 86400}\<close>.
\<close>

theorem jwt_verify_sign:
  assumes sign: "jwt_sign cr sec now i = Inr t"
    and fresh: "now' < now + token_ttl"
  shows "jwt_verify cr sec now' t = Inr \<lparr>c_id = i, c_iat = now, c_exp = now + token_ttl\<rparr>"
proof -
  from sign obtain k where k: "usable_secret sec = Some k"
    and t: "t = jwt_encode cr k \<lparr>c_id = i, c_iat = now, c_exp = now + token_ttl\<rparr>"
    by (blast dest: jwt_sign_Inr)
  show ?thesis using fresh by (simp add: t jwt_verify_encode [OF k])
qed

theorem jwt_verify_sign_witness:
  "jwt_sign demo_lib (Some ''key'') 100 7 = Inr
     (jwt_encode demo_lib ''key'' \<lparr>c_id = 7, c_iat = 100, c_exp = 100 + token_ttl\<rparr>) \<and>
   (200::nat) < 100 + token_ttl \<and>
   jwt_verify demo_lib (Some ''key'') 200
     (jwt_encode demo_lib ''key'' \<lparr>c_id = 7, c_iat = 100, c_exp = 100 + token_ttl\<rparr>) =
   Inr \<lparr>c_id = 7, c_iat = 100, c_exp = 100 + token_ttl\<rparr>"
proof -
  have s: "jwt_sign demo_lib (Some ''key'') 100 7 = Inr
     (jwt_encode demo_lib ''key'' \<lparr>c_id = 7, c_iat = 100, c_exp = 100 + token_ttl\<rparr>)"
    by (simp add: jwt_sign_def)
  have f: "(200::nat) < 100 + token_ttl" by (simp add: token_ttl_def)
  show ?thesis using s f jwt_verify_sign [OF s f] by simp
qed

text \<open>
  C5. A token with a valid signature is rejected as expired from the second
  \<open>now + 86400\<close> on.
\<close>

theorem jwt_verify_expired:
  assumes sign: "jwt_sign cr sec now i = Inr t"
    and late: "now + token_ttl \<le> now'"
  shows "jwt_verify cr sec now' t = Inl TokenExpired"
proof -
  from sign obtain k where k: "usable_secret sec = Some k"
    and t: "t = jwt_encode cr k \<lparr>c_id = i, c_iat = now, c_exp = now + token_ttl\<rparr>"
    by (blast dest: jwt_sign_Inr)
  show ?thesis using late by (simp add: t jwt_verify_encode [OF k])
qed

theorem jwt_verify_expired_witness:
  "jwt_sign demo_lib (Some ''key'') 100 7 = Inr
     (jwt_encode demo_lib ''key'' \<lparr>c_id = 7, c_iat = 100, c_exp = 100 + token_ttl\<rparr>) \<and>
   100 + token_ttl \<le> 100 + token_ttl \<and>
   jwt_verify demo_lib (Some ''key'') (100 + token_ttl)
     (jwt_encode demo_lib ''key'' \<lparr>c_id = 7, c_iat = 100, c_exp = 100 + token_ttl\<rparr>) =
   Inl TokenExpired"
proof -
  have s: "jwt_sign demo_lib (Some ''key'') 100 7 = Inr
     (jwt_encode demo_lib ''key'' \<lparr>c_id = 7, c_iat = 100, c_exp = 100 + token_ttl\<rparr>)"
    by (simp add: jwt_sign_def)
  have l: "100 + token_ttl \<le> 100 + token_ttl" by simp
  show ?thesis using s jwt_verify_expired [OF s l] by simp
qed

text \<open>
  C6. Replacing the signature segment of a token by any other string (one flipped bit
  included) makes \<open>jwt_verify\<close> reject it, whatever the current time.
\<close>

theorem jwt_verify_altered_signature:
  assumes k: "usable_secret sec = Some k"
    and s: "s \<noteq> b64_encode (hmac_sha256 cr k
              (signing_input (b64_encode jwt_header) (b64_encode (encode_claims c))))"
  shows "isl (jwt_verify cr sec now
           (signing_input (b64_encode jwt_header) (b64_encode (encode_claims c)) @ ''.'' @ s))"
proof (cases "CHR ''.'' \<in> set s")
  case True
  have "jwt_split (signing_input (b64_encode jwt_header) (b64_encode (encode_claims c)) @ ''.'' @ s) =
      None"
    using True by (simp add: jwt_split_def signing_input_def)
  with k show ?thesis by (simp add: jwt_verify_def)
next
  case False
  then have "jwt_split (signing_input (b64_encode jwt_header) (b64_encode (encode_claims c)) @ ''.'' @ s) =
      Some (b64_encode jwt_header, b64_encode (encode_claims c), s)"
    using jwt_split_join [of "b64_encode jwt_header" "b64_encode (encode_claims c)" s]
    by (simp add: signing_input_def)
  with k s show ?thesis by (simp add: jwt_verify_def)
qed

theorem jwt_verify_altered_signature_witness:
  "usable_secret (Some ''key'') = Some ''key'' \<and>
   ''kez'' \<noteq> b64_encode (hmac_sha256 demo_lib ''key'' (signing_input (b64_encode jwt_header)
      (b64_encode (encode_claims \<lparr>c_id = 7, c_iat = 100, c_exp = 100 + token_ttl\<rparr>)))) \<and>
   isl (jwt_verify demo_lib (Some ''key'') 200 (signing_input (b64_encode jwt_header)
      (b64_encode (encode_claims \<lparr>c_id = 7, c_iat = 100, c_exp = 100 + token_ttl\<rparr>)) @ ''.'' @ ''kez''))"
proof -
  have k: "usable_secret (Some ''key'') = Some ''key''" by simp
  have s: "''kez'' \<noteq> b64_encode (hmac_sha256 demo_lib ''key'' (signing_input (b64_encode jwt_header)
      (b64_encode (encode_claims \<lparr>c_id = 7, c_iat = 100, c_exp = 100 + token_ttl\<rparr>))))"
    by (simp add: demo_lib_def b64_char_def b64_alphabet_def)
  show ?thesis using k s jwt_verify_altered_signature [OF k s] by simp
qed

text \<open>
  C26. Every token \<open>jwt_sign\<close> issues is three base64url segments: the header segment
  decodes to the HS256 header, the payload segment decodes to the claims
  \<open>{id: i, iat: now, exp: now + 86400}\<close>, and every character of the token other than
  the two separators is a letter of the base64url alphabet.
\<close>

theorem jwt_sign_segments:
  assumes sign: "jwt_sign cr sec now i = Inr t"
  shows "\<exists>h p s. jwt_split t = Some (h, p, s) \<and> b64_decode h = Some jwt_header \<and>
           Option.bind (b64_decode p) decode_claims = Some \<lparr>c_id = i, c_iat = now, c_exp = now + token_ttl\<rparr> \<and>
           set (h @ p @ s) \<subseteq> set b64_alphabet"
proof -
  from sign obtain k where t: "t = jwt_encode cr k \<lparr>c_id = i, c_iat = now, c_exp = now + token_ttl\<rparr>"
    by (blast dest: jwt_sign_Inr)
  show ?thesis by (simp add: t jwt_encode_split b64_encode_alphabet)
qed

theorem jwt_sign_segments_witness:
  "jwt_sign demo_lib (Some ''key'') 100 7 = Inr
     (jwt_encode demo_lib ''key'' \<lparr>c_id = 7, c_iat = 100, c_exp = 100 + token_ttl\<rparr>) \<and>
   (\<exists>h p s. jwt_split (jwt_encode demo_lib ''key'' \<lparr>c_id = 7, c_iat = 100, c_exp = 100 + token_ttl\<rparr>) =
      Some (h, p, s) \<and> b64_decode h = Some jwt_header \<and>
      Option.bind (b64_decode p) decode_claims = Some \<lparr>c_id = 7, c_iat = 100, c_exp = 100 + token_ttl\<rparr> \<and>
      set (h @ p @ s) \<subseteq> set b64_alphabet)"
proof -
  have s: "jwt_sign demo_lib (Some ''key'') 100 7 = Inr
     (jwt_encode demo_lib ''key'' \<lparr>c_id = 7, c_iat = 100, c_exp = 100 + token_ttl\<rparr>)"
    by (simp add: jwt_sign_def)
  show ?thesis using s jwt_sign_segments [OF s] by simp
qed

text \<open>
  A token \<open>jwt_sign\<close> issues is its signing input followed by the base64url
  signature; the same signing input with any single bit of the raw signature flipped
  is rejected by \<open>jwt_verify\<close>, whatever the current time.
\<close>

theorem jwt_verify_flipped_bit:
  assumes sign: "jwt_sign cr sec now n = Inr t" and k: "usable_secret sec = Some k"
    and i: "i < length (hmac_sha256 cr k (signing_input (b64_encode jwt_header) (b64_encode (encode_claims \<lparr>c_id = n, c_iat = now, c_exp = now + token_ttl\<rparr>))))"
    and j: "j < 8"
  shows "t = signing_input (b64_encode jwt_header) (b64_encode (encode_claims \<lparr>c_id = n, c_iat = now, c_exp = now + token_ttl\<rparr>)) @ ''.'' @
           b64_encode (hmac_sha256 cr k (signing_input (b64_encode jwt_header) (b64_encode (encode_claims \<lparr>c_id = n, c_iat = now, c_exp = now + token_ttl\<rparr>)))) \<and>
         isl (jwt_verify cr sec now' (signing_input (b64_encode jwt_header) (b64_encode (encode_claims \<lparr>c_id = n, c_iat = now, c_exp = now + token_ttl\<rparr>)) @ ''.'' @
           b64_encode (flip_bit i j (hmac_sha256 cr k (signing_input (b64_encode jwt_header) (b64_encode (encode_claims \<lparr>c_id = n, c_iat = now, c_exp = now + token_ttl\<rparr>)))))))"
proof -
  let ?m = "signing_input (b64_encode jwt_header) (b64_encode (encode_claims \<lparr>c_id = n, c_iat = now, c_exp = now + token_ttl\<rparr>))"
  have t: "t = ?m @ ''.'' @ b64_encode (hmac_sha256 cr k ?m)"
    using sign k by (simp add: jwt_sign_def jwt_encode_def Let_def)
  have ne: "b64_encode (flip_bit i j (hmac_sha256 cr k ?m)) \<noteq> b64_encode (hmac_sha256 cr k ?m)"
    using flip_bit_changes [OF i j] by (blast dest: b64_encode_inj)
  have "jwt_split (?m @ ''.'' @ b64_encode (flip_bit i j (hmac_sha256 cr k ?m))) =
      Some (b64_encode jwt_header, b64_encode (encode_claims \<lparr>c_id = n, c_iat = now, c_exp = now + token_ttl\<rparr>), b64_encode (flip_bit i j (hmac_sha256 cr k ?m)))"
    using jwt_split_join [of "b64_encode jwt_header" "b64_encode (encode_claims \<lparr>c_id = n, c_iat = now, c_exp = now + token_ttl\<rparr>)"]
    by (simp add: signing_input_def)
  with k ne t show ?thesis by (simp add: jwt_verify_def)
qed

theorem jwt_verify_flipped_bit_witness:
  "jwt_sign demo_lib (Some ''key'') 100 7 = Inr
     (signing_input (b64_encode jwt_header) (b64_encode (encode_claims \<lparr>c_id = 7, c_iat = 100, c_exp = 100 + token_ttl\<rparr>)) @ ''.'' @
      b64_encode (hmac_sha256 demo_lib ''key'' (signing_input (b64_encode jwt_header) (b64_encode (encode_claims \<lparr>c_id = 7, c_iat = 100, c_exp = 100 + token_ttl\<rparr>))))) \<and>
   usable_secret (Some ''key'') = Some ''key'' \<and>
   0 < length (hmac_sha256 demo_lib ''key'' (signing_input (b64_encode jwt_header) (b64_encode (encode_claims \<lparr>c_id = 7, c_iat = 100, c_exp = 100 + token_ttl\<rparr>)))) \<and>
   (0::nat) < 8 \<and>
   isl (jwt_verify demo_lib (Some ''key'') 200 (signing_input (b64_encode jwt_header) (b64_encode (encode_claims \<lparr>c_id = 7, c_iat = 100, c_exp = 100 + token_ttl\<rparr>)) @ ''.'' @
     b64_encode (flip_bit 0 0 (hmac_sha256 demo_lib ''key'' (signing_input (b64_encode jwt_header) (b64_encode (encode_claims \<lparr>c_id = 7, c_iat = 100, c_exp = 100 + token_ttl\<rparr>)))))))"
proof -
  have s: "jwt_sign demo_lib (Some ''key'') 100 7 = Inr
     (signing_input (b64_encode jwt_header) (b64_encode (encode_claims \<lparr>c_id = 7, c_iat = 100, c_exp = 100 + token_ttl\<rparr>)) @ ''.'' @
      b64_encode (hmac_sha256 demo_lib ''key'' (signing_input (b64_encode jwt_header) (b64_encode (encode_claims \<lparr>c_id = 7, c_iat = 100, c_exp = 100 + token_ttl\<rparr>)))))"
    by (simp add: jwt_sign_def jwt_encode_def Let_def)
  have k: "usable_secret (Some ''key'') = Some ''key''" by simp
  have i: "0 < length (hmac_sha256 demo_lib ''key'' (signing_input (b64_encode jwt_header) (b64_encode (encode_claims \<lparr>c_id = 7, c_iat = 100, c_exp = 100 + token_ttl\<rparr>))))"
    by (simp add: demo_lib_def)
  have j: "(0::nat) < 8" by simp
  show ?thesis using s k i j jwt_verify_flipped_bit [OF s k i j, of 200] by simp
qed

end
