(* ===== verification/Users.thy ===== *)
theory Users
  imports Bcrypt
begin

text \<open>
  The credential store: the \<open>User\<close> model of \<open>src/src/models/User.js\<close> and the
  MongoDB collection behind it. A document has the schema's two paths, the ObjectId
  mongoose gives it at construction, and mongoose's record of whether \<open>password\<close>
  was modified since the last save. The collection is a list in insertion order (the
  order \<open>findOne\<close> scans it) with the ObjectId counter; the schema's
  \<open>unique: true\<close> on \<open>username\<close> is the unique index that makes an insert of a
  second document with the same username fail with a duplicate-key error.
  \<open>save()\<close> runs the schema validation, then the pre-save hook that hashes the
  password (lines 11-16), then the insert. \<open>findOne\<close> against a database that
  does not answer (\<open>user_find_one_at False\<close>) rejects.
\<close>

record user_doc =
  uid :: oid
  username :: string
  password :: string
  pw_modified :: bool

record user_db =
  users :: "user_doc list"
  next_oid :: oid

datatype save_error = ValidationError string | DuplicateKey | HashError hash_error

datatype query_error = CastError | StoreUnreachable

definition empty_user_db :: user_db where
  "empty_user_db = \<lparr>users = [], next_oid = 0\<rparr>"

text \<open>\<open>new User({ username, password })\<close>: a fresh ObjectId, both paths modified.\<close>

definition new_user :: "user_db \<Rightarrow> string \<Rightarrow> string \<Rightarrow> user_db \<times> user_doc" where
  "new_user db u p =
     (db\<lparr>next_oid := Suc (next_oid db)\<rparr>,
      \<lparr>uid = next_oid db, username = u, password = p, pw_modified = True\<rparr>)"

text \<open>The schema's \<open>required: true\<close> on both paths: mongoose rejects a missing or
  empty string.\<close>

definition user_validate :: "user_doc \<Rightarrow> save_error option" where
  "user_validate d =
     (if username d = [] then Some (ValidationError ''username'')
      else if password d = [] then Some (ValidationError ''password'')
      else None)"

text \<open>The pre-save hook: unless the password is unmodified, replace it by its bcrypt
  hash under a fresh salt of cost 10 (\<open>rnd\<close> is the salt's random part).\<close>

definition user_pre_save :: "lib \<Rightarrow> string \<Rightarrow> user_doc \<Rightarrow> hash_error + user_doc" where
  "user_pre_save cr rnd d =
     (if \<not> pw_modified d then Inr d
      else (case bcrypt_hash cr (password d) (gen_salt 10 rnd) of
              Inl e \<Rightarrow> Inl e
            | Inr h \<Rightarrow> Inr (d\<lparr>password := h\<rparr>)))"

text \<open>The first document with a given username, the lookup the unique index makes.\<close>

definition find_by_username :: "user_db \<Rightarrow> string \<Rightarrow> user_doc option" where
  "find_by_username db u = find (\<lambda>d. username d = u) (users db)"

text \<open>
  The condition \<open>{ username: v }\<close> on the string path, as mongoose casts it before the
  query is sent: null matches no stored username, an array or an object with a
  \<open>$\<close>-key is a query operator (the abstract \<^const>\<open>op_filter\<close>), and any other value
  is cast to a string and compared for equality, a failing cast being a CastError.
\<close>

definition filter_cast :: "lib \<Rightarrow> json \<Rightarrow> (string \<Rightarrow> bool) option" where
  "filter_cast cr v =
     (case v of
        JNull \<Rightarrow> Some (\<lambda>s. False)
      | JArr vs \<Rightarrow> op_filter cr v
      | JObj ms \<Rightarrow>
          if list_ex (\<lambda>(k, x). take 1 k = ''$'') ms then op_filter cr v
          else map_option (\<lambda>t s. s = t) (cast_string v)
      | _ \<Rightarrow> map_option (\<lambda>t s. s = t) (cast_string v))"

text \<open>\<open>User.findOne({ username })\<close>: the first document in insertion order that satisfies
  the cast condition, or the CastError with which the promise rejects.\<close>

definition user_find_one :: "lib \<Rightarrow> user_db \<Rightarrow> json \<Rightarrow> query_error + user_doc option" where
  "user_find_one cr db v =
     (case filter_cast cr v of
        None \<Rightarrow> Inl CastError
      | Some P \<Rightarrow> Inr (find (\<lambda>d. P (username d)) (users db)))"

text \<open>The same query when the database may be unreachable (\<open>up\<close> false): Mongoose
  still casts the filter, so a CastError rejects as before, and otherwise buffers the
  query until it rejects; nothing is read.\<close>

definition user_find_one_at :: "bool \<Rightarrow> lib \<Rightarrow> user_db \<Rightarrow> json \<Rightarrow> query_error + user_doc option" where
  "user_find_one_at up cr db v =
     (case user_find_one cr db v of
        Inl e \<Rightarrow> Inl e
      | Inr r \<Rightarrow> if up then Inr r else Inl StoreUnreachable)"

text \<open>The insert under the unique index on \<open>username\<close>.\<close>

definition user_insert :: "user_db \<Rightarrow> user_doc \<Rightarrow> save_error + user_db" where
  "user_insert db d =
     (if find_by_username db (username d) \<noteq> None then Inl DuplicateKey
      else Inr (db\<lparr>users := users db @ [d\<lparr>pw_modified := False\<rparr>]\<rparr>))"

definition user_save :: "lib \<Rightarrow> string \<Rightarrow> user_db \<Rightarrow> user_doc \<Rightarrow> save_error + user_db" where
  "user_save cr rnd db d =
     (case user_validate d of
        Some e \<Rightarrow> Inl e
      | None \<Rightarrow>
          (case user_pre_save cr rnd d of
             Inl e \<Rightarrow> Inl (HashError e)
           | Inr d' \<Rightarrow> user_insert db d'))"

text \<open>\<open>userSchema.methods.comparePassword\<close>: \<open>bcrypt.compare\<close> of the candidate, as the
  request gave it, with the stored hash; \<open>bcrypt.compare\<close> rejects a candidate that
  is not a string (\<open>None\<close>).\<close>

definition comparePassword :: "lib \<Rightarrow> user_doc \<Rightarrow> json \<Rightarrow> bool option" where
  "comparePassword cr d v =
     (case v of JStr pw \<Rightarrow> Some (bcrypt_compare cr pw (password d)) | _ \<Rightarrow> None)"

text \<open>
  The invariant of the collection: usernames and ObjectIds are unique, every ObjectId
  was allocated before, and every stored password is a bcrypt string saved as such.
\<close>

definition user_db_inv :: "user_db \<Rightarrow> bool" where
  "user_db_inv db \<longleftrightarrow>
     distinct (map username (users db)) \<and> distinct (map uid (users db)) \<and>
     list_all (\<lambda>d. uid d < next_oid db \<and> valid_setting (password d) \<and> \<not> pw_modified d)
       (users db)"

subsection \<open>Lemmas\<close>

lemma find_by_username_None:
  "find_by_username db u = None \<longleftrightarrow> u \<notin> username ` set (users db)"
  by (auto simp: find_by_username_def find_None_iff)

lemma find_by_username_Some:
  "find_by_username db u = Some d \<Longrightarrow> d \<in> set (users db) \<and> username d = u"
  by (auto simp: find_by_username_def dest: find_Some_iff [THEN iffD1])

lemma find_username_distinct:
  "distinct (map username xs) \<Longrightarrow> d \<in> set xs \<Longrightarrow>
   find (\<lambda>e. username e = username d) xs = Some d"
  by (induction xs) (auto simp: image_iff)

lemma find_by_username_unique:
  "distinct (map username (users db)) \<Longrightarrow> d \<in> set (users db) \<Longrightarrow>
   find_by_username db (username d) = Some d"
  by (simp add: find_by_username_def find_username_distinct)

lemma find_by_username_append_new:
  "find_by_username db u = None \<Longrightarrow> username d = u \<Longrightarrow>
   find_by_username \<lparr>users = users db @ [d], next_oid = n\<rparr> u = Some d"
  by (simp add: find_by_username_def find_snoc_new)

lemma user_db_inv_empty: "user_db_inv empty_user_db"
  by (simp add: user_db_inv_def empty_user_db_def)

lemma user_pre_save_Inr:
  "user_pre_save cr rnd d = Inr d' \<Longrightarrow> pw_modified d \<Longrightarrow>
   bcrypt_hash cr (password d) (gen_salt 10 rnd) = Inr (password d') \<and>
   d' = d\<lparr>password := password d'\<rparr>"
  by (auto simp: user_pre_save_def split: sum.splits)

lemma user_save_Inr:
  "user_save cr rnd db d = Inr db' \<Longrightarrow>
   \<exists>d'. user_pre_save cr rnd d = Inr d' \<and> find_by_username db (username d) = None \<and>
        users db' = users db @ [d'\<lparr>pw_modified := False\<rparr>] \<and> next_oid db' = next_oid db \<and>
        username d' = username d \<and> uid d' = uid d"
  by (auto simp: user_save_def user_insert_def user_pre_save_def
      split: option.splits sum.splits if_splits)

lemma user_find_one_at_True [simp]: "user_find_one_at True = user_find_one"
  by (intro ext) (simp add: user_find_one_at_def split: sum.split)

lemma user_find_one_at_False: "isl (user_find_one_at False cr db v)"
  by (simp add: user_find_one_at_def split: sum.split)

lemma user_find_one_str [simp]: "user_find_one cr db (JStr u) = Inr (find_by_username db u)"
  by (simp add: user_find_one_def filter_cast_def cast_string_def find_by_username_def)

lemma comparePassword_str [simp]:
  "comparePassword cr d (JStr p) = Some (bcrypt_compare cr p (password d))"
  by (simp add: comparePassword_def)

lemma new_user_inv:
  "user_db_inv db \<Longrightarrow> new_user db u p = (db', d) \<Longrightarrow>
   user_db_inv db' \<and> uid d = next_oid db \<and> next_oid db' = Suc (next_oid db) \<and> users db' = users db"
  by (auto simp: new_user_def user_db_inv_def list_all_iff less_Suc_eq)

end
