(* ===== verification/AuthController.thy ===== *)
theory AuthController
  imports Users Jwt
begin

text \<open>
  The two handlers of \<open>src/src/controllers/authController.js\<close>. A handler takes
  the request body and returns the HTTP status with the JSON body it sends; registration
  also returns the new state of the user collection. Registration awaits twice: the
  checks up to \<open>User.findOne\<close> (lines 7-16, \<open>register_check\<close>) and the
  construction and \<open>save()\<close> of the document (lines 18-20, \<open>register_commit\<close>);
  \<open>registerUser\<close> runs the two in sequence on one state, and the theory
  \<open>Registration\<close> interleaves them across concurrent requests. Every exception the
  awaited calls raise reaches the \<open>catch\<close> and becomes the 500 response; the
  variants \<open>_at\<close> take whether the database answers, and while it does not
  \<open>User.findOne\<close> rejects into that \<open>catch\<close>. Login reads the collection and
  never writes it.
\<close>

text \<open>The two fields of \<open>req.body\<close> as parsed, of any JSON type; \<open>None\<close> is an absent
  field. The handlers pass them on without a type check.\<close>

record cred_body =
  body_username :: "json option"
  body_password :: "json option"

text \<open>The test \<open>!username || !password\<close>: a field passes when it is truthy.\<close>

definition truthy :: "json option \<Rightarrow> json option" where
  "truthy v = (case v of None \<Rightarrow> None | Some j \<Rightarrow> if json_truthy j then Some j else None)"

definition fields_required :: response where
  "fields_required = json_error 400 ''Username and password are required''"

definition server_error :: response where
  "server_error = json_error 500 ''Server error''"

definition username_taken :: response where
  "username_taken = json_error 400 ''Username is already taken''"

definition registered :: response where
  "registered = \<lparr>status = 201, body = JObj [(''message'', JStr ''User registered successfully'')]\<rparr>"

definition invalid_credentials :: response where
  "invalid_credentials = json_error 400 ''Invalid username or password''"

definition login_success :: "string \<Rightarrow> response" where
  "login_success t =
     \<lparr>status = 200, body = JObj [(''message'', JStr ''Login successful''), (''token'', JStr t)]\<rparr>"

datatype reg_phase = RegDone response | RegSave json json

text \<open>Each handler is defined for a database that answers (\<open>up\<close>) or not; the
  names without \<open>_at\<close> are the handlers with the database up.\<close>

definition register_check_at :: "bool \<Rightarrow> lib \<Rightarrow> user_db \<Rightarrow> cred_body \<Rightarrow> reg_phase" where
  "register_check_at up cr db b =
     (case (truthy (body_username b), truthy (body_password b)) of
        (Some u, Some p) \<Rightarrow>
          (case user_find_one_at up cr db u of
             Inl _ \<Rightarrow> RegDone server_error
           | Inr (Some _) \<Rightarrow> RegDone username_taken
           | Inr None \<Rightarrow> RegSave u p)
      | _ \<Rightarrow> RegDone fields_required)"

definition register_check :: "lib \<Rightarrow> user_db \<Rightarrow> cred_body \<Rightarrow> reg_phase" where
  "register_check cr db b = register_check_at True cr db b"

text \<open>\<open>new User({ username, password })\<close> and \<open>await user.save()\<close> on the cast strings.\<close>

definition save_new_user ::
  "lib \<Rightarrow> string \<Rightarrow> user_db \<Rightarrow> string \<Rightarrow> string \<Rightarrow> user_db \<times> response" where
  "save_new_user cr rnd db u p =
     (let (db1, d) = new_user db u p in
      case user_save cr rnd db1 d of
        Inl _ \<Rightarrow> (db1, server_error)
      | Inr db2 \<Rightarrow> (db2, registered))"

text \<open>The second phase of registration. A field that does not cast to a string makes the
  document invalid: \<open>save()\<close> rejects with a ValidationError, after the constructor
  spent an ObjectId.\<close>

definition register_commit ::
  "lib \<Rightarrow> string \<Rightarrow> user_db \<Rightarrow> json \<Rightarrow> json \<Rightarrow> user_db \<times> response" where
  "register_commit cr rnd db u p =
     (case (cast_string u, cast_string p) of
        (Some us, Some ps) \<Rightarrow> save_new_user cr rnd db us ps
      | _ \<Rightarrow> (db\<lparr>next_oid := Suc (next_oid db)\<rparr>, server_error))"

definition registerUser_at ::
  "bool \<Rightarrow> lib \<Rightarrow> string \<Rightarrow> user_db \<Rightarrow> cred_body \<Rightarrow> user_db \<times> response" where
  "registerUser_at up cr rnd db b =
     (case register_check_at up cr db b of
        RegDone r \<Rightarrow> (db, r)
      | RegSave u p \<Rightarrow> register_commit cr rnd db u p)"

definition registerUser :: "lib \<Rightarrow> string \<Rightarrow> user_db \<Rightarrow> cred_body \<Rightarrow> user_db \<times> response" where
  "registerUser cr rnd db b = registerUser_at True cr rnd db b"

definition loginUser_at ::
  "bool \<Rightarrow> lib \<Rightarrow> string option \<Rightarrow> seconds \<Rightarrow> user_db \<Rightarrow> cred_body \<Rightarrow> response" where
  "loginUser_at up cr sec now db b =
     (case (truthy (body_username b), truthy (body_password b)) of
        (Some u, Some p) \<Rightarrow>
          (case user_find_one_at up cr db u of
             Inl _ \<Rightarrow> server_error
           | Inr None \<Rightarrow> invalid_credentials
           | Inr (Some d) \<Rightarrow>
               (case comparePassword cr d p of
                  None \<Rightarrow> server_error
                | Some ok \<Rightarrow>
                    if \<not> ok then invalid_credentials
                    else (case jwt_sign cr sec now (uid d) of
                            Inl _ \<Rightarrow> server_error
                          | Inr t \<Rightarrow> login_success t)))
      | _ \<Rightarrow> fields_required)"

definition loginUser ::
  "lib \<Rightarrow> string option \<Rightarrow> seconds \<Rightarrow> user_db \<Rightarrow> cred_body \<Rightarrow> response" where
  "loginUser cr sec now db b = loginUser_at True cr sec now db b"

text \<open>The collection after \<open>alice\<close> registered with password \<open>s3cret!\<close>, under
  \<^const>\<open>demo_lib\<close> and a fixed salt: the example state of the witnesses.\<close>

abbreviation alice_db :: user_db where
  "alice_db \<equiv> \<lparr>users = [\<lparr>uid = 0, username = ''alice'',
      password = gen_salt 10 ''abcdefghijklmnopqrstuv'' @ bcrypt_key ''s3cret!'',
      pw_modified = False\<rparr>], next_oid = 1\<rparr>"

text \<open>The collection after \<open>bob\<close> registered with the JSON number \<open>1234\<close> as its
  password, which mongoose stored as the string \<open>1234\<close>.\<close>

abbreviation bob_db :: "lib \<Rightarrow> user_db" where
  "bob_db cr \<equiv> \<lparr>users = [\<lparr>uid = 0, username = ''bob'',
      password = gen_salt 10 ''abcdefghijklmnopqrstuv'' @
        eks_digest cr (gen_salt 10 ''abcdefghijklmnopqrstuv'') (bcrypt_key ''1234''),
      pw_modified = False\<rparr>], next_oid = 1\<rparr>"

subsection \<open>Lemmas\<close>

text \<open>The handlers with the database up, as the code reads.\<close>

lemma register_check_unfold:
  "register_check cr db b =
     (case (truthy (body_username b), truthy (body_password b)) of
        (Some u, Some p) \<Rightarrow>
          (case user_find_one cr db u of
             Inl _ \<Rightarrow> RegDone server_error
           | Inr (Some _) \<Rightarrow> RegDone username_taken
           | Inr None \<Rightarrow> RegSave u p)
      | _ \<Rightarrow> RegDone fields_required)"
  unfolding register_check_def register_check_at_def user_find_one_at_True ..

lemma registerUser_unfold:
  "registerUser cr rnd db b =
     (case register_check cr db b of
        RegDone r \<Rightarrow> (db, r)
      | RegSave u p \<Rightarrow> register_commit cr rnd db u p)"
  by (simp add: registerUser_def registerUser_at_def register_check_def)

lemma loginUser_unfold:
  "loginUser cr sec now db b =
     (case (truthy (body_username b), truthy (body_password b)) of
        (Some u, Some p) \<Rightarrow>
          (case user_find_one cr db u of
             Inl _ \<Rightarrow> server_error
           | Inr None \<Rightarrow> invalid_credentials
           | Inr (Some d) \<Rightarrow>
               (case comparePassword cr d p of
                  None \<Rightarrow> server_error
                | Some ok \<Rightarrow>
                    if \<not> ok then invalid_credentials
                    else (case jwt_sign cr sec now (uid d) of
                            Inl _ \<Rightarrow> server_error
                          | Inr t \<Rightarrow> login_success t)))
      | _ \<Rightarrow> fields_required)"
  unfolding loginUser_def loginUser_at_def user_find_one_at_True ..

lemma truthy_Some [simp]: "truthy (Some (JStr (c # s))) = Some (JStr (c # s))"
  by (simp add: truthy_def)

lemma truthy_SomeD: "truthy v = Some j \<Longrightarrow> v = Some j \<and> json_truthy j"
  by (simp add: truthy_def split: option.splits if_splits)

lemma truthy_nonempty [simp]: "s \<noteq> [] \<Longrightarrow> truthy (Some (JStr s)) = Some (JStr s)"
  by (simp add: truthy_def)

lemma truthy_str_empty [simp]: "truthy (Some (JStr [])) = None"
  by (simp add: truthy_def)

lemma user_save_inv:
  assumes inv: "user_db_inv db" and save: "user_save cr rnd db d = Inr db'"
    and fresh: "uid d \<notin> uid ` set (users db)" "uid d < next_oid db" and m: "pw_modified d"
  shows "user_db_inv db'"
proof -
  from save obtain d' where pre: "user_pre_save cr rnd d = Inr d'"
    and none: "find_by_username db (username d) = None"
    and us: "users db' = users db @ [d'\<lparr>pw_modified := False\<rparr>]"
    and n: "next_oid db' = next_oid db" and un: "username d' = username d" and ui: "uid d' = uid d"
    by (blast dest: user_save_Inr)
  from pre m have "bcrypt_hash cr (password d) (gen_salt 10 rnd) = Inr (password d')"
    by (blast dest: user_pre_save_Inr)
  then have "valid_setting (password d')" by (rule bcrypt_hash_valid)
  with inv none us n un ui fresh show ?thesis
    by (auto simp: user_db_inv_def find_by_username_None)
qed

lemma save_new_user_inv:
  assumes inv: "user_db_inv db" and rc: "save_new_user cr rnd db u p = (db', r)"
  shows "user_db_inv db'"
proof -
  obtain db1 d where nu: "new_user db u p = (db1, d)" by (cases "new_user db u p")
  from new_user_inv [OF inv nu] have inv1: "user_db_inv db1" and ui: "uid d = next_oid db"
    and n: "next_oid db1 = Suc (next_oid db)" and us: "users db1 = users db"
    by simp_all
  have fresh: "uid d \<notin> uid ` set (users db1)" "uid d < next_oid db1"
    using inv ui n us by (auto simp: user_db_inv_def list_all_iff)
  have m: "pw_modified d" using nu by (auto simp: new_user_def)
  show ?thesis
  proof (cases "user_save cr rnd db1 d")
    case (Inl e)
    with rc nu inv1 show ?thesis by (simp add: save_new_user_def)
  next
    case (Inr db2)
    with rc nu have "db' = db2" by (simp add: save_new_user_def)
    with user_save_inv [OF inv1 Inr fresh m] show ?thesis by simp
  qed
qed

lemma register_commit_inv:
  assumes inv: "user_db_inv db" and rc: "register_commit cr rnd db u p = (db', r)"
  shows "user_db_inv db'"
proof (cases "(cast_string u, cast_string p)" rule: prod.exhaust)
  case (Pair cu cp)
  show ?thesis
  proof (cases "\<exists>us ps. cu = Some us \<and> cp = Some ps")
    case True
    then obtain us ps where "cu = Some us" "cp = Some ps" by blast
    with Pair rc have "save_new_user cr rnd db us ps = (db', r)" by (simp add: register_commit_def)
    with inv show ?thesis by (rule save_new_user_inv)
  next
    case False
    with Pair rc have "db' = db\<lparr>next_oid := Suc (next_oid db)\<rparr>"
      by (auto simp: register_commit_def split: option.splits)
    with inv show ?thesis by (auto simp: user_db_inv_def list_all_iff less_Suc_eq)
  qed
qed

lemma registerUser_inv: "user_db_inv db \<Longrightarrow> user_db_inv (fst (registerUser cr rnd db b))"
proof (cases "register_check cr db b")
  case (RegSave u p)
  assume "user_db_inv db"
  then have "user_db_inv (fst (register_commit cr rnd db u p))"
    by (rule register_commit_inv) (rule prod.collapse [symmetric])
  with RegSave show ?thesis by (simp add: registerUser_unfold)
qed (simp add: registerUser_unfold)

text \<open>With the database down, \<open>User.findOne\<close> rejects (after its cast), so both
  handlers reach their \<open>catch\<close> as soon as both fields are present.\<close>

lemma register_check_at_outage:
  "register_check_at False cr db b =
     RegDone (if truthy (body_username b) \<noteq> None \<and> truthy (body_password b) \<noteq> None
              then server_error else fields_required)"
  by (auto simp: register_check_at_def user_find_one_at_def split: option.splits sum.splits)

lemma registerUser_at_outage:
  "registerUser_at False cr rnd db b =
     (db, if truthy (body_username b) \<noteq> None \<and> truthy (body_password b) \<noteq> None
          then server_error else fields_required)"
  by (simp add: registerUser_at_def register_check_at_outage)

lemma loginUser_at_outage:
  "loginUser_at False cr sec now db b =
     (if truthy (body_username b) \<noteq> None \<and> truthy (body_password b) \<noteq> None
      then server_error else fields_required)"
  by (auto simp: loginUser_at_def user_find_one_at_def split: option.splits sum.splits)

lemma registerUser_outage_cases:
  "registerUser_at False cr rnd db b = (db, server_error) \<or>
   (registerUser_at False cr rnd db b = registerUser cr rnd db b \<and> fst (registerUser cr rnd db b) = db)"
  by (auto simp: registerUser_at_outage registerUser_unfold register_check_unfold split: option.splits)

lemma loginUser_outage_cases:
  "loginUser_at False cr sec now db b = server_error \<or> loginUser_at False cr sec now db b = loginUser cr sec now db b"
  by (auto simp: loginUser_at_outage loginUser_unfold split: option.splits)

lemmas register_defs = registerUser_unfold register_check_unfold register_commit_def save_new_user_def new_user_def
  user_save_def user_validate_def user_pre_save_def user_insert_def

lemma loginUser_success:
  "u \<noteq> [] \<Longrightarrow> p \<noteq> [] \<Longrightarrow> find_by_username db u = Some d \<Longrightarrow>
   comparePassword cr d (JStr p) = Some True \<Longrightarrow> jwt_sign cr sec now (uid d) = Inr t \<Longrightarrow>
   loginUser cr sec now db \<lparr>body_username = Some (JStr u), body_password = Some (JStr p)\<rparr> =
     login_success t"
  by (simp add: loginUser_unfold)

lemma save_new_user_atomic:
  assumes rc: "save_new_user cr rnd db u p = (db', r)"
  shows "(r = registered \<and> (\<exists>d. users db' = users db @ [d])) \<or>
         (r = server_error \<and> users db' = users db)"
proof -
  obtain db1 d where nu: "new_user db u p = (db1, d)" by (cases "new_user db u p")
  then have us: "users db1 = users db" by (auto simp: new_user_def)
  show ?thesis
  proof (cases "user_save cr rnd db1 d")
    case (Inl e)
    with rc nu us show ?thesis by (simp add: save_new_user_def)
  next
    case (Inr db2)
    with rc nu have "db' = db2" "r = registered" by (simp_all add: save_new_user_def)
    moreover from Inr obtain d' where "users db2 = users db1 @ [d'\<lparr>pw_modified := False\<rparr>]"
      by (blast dest: user_save_Inr)
    ultimately show ?thesis using us by auto
  qed
qed

lemma registered_ne [simp]:
  "server_error \<noteq> registered" "username_taken \<noteq> registered" "fields_required \<noteq> registered"
  "registered \<noteq> server_error" "registered \<noteq> username_taken" "registered \<noteq> fields_required"
  by (simp_all add: server_error_def username_taken_def fields_required_def registered_def json_error_def)

lemma register_commit_atomic:
  assumes rc: "register_commit cr rnd db u p = (db', r)"
  shows "(r = registered \<and> (\<exists>d. users db' = users db @ [d])) \<or>
         (r = server_error \<and> users db' = users db)"
proof (cases "\<exists>us ps. cast_string u = Some us \<and> cast_string p = Some ps")
  case True
  then obtain us ps where "cast_string u = Some us" "cast_string p = Some ps" by blast
  with rc have "save_new_user cr rnd db us ps = (db', r)" by (simp add: register_commit_def)
  then show ?thesis by (rule save_new_user_atomic)
next
  case False
  with rc show ?thesis by (auto simp: register_commit_def split: option.splits)
qed

lemma register_check_done:
  "register_check cr db b = RegDone r \<Longrightarrow>
   r = username_taken \<or> r = fields_required \<or> r = server_error"
  by (auto simp: register_check_unfold split: option.splits if_splits sum.splits)

lemma auth_responses_error_shaped [error_shape]:
  "error_shaped fields_required" "error_shaped server_error" "error_shaped username_taken"
  "error_shaped invalid_credentials" "error_shaped registered" "error_shaped (login_success t)"
  by (simp_all add: fields_required_def server_error_def username_taken_def invalid_credentials_def)
     (simp_all add: error_shaped_def registered_def login_success_def)

lemma register_check_error_shaped: "register_check cr db b = RegDone r \<Longrightarrow> error_shaped r"
  by (auto simp: register_check_unfold error_shape split: prod.splits option.splits sum.splits)

lemma registerUser_error_shaped [error_shape]: "error_shaped (snd (registerUser cr rnd db b))"
  by (auto simp: registerUser_unfold register_commit_def save_new_user_def error_shape
      dest: register_check_error_shaped split: reg_phase.splits prod.splits option.splits sum.splits)

lemma loginUser_error_shaped [error_shape]: "error_shaped (loginUser cr sec now db b)"
  by (auto simp: loginUser_unfold error_shape split: prod.splits option.splits sum.splits)

lemma nat_to_dec_1234: "nat_to_dec 1234 = ''1234''"
  by (simp add: nat_to_dec.simps digit_char_def char_of_eq_iff take_bit_eq_mod)

subsection \<open>Properties of the authentication handlers\<close>

text \<open>
  C2. Registration keeps the invariant of the user collection, whatever the request:
  usernames stay unique, ObjectIds unique and allocated, and every stored password a
  bcrypt hash, on the success path, on every rejection and when \<open>save()\<close> fails.
\<close>

theorem registerUser_preserves_inv:
  assumes inv: "user_db_inv db" and reg: "registerUser cr rnd db b = (db', r)"
  shows "user_db_inv db'"
  using registerUser_inv [OF inv] reg by (metis fst_conv)

theorem registerUser_preserves_inv_witness:
  "user_db_inv empty_user_db \<and>
   registerUser demo_lib ''abcdefghijklmnopqrstuv'' empty_user_db
     \<lparr>body_username = Some (JStr ''alice''), body_password = Some (JStr ''s3cret!'')\<rparr> =
   (\<lparr>users = [\<lparr>uid = 0, username = ''alice'',
       password = gen_salt 10 ''abcdefghijklmnopqrstuv'' @ bcrypt_key ''s3cret!'', pw_modified = False\<rparr>],
     next_oid = 1\<rparr>, registered) \<and>
   user_db_inv \<lparr>users = [\<lparr>uid = 0, username = ''alice'',
       password = gen_salt 10 ''abcdefghijklmnopqrstuv'' @ bcrypt_key ''s3cret!'', pw_modified = False\<rparr>],
     next_oid = 1\<rparr>"
proof -
  have reg: "registerUser demo_lib ''abcdefghijklmnopqrstuv'' empty_user_db
     \<lparr>body_username = Some (JStr ''alice''), body_password = Some (JStr ''s3cret!'')\<rparr> =
   (\<lparr>users = [\<lparr>uid = 0, username = ''alice'',
       password = gen_salt 10 ''abcdefghijklmnopqrstuv'' @ bcrypt_key ''s3cret!'', pw_modified = False\<rparr>],
     next_oid = 1\<rparr>, registered)"
    by (simp add: register_defs empty_user_db_def find_by_username_def bcrypt_hash_gen_salt
        demo_lib_def)
  show ?thesis using user_db_inv_empty reg registerUser_preserves_inv [OF user_db_inv_empty reg]
    by simp
qed

text \<open>
  C10. Registering a fresh username with a non-empty password answers 201 and appends
  exactly one document: the next ObjectId, the username, and the bcrypt hash of the
  password under the cost-10 salt, never the plaintext.
\<close>

theorem registerUser_creates_user:
  assumes "find_by_username db u = None" "u \<noteq> []" "p \<noteq> []" "length rnd = 22"
  shows "registerUser cr rnd db \<lparr>body_username = Some (JStr u), body_password = Some (JStr p)\<rparr> =
    (\<lparr>users = users db @ [\<lparr>uid = next_oid db, username = u,
        password = gen_salt 10 rnd @ eks_digest cr (gen_salt 10 rnd) (bcrypt_key p),
        pw_modified = False\<rparr>],
      next_oid = Suc (next_oid db)\<rparr>, registered)"
  using assms by (simp add: register_defs find_by_username_def bcrypt_hash_gen_salt)

theorem registerUser_creates_user_witness:
  "find_by_username empty_user_db ''alice'' = None \<and> ''alice'' \<noteq> [] \<and> ''s3cret!'' \<noteq> [] \<and>
   length ''abcdefghijklmnopqrstuv'' = 22 \<and>
   registerUser demo_lib ''abcdefghijklmnopqrstuv'' empty_user_db
     \<lparr>body_username = Some (JStr ''alice''), body_password = Some (JStr ''s3cret!'')\<rparr> =
    (\<lparr>users = [\<lparr>uid = 0, username = ''alice'',
        password = gen_salt 10 ''abcdefghijklmnopqrstuv'' @ bcrypt_key ''s3cret!'',
        pw_modified = False\<rparr>], next_oid = 1\<rparr>, registered)"
proof -
  have h: "find_by_username empty_user_db ''alice'' = None" "''alice'' \<noteq> []" "''s3cret!'' \<noteq> []"
    "length ''abcdefghijklmnopqrstuv'' = 22"
    by (simp_all add: find_by_username_def empty_user_db_def)
  show ?thesis using h registerUser_creates_user [OF h, of demo_lib]
    by (simp add: empty_user_db_def demo_lib_def)
qed

text \<open>
  C11. Login gives the same answer, 400 with \<open>Invalid username or password\<close>, for an
  unknown username and for a known username with a wrong password, so the response does
  not reveal which usernames exist.
\<close>

theorem loginUser_no_oracle:
  assumes "u \<noteq> []" "p \<noteq> []"
    and "find_by_username db u = None \<or>
         (\<exists>d. find_by_username db u = Some d \<and> comparePassword cr d (JStr p) = Some False)"
  shows "loginUser cr sec now db \<lparr>body_username = Some (JStr u), body_password = Some (JStr p)\<rparr> =
    invalid_credentials"
  using assms by (auto simp: loginUser_unfold)

theorem loginUser_no_oracle_witness:
  "''alice'' \<noteq> [] \<and> ''wrong'' \<noteq> [] \<and>
   (find_by_username alice_db ''alice'' = None \<or>
   (\<exists>d. find_by_username alice_db ''alice'' = Some d \<and>
     comparePassword demo_lib d (JStr ''wrong'') = Some False)) \<and>
   loginUser demo_lib (Some ''key'') 100 alice_db
     \<lparr>body_username = Some (JStr ''alice''), body_password = Some (JStr ''wrong'')\<rparr> = invalid_credentials"
proof -
  have h: "''alice'' \<noteq> []" "''wrong'' \<noteq> []" by simp_all
  have f: "find_by_username alice_db ''alice'' = None \<or>
     (\<exists>d. find_by_username alice_db ''alice'' = Some d \<and>
     comparePassword demo_lib d (JStr ''wrong'') = Some False)"
    by (simp add: find_by_username_def comparePassword_def bcrypt_compare_iff bcrypt_key_def
        demo_lib_def)
  with h show ?thesis using loginUser_no_oracle [OF h f, of "Some ''key''" 100] by blast
qed
text \<open>
  C12. When \<open>JWT_SECRET\<close> is unset or empty, a login with correct credentials reaches
  \<open>jwt.sign\<close>, which throws, and the handler answers 500 \<open>Server error\<close>: the
  server runs without the secret instead of refusing to start.
\<close>

theorem loginUser_secret_missing:
  assumes "u \<noteq> []" "p \<noteq> []" "find_by_username db u = Some d" "comparePassword cr d (JStr p) = Some True"
    and "usable_secret sec = None"
  shows "loginUser cr sec now db \<lparr>body_username = Some (JStr u), body_password = Some (JStr p)\<rparr> = server_error"
  using assms by (simp add: loginUser_unfold jwt_sign_def)

theorem loginUser_secret_missing_witness:
  "''alice'' \<noteq> [] \<and> ''s3cret!'' \<noteq> [] \<and>
   find_by_username alice_db ''alice'' = Some (hd (users alice_db)) \<and>
   comparePassword demo_lib (hd (users alice_db)) (JStr ''s3cret!'') = Some True \<and> usable_secret None = None \<and>
   loginUser demo_lib None 100 alice_db
     \<lparr>body_username = Some (JStr ''alice''), body_password = Some (JStr ''s3cret!'')\<rparr> = server_error"
proof -
  have h: "''alice'' \<noteq> []" "''s3cret!'' \<noteq> []"
    "find_by_username alice_db ''alice'' = Some (hd (users alice_db))"
    "comparePassword demo_lib (hd (users alice_db)) (JStr ''s3cret!'') = Some True" "usable_secret None = None"
    by (simp_all add: find_by_username_def comparePassword_def bcrypt_compare_iff bcrypt_key_def
        demo_lib_def gen_salt_valid_append gen_salt_length)
  show ?thesis using h loginUser_secret_missing [OF h, of 100] by simp
qed

text \<open>
  C13. Registering a username that is already stored answers 400 \<open>Username is already
  taken\<close> and leaves the collection unchanged.
\<close>

theorem registerUser_duplicate:
  assumes "u \<noteq> []" "p \<noteq> []" "find_by_username db u \<noteq> None"
  shows "registerUser cr rnd db \<lparr>body_username = Some (JStr u), body_password = Some (JStr p)\<rparr> =
    (db, username_taken)"
  using assms by (auto simp: registerUser_unfold register_check_unfold)

theorem registerUser_duplicate_witness:
  "''alice'' \<noteq> [] \<and> ''other'' \<noteq> [] \<and> find_by_username alice_db ''alice'' \<noteq> None \<and>
   registerUser demo_lib ''ABCDEFGHIJKLMNOPQRSTUV'' alice_db
     \<lparr>body_username = Some (JStr ''alice''), body_password = Some (JStr ''other'')\<rparr> = (alice_db, username_taken)"
proof -
  have h: "''alice'' \<noteq> []" "''other'' \<noteq> []" "find_by_username alice_db ''alice'' \<noteq> None"
    by (simp_all add: find_by_username_def)
  show ?thesis using h registerUser_duplicate [OF h, of demo_lib "''ABCDEFGHIJKLMNOPQRSTUV''"]
    by simp
qed

text \<open>
  C14. A request whose username or password is missing, null or empty is answered 400
  \<open>Username and password are required\<close> by both handlers, before any lookup, and
  registration then leaves the collection unchanged.
\<close>

theorem missing_fields_rejected:
  assumes "truthy (body_username b) = None \<or> truthy (body_password b) = None"
  shows "registerUser cr rnd db b = (db, fields_required) \<and>
         loginUser cr sec now db b = fields_required"
  using assms
  by (auto simp: registerUser_unfold register_check_unfold loginUser_unfold split: option.splits)
theorem missing_fields_rejected_witness:
  "(truthy (Some (JStr [])) = None \<or> truthy (Some (JStr ''s3cret!'')) = None) \<and>
   registerUser demo_lib ''abcdefghijklmnopqrstuv'' alice_db
     \<lparr>body_username = Some (JStr []), body_password = Some (JStr ''s3cret!'')\<rparr> = (alice_db, fields_required) \<and>
   loginUser demo_lib (Some ''key'') 100 alice_db
     \<lparr>body_username = Some (JStr []), body_password = Some (JStr ''s3cret!'')\<rparr> = fields_required"
proof -
  have h: "truthy (body_username \<lparr>body_username = Some (JStr []), body_password = Some (JStr ''s3cret!'')\<rparr>) = None \<or>
    truthy (body_password \<lparr>body_username = Some (JStr []), body_password = Some (JStr ''s3cret!'')\<rparr>) = None"
    by (simp add: truthy_def)
  show ?thesis
    using missing_fields_rejected [OF h, of demo_lib "''abcdefghijklmnopqrstuv''" alice_db
        "Some ''key''" 100]
    by (simp add: truthy_def)
qed

text \<open>
  C27. Registration never applies partially: a request answered with anything but 201
  leaves the stored documents as they were (a failed save included), and a request
  answered 201 appends exactly one document.
\<close>

theorem registerUser_atomic:
  assumes reg: "registerUser cr rnd db b = (db', r)"
  shows "(r = registered \<longrightarrow> (\<exists>d. users db' = users db @ [d])) \<and>
         (r \<noteq> registered \<longrightarrow> users db' = users db)"
proof (cases "register_check cr db b")
  case (RegDone r0)
  with reg have "db' = db" "r = r0" by (simp_all add: registerUser_unfold)
  with register_check_done [OF RegDone] show ?thesis by auto
next
  case (RegSave u p)
  with reg have "register_commit cr rnd db u p = (db', r)" by (simp add: registerUser_unfold)
  from register_commit_atomic [OF this] show ?thesis by auto
qed

theorem registerUser_atomic_witness:
  "registerUser demo_lib ''abcdefghijklmnopqrstuv'' empty_user_db
     \<lparr>body_username = Some (JStr ''alice''), body_password = Some (JStr ''s3cret!'')\<rparr> = (alice_db, registered) \<and>
   (\<exists>d. users alice_db = users empty_user_db @ [d])"
proof -
  have reg: "registerUser demo_lib ''abcdefghijklmnopqrstuv'' empty_user_db
     \<lparr>body_username = Some (JStr ''alice''), body_password = Some (JStr ''s3cret!'')\<rparr> = (alice_db, registered)"
    by (simp add: register_defs empty_user_db_def find_by_username_def bcrypt_hash_gen_salt
        demo_lib_def)
  show ?thesis using reg registerUser_atomic [OF reg] by simp
qed

text \<open>
  C30. The handlers pass the username of the request body to \<open>User.findOne\<close> without
  checking that it is a string, so a query operator gets through: when MongoDB reads
  \<open>{"$ne": null}\<close> as it does (every stored username satisfies it), the body
  \<open>{"username": {"$ne": null}, "password": P}\<close> logs in as the first stored user,
  provided \<open>P\<close> is that user's password; no username is needed.
\<close>

theorem login_operator_injection:
  assumes ne: "op_filter cr (JObj [(''$ne'', JNull)]) = Some (\<lambda>s. True)"
    and us: "users db = d # ds" and pw: "bcrypt_compare cr p (password d)" and p: "p \<noteq> []"
    and sign: "jwt_sign cr sec now (uid d) = Inr t"
  shows "loginUser cr sec now db
           \<lparr>body_username = Some (JObj [(''$ne'', JNull)]), body_password = Some (JStr p)\<rparr> =
         login_success t"
proof -
  have "user_find_one cr db (JObj [(''$ne'', JNull)]) = Inr (Some d)"
    using ne us by (simp add: user_find_one_def filter_cast_def)
  with pw p sign show ?thesis by (simp add: loginUser_unfold truthy_def)
qed

theorem login_operator_injection_witness:
  "op_filter demo_lib (JObj [(''$ne'', JNull)]) = Some (\<lambda>s. True) \<and>
   users alice_db = hd (users alice_db) # [] \<and>
   bcrypt_compare demo_lib ''s3cret!'' (password (hd (users alice_db))) \<and> ''s3cret!'' \<noteq> [] \<and>
   jwt_sign demo_lib (Some ''key'') 100 (uid (hd (users alice_db))) =
     Inr (jwt_encode demo_lib ''key'' \<lparr>c_id = 0, c_iat = 100, c_exp = 100 + token_ttl\<rparr>) \<and>
   loginUser demo_lib (Some ''key'') 100 alice_db
     \<lparr>body_username = Some (JObj [(''$ne'', JNull)]), body_password = Some (JStr ''s3cret!'')\<rparr> =
   login_success (jwt_encode demo_lib ''key'' \<lparr>c_id = 0, c_iat = 100, c_exp = 100 + token_ttl\<rparr>)"
proof -
  have ne: "op_filter demo_lib (JObj [(''$ne'', JNull)]) = Some (\<lambda>s. True)"
    by (simp add: demo_lib_def)
  have us: "users alice_db = hd (users alice_db) # []" by simp
  have pw: "bcrypt_compare demo_lib ''s3cret!'' (password (hd (users alice_db)))"
    using bcrypt_hash_compare [OF bcrypt_hash_gen_salt [of "''abcdefghijklmnopqrstuv''" demo_lib
          "''s3cret!''" 10]]
    by (simp add: demo_lib_def)
  have p: "''s3cret!'' \<noteq> []" by simp
  have sign: "jwt_sign demo_lib (Some ''key'') 100 (uid (hd (users alice_db))) =
     Inr (jwt_encode demo_lib ''key'' \<lparr>c_id = 0, c_iat = 100, c_exp = 100 + token_ttl\<rparr>)"
    by (simp add: jwt_sign_def)
  show ?thesis using ne us pw p sign login_operator_injection [OF ne us pw p sign] by simp
qed

text \<open>
  C31. A password sent as a JSON number is stored, since mongoose casts it to a string,
  but a login with the same body answers 500, since \<open>bcrypt.compare\<close> rejects a
  number; the same password sent as a string logs in.
\<close>

theorem numeric_password_locks_out:
  "registerUser cr ''abcdefghijklmnopqrstuv'' empty_user_db
     \<lparr>body_username = Some (JStr ''bob''), body_password = Some (JNum 1234)\<rparr> = (bob_db cr, registered) \<and>
   loginUser cr sec now (bob_db cr)
     \<lparr>body_username = Some (JStr ''bob''), body_password = Some (JNum 1234)\<rparr> = server_error \<and>
   loginUser cr (Some ''key'') now (bob_db cr)
     \<lparr>body_username = Some (JStr ''bob''), body_password = Some (JStr ''1234'')\<rparr> =
   login_success (jwt_encode cr ''key'' \<lparr>c_id = 0, c_iat = now, c_exp = now + token_ttl\<rparr>)"
proof -
  have r: "registerUser cr ''abcdefghijklmnopqrstuv'' empty_user_db
     \<lparr>body_username = Some (JStr ''bob''), body_password = Some (JNum 1234)\<rparr> = (bob_db cr, registered)"
    by (simp add: register_defs empty_user_db_def find_by_username_def cast_string_def
        nat_to_dec_1234 bcrypt_hash_gen_salt truthy_def)
  have l1: "loginUser cr sec now (bob_db cr)
     \<lparr>body_username = Some (JStr ''bob''), body_password = Some (JNum 1234)\<rparr> = server_error"
    by (simp add: loginUser_unfold find_by_username_def truthy_def comparePassword_def)
  have c: "bcrypt_compare cr ''1234'' (password (hd (users (bob_db cr))))"
    using bcrypt_hash_compare [OF bcrypt_hash_gen_salt [of "''abcdefghijklmnopqrstuv''" cr "''1234''" 10]]
    by simp
  have l2: "loginUser cr (Some ''key'') now (bob_db cr)
     \<lparr>body_username = Some (JStr ''bob''), body_password = Some (JStr ''1234'')\<rparr> =
     login_success (jwt_encode cr ''key'' \<lparr>c_id = 0, c_iat = now, c_exp = now + token_ttl\<rparr>)"
    using c by (simp add: loginUser_unfold find_by_username_def jwt_sign_def)
  show ?thesis using r l1 l2 by (intro conjI)
qed

text \<open>
  C28. During a database outage neither auth handler applies partially: registration
  stores nothing, and both handlers answer through their \<open>catch\<close> with 500
  \<open>Server error\<close> for any body with both fields present (the rejected
  \<open>User.findOne\<close>), and with the usual 400 otherwise.
\<close>

theorem auth_outage_answers:
  "registerUser_at False cr rnd db b =
     (db, if truthy (body_username b) \<noteq> None \<and> truthy (body_password b) \<noteq> None
          then server_error else fields_required) \<and>
   loginUser_at False cr sec now db b =
     (if truthy (body_username b) \<noteq> None \<and> truthy (body_password b) \<noteq> None
      then server_error else fields_required)"
  by (simp add: registerUser_at_outage loginUser_at_outage)

end
