(* ===== verification/Registration.thy ===== *)
theory Registration
  imports AuthController
begin

text \<open>
  Concurrent registrations. Node runs each request's handler until its next
  \<open>await\<close>, so the handlers of concurrent \<open>POST /auth/register\<close> requests interleave
  at their awaits: between the \<open>User.findOne\<close> of one request (the end of
  \<^const>\<open>register_check\<close>) and its \<open>save()\<close> (\<^const>\<open>register_commit\<close>), other
  requests may check and save. The store executes each insert atomically under the
  unique index. The system state is the collection and the program point of every
  request; a step advances one request by one phase. The hashing inside \<open>save()\<close>
  is a further await, but it touches no shared state, so the commit phase is one step.
  Either await may also throw on a store failure (the database unreachable): the
  \<open>catch\<close> answers 500 and nothing is written. \<open>User.findOne\<close> is reached only
  when both fields are present; a failed \<open>save()\<close> has still built the document, so
  its ObjectId is spent. Besides the invariants of every reachable state, the theory
  proves that the interleavings end: each step lowers the number \<open>pending\<close> of
  phases still to run, and a state without a step has answered every request.
\<close>

datatype reg_pc = Arrived cred_body | Checked json json | Answered response

record reg_sys =
  rdb :: user_db
  reqs :: "reg_pc list"

inductive reg_step :: "lib \<Rightarrow> reg_sys \<Rightarrow> reg_sys \<Rightarrow> bool" for cr where
  check_done:
    "i < length (reqs s) \<Longrightarrow> reqs s ! i = Arrived b \<Longrightarrow> register_check cr (rdb s) b = RegDone r \<Longrightarrow>
     reg_step cr s (s\<lparr>reqs := (reqs s)[i := Answered r]\<rparr>)"
| check_save:
    "i < length (reqs s) \<Longrightarrow> reqs s ! i = Arrived b \<Longrightarrow> register_check cr (rdb s) b = RegSave u p \<Longrightarrow>
     reg_step cr s (s\<lparr>reqs := (reqs s)[i := Checked u p]\<rparr>)"
| commit:
    "i < length (reqs s) \<Longrightarrow> reqs s ! i = Checked u p \<Longrightarrow> length rnd = 22 \<Longrightarrow>
     register_commit cr rnd (rdb s) u p = (db', r) \<Longrightarrow>
     reg_step cr s \<lparr>rdb = db', reqs = (reqs s)[i := Answered r]\<rparr>"
| check_fail:
    "i < length (reqs s) \<Longrightarrow> reqs s ! i = Arrived b \<Longrightarrow> truthy (body_username b) \<noteq> None \<Longrightarrow>
     truthy (body_password b) \<noteq> None \<Longrightarrow>
     reg_step cr s (s\<lparr>reqs := (reqs s)[i := Answered server_error]\<rparr>)"
| commit_fail:
    "i < length (reqs s) \<Longrightarrow> reqs s ! i = Checked u p \<Longrightarrow>
     reg_step cr s \<lparr>rdb = (rdb s)\<lparr>next_oid := Suc (next_oid (rdb s))\<rparr>,
                    reqs = (reqs s)[i := Answered server_error]\<rparr>"

text \<open>The phases a request still has to pass: the progress measure of the interleavings.\<close>

fun pc_weight :: "reg_pc \<Rightarrow> nat" where
  "pc_weight (Arrived _) = 2"
| "pc_weight (Checked _ _) = 1"
| "pc_weight (Answered _) = 0"

definition pending :: "reg_sys \<Rightarrow> nat" where
  "pending s = sum_list (map pc_weight (reqs s))"

fun is_answered :: "reg_pc \<Rightarrow> bool" where
  "is_answered (Answered _) = True"
| "is_answered _ = False"

text \<open>The race of C16: two requests registering \<open>alice\<close> with different passwords,
  from an empty collection, and the state after both checks passed, the first save
  succeeded and the second failed on the unique index.\<close>

abbreviation race_start :: reg_sys where
  "race_start \<equiv> \<lparr>rdb = empty_user_db,
     reqs = [Arrived \<lparr>body_username = Some (JStr ''alice''), body_password = Some (JStr ''pw1'')\<rparr>,
             Arrived \<lparr>body_username = Some (JStr ''alice''), body_password = Some (JStr ''pw2'')\<rparr>]\<rparr>"

abbreviation race_end :: "lib \<Rightarrow> reg_sys" where
  "race_end cr \<equiv> \<lparr>rdb = \<lparr>users = [\<lparr>uid = 0, username = ''alice'',
       password = gen_salt 10 ''abcdefghijklmnopqrstuv'' @
         eks_digest cr (gen_salt 10 ''abcdefghijklmnopqrstuv'') (bcrypt_key ''pw1''),
       pw_modified = False\<rparr>], next_oid = 2\<rparr>,
     reqs = [Answered registered, Answered server_error]\<rparr>"

inductive_cases reg_step_cases: "reg_step cr s t"

subsection \<open>Lemmas\<close>

lemma reg_step_inv: "reg_step cr s t \<Longrightarrow> user_db_inv (rdb s) \<Longrightarrow> user_db_inv (rdb t)"
proof (induction rule: reg_step.induct)
  case (commit_fail i s u p)
  then show ?case by (auto simp: user_db_inv_def list_all_iff less_Suc_eq)
qed (auto elim: register_commit_inv)

lemma reg_steps_inv:
  "(reg_step cr)\<^sup>*\<^sup>* s t \<Longrightarrow> user_db_inv (rdb s) \<Longrightarrow> user_db_inv (rdb t)"
  by (induction rule: rtranclp_induct) (auto dest: reg_step_inv)

text \<open>The atomicity invariant: one stored document per request answered 201.\<close>

lemma reg_step_count:
  assumes "reg_step cr s t" and "length (users (rdb s)) = count_list (reqs s) (Answered registered)"
  shows "length (users (rdb t)) = count_list (reqs t) (Answered registered)"
  using assms
proof (induction rule: reg_step.induct)
  case (check_done i s b r)
  then have "r \<noteq> registered" by (auto dest: register_check_done)
  with check_done show ?case by (simp add: count_list_update)
next
  case (commit i s u p rnd db' r)
  from register_commit_atomic [OF commit(4)] commit show ?case by (auto simp: count_list_update)
next
  case (commit_fail i s u p)
  then show ?case by (simp add: count_list_update)
qed (simp_all add: count_list_update)

lemma reg_steps_count:
  "(reg_step cr)\<^sup>*\<^sup>* s t \<Longrightarrow> length (users (rdb s)) = count_list (reqs s) (Answered registered) \<Longrightarrow>
   length (users (rdb t)) = count_list (reqs t) (Answered registered)"
  by (induction rule: rtranclp_induct) (auto dest: reg_step_count)

lemma sum_list_map_update:
  "i < length xs \<Longrightarrow> sum_list (map f (xs[i := y])) + f (xs ! i) = sum_list (map f xs) + (f y :: nat)"
  by (induction xs arbitrary: i) (auto split: nat.splits)

lemma sum_list_map_update_less:
  assumes "i < length xs" and "f y < f (xs ! i)"
  shows "sum_list (map f (xs[i := y])) < sum_list (map (f :: 'a \<Rightarrow> nat) xs)"
  using sum_list_map_update [OF assms(1), of f y] assms(2) by simp

lemma reg_step_pending: "reg_step cr s t \<Longrightarrow> pending t < pending s"
  by (induction rule: reg_step.induct) (auto simp: pending_def intro!: sum_list_map_update_less)

lemma reg_relpow_pending: "(reg_step cr ^^ n) s t \<Longrightarrow> pending t + n \<le> pending s"
proof (induction n arbitrary: t)
  case (Suc n)
  then obtain b where "(reg_step cr ^^ n) s b" and "reg_step cr b t" by auto
  with Suc.IH [of b] reg_step_pending [of cr b t] show ?case by simp
qed simp

lemma pending_le: "pending s \<le> 2 * length (reqs s)"
proof -
  have "\<forall>q. pc_weight q \<le> 2" by (intro allI, case_tac q) simp_all
  then have "sum_list (map pc_weight (reqs s)) \<le> sum_list (map (\<lambda>_. 2) (reqs s))"
    by (intro sum_list_mono) simp
  then show ?thesis by (simp add: pending_def sum_list_triv)
qed

text \<open>Progress: a request that is not answered can always be advanced.\<close>

lemma reg_progress:
  assumes "i < length (reqs s)" and "\<not> is_answered (reqs s ! i)"
  shows "\<exists>t. reg_step cr s t"
proof (cases "reqs s ! i")
  case (Arrived b)
  then show ?thesis
  proof (cases "register_check cr (rdb s) b")
    case (RegDone r)
    then show ?thesis using reg_step.check_done [OF assms(1) Arrived] by blast
  next
    case (RegSave u p)
    then show ?thesis using reg_step.check_save [OF assms(1) Arrived] by blast
  qed
next
  case (Checked u p)
  then show ?thesis using reg_step.commit_fail [OF assms(1) Checked] by blast
qed (use assms in simp)

lemma reg_step_not_answered:
  "reg_step cr s t \<Longrightarrow> \<exists>i < length (reqs s). \<not> is_answered (reqs s ! i)"
  by (induction rule: reg_step.induct) auto

lemma race_run: "(reg_step cr)\<^sup>*\<^sup>* race_start (race_end cr)"
proof -
  let ?rnd = "''abcdefghijklmnopqrstuv''"
  let ?s0 = "\<lparr>rdb = empty_user_db,
         reqs = [Arrived \<lparr>body_username = Some (JStr ''alice''), body_password = Some (JStr ''pw1'')\<rparr>,
                 Arrived \<lparr>body_username = Some (JStr ''alice''), body_password = Some (JStr ''pw2'')\<rparr>]\<rparr>"
  let ?s1 = "?s0\<lparr>reqs := (reqs ?s0)[0 := Checked (JStr ''alice'') (JStr ''pw1'')]\<rparr>"
  let ?s2 = "?s1\<lparr>reqs := (reqs ?s1)[1 := Checked (JStr ''alice'') (JStr ''pw2'')]\<rparr>"
  let ?d1 = "\<lparr>uid = 0, username = ''alice'',
      password = gen_salt 10 ?rnd @ eks_digest cr (gen_salt 10 ?rnd) (bcrypt_key ''pw1''),
      pw_modified = False\<rparr>"
  let ?db1 = "\<lparr>users = [?d1], next_oid = 1\<rparr>"
  let ?s3 = "\<lparr>rdb = ?db1, reqs = (reqs ?s2)[0 := Answered registered]\<rparr>"
  let ?db2 = "\<lparr>users = [?d1], next_oid = 2\<rparr>"
  let ?s4 = "\<lparr>rdb = ?db2, reqs = (reqs ?s3)[1 := Answered server_error]\<rparr>"
  have s01: "reg_step cr ?s0 ?s1"
    by (rule reg_step.check_save [where i = 0 and
        b = "\<lparr>body_username = Some (JStr ''alice''), body_password = Some (JStr ''pw1'')\<rparr>"]) (simp_all add: register_check_unfold
        find_by_username_def empty_user_db_def)
  have s12: "reg_step cr ?s1 ?s2"
    by (rule reg_step.check_save [where i = 1 and
        b = "\<lparr>body_username = Some (JStr ''alice''), body_password = Some (JStr ''pw2'')\<rparr>"]) (simp_all add: register_check_unfold
        find_by_username_def empty_user_db_def)
  have s23: "reg_step cr ?s2 ?s3"
    by (rule reg_step.commit [where i = 0 and rnd = ?rnd and u = "JStr ''alice''" and p = "JStr ''pw1''"]) (simp_all add: register_commit_def save_new_user_def
        new_user_def user_save_def user_validate_def user_pre_save_def user_insert_def
        find_by_username_def empty_user_db_def bcrypt_hash_gen_salt)
  have s34: "reg_step cr ?s3 ?s4"
    by (rule reg_step.commit [where i = 1 and rnd = ?rnd and u = "JStr ''alice''" and p = "JStr ''pw2''"]) (simp_all add: register_commit_def save_new_user_def
        new_user_def user_save_def user_validate_def user_pre_save_def user_insert_def
        find_by_username_def bcrypt_hash_gen_salt)
  have r: "(reg_step cr)\<^sup>*\<^sup>* ?s0 ?s4"
  proof -
    have "(reg_step cr)\<^sup>*\<^sup>* ?s0 ?s1" using s01 by (rule r_into_rtranclp [of "reg_step cr"])
    then have "(reg_step cr)\<^sup>*\<^sup>* ?s0 ?s2" using s12 by (rule rtranclp.rtrancl_into_rtrancl)
    then have "(reg_step cr)\<^sup>*\<^sup>* ?s0 ?s3" using s23 by (rule rtranclp.rtrancl_into_rtrancl)
    then show ?thesis using s34 by (rule rtranclp.rtrancl_into_rtrancl)
  qed
  moreover have "?s4 = race_end cr" by simp
  ultimately show ?thesis by simp
qed

subsection \<open>Properties of concurrent registration\<close>

text \<open>
  C15. Under every interleaving of any number of concurrent registrations, starting
  from an empty collection, no two stored documents share a username and every stored
  password is a bcrypt hash: the unique index, not the handler's \<open>findOne\<close> check,
  is what keeps usernames unique.
\<close>

theorem reg_reachable_unique:
  assumes "(reg_step cr)\<^sup>*\<^sup>* \<lparr>rdb = empty_user_db, reqs = rs\<rparr> t"
  shows "distinct (map username (users (rdb t))) \<and>
         list_all (\<lambda>d. valid_setting (password d)) (users (rdb t))"
proof -
  have "user_db_inv (rdb t)"
    using reg_steps_inv [OF assms] user_db_inv_empty by simp
  then show ?thesis by (auto simp: user_db_inv_def list_all_iff)
qed

theorem reg_reachable_unique_witness:
  "(reg_step demo_lib)\<^sup>*\<^sup>* race_start (race_end demo_lib) \<and>
   distinct (map username (users (rdb (race_end demo_lib)))) \<and>
   list_all (\<lambda>d. valid_setting (password d)) (users (rdb (race_end demo_lib)))"
proof -
  have r: "(reg_step demo_lib)\<^sup>*\<^sup>* race_start (race_end demo_lib)" by (rule race_run)
  show ?thesis by (rule conjI [OF r reg_reachable_unique [OF r]])
qed

text \<open>
  C16. Two concurrent registrations of the same username can both pass the
  \<open>findOne\<close> check before either saves; the first save succeeds and the second
  fails on the unique index, so the second client gets 500 \<open>Server error\<close> rather
  than 400 \<open>Username is already taken\<close>, while exactly one document is stored.
\<close>

theorem concurrent_duplicate_registration:
  "\<exists>t. (reg_step cr)\<^sup>*\<^sup>*
        \<lparr>rdb = empty_user_db,
         reqs = [Arrived \<lparr>body_username = Some (JStr ''alice''), body_password = Some (JStr ''pw1'')\<rparr>,
                 Arrived \<lparr>body_username = Some (JStr ''alice''), body_password = Some (JStr ''pw2'')\<rparr>]\<rparr> t \<and>
      reqs t = [Answered registered, Answered server_error] \<and>
      map username (users (rdb t)) = [''alice'']"
proof -
  have r: "(reg_step cr)\<^sup>*\<^sup>* race_start (race_end cr)" by (rule race_run)
  show ?thesis by (rule exI [where x = "race_end cr"]) (simp add: r)
qed

text \<open>
  C29. No registration applies partially, under any interleaving of concurrent requests
  and store failures: in every state reached from an empty collection, the stored
  documents are exactly as many as the requests answered 201.
\<close>

theorem reg_reachable_atomic:
  assumes "(reg_step cr)\<^sup>*\<^sup>* \<lparr>rdb = empty_user_db, reqs = map Arrived bs\<rparr> t"
  shows "length (users (rdb t)) = count_list (reqs t) (Answered registered)"
  using reg_steps_count [OF assms] by (simp add: empty_user_db_def count_list_0_iff image_iff)

theorem reg_reachable_atomic_witness:
  "(reg_step demo_lib)\<^sup>*\<^sup>*
     \<lparr>rdb = empty_user_db,
      reqs = map Arrived [\<lparr>body_username = Some (JStr ''alice''), body_password = Some (JStr ''pw1'')\<rparr>,
                          \<lparr>body_username = Some (JStr ''alice''), body_password = Some (JStr ''pw2'')\<rparr>]\<rparr>
     (race_end demo_lib) \<and>
   length (users (rdb (race_end demo_lib))) =
     count_list (reqs (race_end demo_lib)) (Answered registered)"
proof -
  have r: "(reg_step demo_lib)\<^sup>*\<^sup>*
     \<lparr>rdb = empty_user_db,
      reqs = map Arrived [\<lparr>body_username = Some (JStr ''alice''), body_password = Some (JStr ''pw1'')\<rparr>,
                          \<lparr>body_username = Some (JStr ''alice''), body_password = Some (JStr ''pw2'')\<rparr>]\<rparr>
     (race_end demo_lib)"
    using race_run [of demo_lib] by simp
  show ?thesis by (rule conjI [OF r reg_reachable_atomic [OF r]])
qed

text \<open>
  Every interleaving of concurrent registrations is finite: whatever the store
  does, no run of the handlers' phases goes on forever.
\<close>

lemma reg_step_terminates: "\<not> (\<exists>f. \<forall>n. reg_step cr (f n) (f (Suc n)))"
proof -
  have "wf (measure pending)" by simp
  moreover have "{(t, s). reg_step cr s t} \<subseteq> measure pending" by (auto dest: reg_step_pending)
  ultimately have "wf {(t, s). reg_step cr s t}" by (rule wf_subset)
  then show ?thesis by (simp add: wf_iff_no_infinite_down_chain)
qed

text \<open>
  No interleaving gets stuck: a state has no further step exactly when every
  request has been answered. With the previous lemma, every maximal run of concurrent registrations
  answers every request.
\<close>

lemma reg_deadlock_free: "(\<forall>u. \<not> reg_step cr t u) = list_all is_answered (reqs t)"
  by (auto simp: list_all_length dest: reg_step_not_answered reg_progress)

text \<open>
  The quantitative form of termination: a run of \<open>n\<close> steps from a state with
  \<open>k\<close> requests has \<open>n \<le> 2 k\<close>, since each request passes at most its
  \<open>findOne\<close> check and its \<open>save()\<close>.
\<close>

lemma reg_steps_bounded:
  assumes "(reg_step cr ^^ n) s t"
  shows "n \<le> 2 * length (reqs s)"
  using reg_relpow_pending [OF assms] pending_le [of s] by simp

end
