(* ===== verification/Tasks.thy ===== *)
theory Tasks
  imports Prelude
begin

text \<open>
  The task resource. \<open>src/src/models/Task.js\<close> gives the schema: a required string
  \<open>title\<close>, an optional string \<open>description\<close>, and a \<open>status\<close> that is one of
  \<open>pending\<close> and \<open>completed\<close>, \<open>pending\<close> by default. The controller that
  \<open>taskRoutes.js\<close> imports (\<open>src/controllers/taskController.js\<close>) is not among the
  repository's files, so its five handlers are modelled from the spec (section 4.5):
  list, get by id (404 when absent), create (400 when the schema rejects the body),
  partial update (404 when absent, 400 when the result breaks the schema), and delete
  (404 when absent). A path id that is not an ObjectId is treated like an absent one,
  as the spec's end-to-end example asks. The collection is a list in insertion order
  with the ObjectId counter.
\<close>

datatype task_status = Pending | Completed

record task =
  task_id :: oid
  task_title :: string
  task_description :: "string option"
  task_status :: task_status

record task_db =
  tasks :: "task list"
  next_tid :: oid

text \<open>The fields of \<open>req.body\<close> the schema knows; \<open>None\<close> is an absent field.\<close>

record task_body =
  tb_title :: "string option"
  tb_description :: "string option"
  tb_status :: "string option"

datatype task_error = TitleRequired | BadStatus string

definition empty_task_db :: task_db where
  "empty_task_db = \<lparr>tasks = [], next_tid = 0\<rparr>"

text \<open>The schema's \<open>enum: ['pending', 'completed']\<close>.\<close>

definition parse_status :: "string \<Rightarrow> task_status option" where
  "parse_status s =
     (if s = ''pending'' then Some Pending else if s = ''completed'' then Some Completed else None)"

definition show_status :: "task_status \<Rightarrow> string" where
  "show_status st = (case st of Pending \<Rightarrow> ''pending'' | Completed \<Rightarrow> ''completed'')"

text \<open>\<open>new Task(req.body)\<close> followed by the schema's validation: the title is required
  and not empty, a given status must be in the enum, an absent one defaults to pending.\<close>

definition new_task :: "oid \<Rightarrow> task_body \<Rightarrow> task_error + task" where
  "new_task i b =
     (case tb_title b of
        None \<Rightarrow> Inl TitleRequired
      | Some t \<Rightarrow>
          if t = [] then Inl TitleRequired
          else (case tb_status b of
                  None \<Rightarrow> Inr \<lparr>task_id = i, task_title = t, task_description = tb_description b,
                              task_status = Pending\<rparr>
                | Some s \<Rightarrow>
                    (case parse_status s of
                       None \<Rightarrow> Inl (BadStatus s)
                     | Some st \<Rightarrow> Inr \<lparr>task_id = i, task_title = t,
                                      task_description = tb_description b, task_status = st\<rparr>)))"

text \<open>A partial update: the given fields replace the stored ones, the others are kept,
  and the result must still satisfy the schema.\<close>

definition update_fields :: "task \<Rightarrow> task_body \<Rightarrow> task_error + task" where
  "update_fields t b =
     (let st = (case tb_status b of
                  None \<Rightarrow> Inr (task_status t)
                | Some s \<Rightarrow> (case parse_status s of None \<Rightarrow> Inl (BadStatus s) | Some x \<Rightarrow> Inr x));
          ti = (case tb_title b of None \<Rightarrow> task_title t | Some x \<Rightarrow> x);
          de = (case tb_description b of None \<Rightarrow> task_description t | Some x \<Rightarrow> Some x)
      in case st of
           Inl e \<Rightarrow> Inl e
         | Inr x \<Rightarrow>
             if ti = [] then Inl TitleRequired
             else Inr (t\<lparr>task_title := ti, task_description := de, task_status := x\<rparr>))"

definition task_json :: "task \<Rightarrow> json" where
  "task_json t =
     JObj ([(''_id'', JStr (nat_to_dec (task_id t))), (''title'', JStr (task_title t))] @
           (case task_description t of None \<Rightarrow> [] | Some d \<Rightarrow> [(''description'', JStr d)]) @
           [(''status'', JStr (show_status (task_status t)))])"

definition task_error_response :: "task_error \<Rightarrow> response" where
  "task_error_response e =
     (case e of
        TitleRequired \<Rightarrow> json_error 400 ''Title is required''
      | BadStatus s \<Rightarrow> json_error 400 ''Invalid status'')"

definition task_not_found :: response where
  "task_not_found = json_error 404 ''Task not found''"

text \<open>\<open>Task.findById(req.params.id)\<close>: the path id read as an ObjectId.\<close>

definition find_task :: "task_db \<Rightarrow> string \<Rightarrow> task option" where
  "find_task db sid =
     (case dec_to_nat sid of
        None \<Rightarrow> None
      | Some i \<Rightarrow> find (\<lambda>t. task_id t = i) (tasks db))"

definition getAllTasks :: "task_db \<Rightarrow> response" where
  "getAllTasks db = \<lparr>status = 200, body = JArr (map task_json (tasks db))\<rparr>"

definition getTaskById :: "task_db \<Rightarrow> string \<Rightarrow> response" where
  "getTaskById db sid =
     (case find_task db sid of
        None \<Rightarrow> task_not_found
      | Some t \<Rightarrow> \<lparr>status = 200, body = task_json t\<rparr>)"

definition addTask :: "task_db \<Rightarrow> task_body \<Rightarrow> task_db \<times> response" where
  "addTask db b =
     (case new_task (next_tid db) b of
        Inl e \<Rightarrow> (db, task_error_response e)
      | Inr t \<Rightarrow> (\<lparr>tasks = tasks db @ [t], next_tid = Suc (next_tid db)\<rparr>,
                  \<lparr>status = 201, body = task_json t\<rparr>))"

definition updateTask :: "task_db \<Rightarrow> string \<Rightarrow> task_body \<Rightarrow> task_db \<times> response" where
  "updateTask db sid b =
     (case find_task db sid of
        None \<Rightarrow> (db, task_not_found)
      | Some t \<Rightarrow>
          (case update_fields t b of
             Inl e \<Rightarrow> (db, task_error_response e)
           | Inr t' \<Rightarrow>
               (db\<lparr>tasks := map (\<lambda>x. if task_id x = task_id t then t' else x) (tasks db)\<rparr>,
                \<lparr>status = 200, body = task_json t'\<rparr>)))"

definition deleteTask :: "task_db \<Rightarrow> string \<Rightarrow> task_db \<times> response" where
  "deleteTask db sid =
     (case find_task db sid of
        None \<Rightarrow> (db, task_not_found)
      | Some t \<Rightarrow>
          (db\<lparr>tasks := filter (\<lambda>x. task_id x \<noteq> task_id t) (tasks db)\<rparr>,
           \<lparr>status = 200, body = JObj [(''message'', JStr ''Task deleted'')]\<rparr>))"

text \<open>The collection's invariant: distinct allocated ObjectIds and non-empty titles.\<close>

definition task_db_inv :: "task_db \<Rightarrow> bool" where
  "task_db_inv db \<longleftrightarrow>
     distinct (map task_id (tasks db)) \<and>
     list_all (\<lambda>t. task_id t < next_tid db \<and> task_title t \<noteq> []) (tasks db)"

text \<open>The collection holding one pending task \<open>buy milk\<close>: the example state of the
  witnesses.\<close>

abbreviation milk_db :: task_db where
  "milk_db \<equiv> \<lparr>tasks = [\<lparr>task_id = 0, task_title = ''buy milk'', task_description = None,
     task_status = Pending\<rparr>], next_tid = 1\<rparr>"

subsection \<open>The abstract task store\<close>

text \<open>
  What the handlers promise, stated on the collection seen as a finite map from ObjectId
  to task: a path id that is an ObjectId looks up its key, create adds the new task at
  the next ObjectId, update rewrites the task under the id when the patch is valid, and
  delete removes the key. \<open>task_map\<close> is the abstraction of the stored list.
\<close>

definition task_map :: "task_db \<Rightarrow> oid \<rightharpoonup> task" where
  "task_map db = map_of (map (\<lambda>t. (task_id t, t)) (tasks db))"

definition spec_lookup :: "(oid \<rightharpoonup> task) \<Rightarrow> string \<Rightarrow> task option" where
  "spec_lookup m sid = (case dec_to_nat sid of None \<Rightarrow> None | Some i \<Rightarrow> m i)"

definition spec_add :: "(oid \<rightharpoonup> task) \<Rightarrow> oid \<Rightarrow> task_body \<Rightarrow> (oid \<rightharpoonup> task)" where
  "spec_add m n b = (case new_task n b of Inl _ \<Rightarrow> m | Inr t \<Rightarrow> m(n \<mapsto> t))"

definition spec_update :: "(oid \<rightharpoonup> task) \<Rightarrow> string \<Rightarrow> task_body \<Rightarrow> (oid \<rightharpoonup> task)" where
  "spec_update m sid b =
     (case dec_to_nat sid of
        None \<Rightarrow> m
      | Some i \<Rightarrow> (case m i of
                     None \<Rightarrow> m
                   | Some t \<Rightarrow> (case update_fields t b of Inl _ \<Rightarrow> m | Inr t' \<Rightarrow> m(i \<mapsto> t'))))"

definition spec_delete :: "(oid \<rightharpoonup> task) \<Rightarrow> string \<Rightarrow> (oid \<rightharpoonup> task)" where
  "spec_delete m sid = (case dec_to_nat sid of None \<Rightarrow> m | Some i \<Rightarrow> m(i := None))"

subsection \<open>Lemmas\<close>

lemma dec_to_nat_0: "dec_to_nat ''0'' = Some 0"
  by (simp add: dec_to_nat_def is_digit_def dec_val_def digit_val_def)

lemma task_handlers_error_shaped [error_shape]:
  "error_shaped (getAllTasks db)" "error_shaped (getTaskById db sid)"
  "error_shaped (snd (addTask db b))" "error_shaped (snd (updateTask db sid b))"
  "error_shaped (snd (deleteTask db sid))"
  by (auto simp: getAllTasks_def getTaskById_def addTask_def updateTask_def deleteTask_def
      task_not_found_def task_error_response_def
      split: option.splits sum.splits task_error.splits)

lemma find_task_Some:
  "find_task db sid = Some t \<Longrightarrow> t \<in> set (tasks db) \<and> dec_to_nat sid = Some (task_id t)"
  by (auto simp: find_task_def split: option.splits dest: find_Some_iff [THEN iffD1])

lemma find_id_distinct:
  "distinct (map task_id xs) \<Longrightarrow> t \<in> set xs \<Longrightarrow> find (\<lambda>x. task_id x = task_id t) xs = Some t"
  by (induction xs) (auto simp: image_iff)

lemma find_task_id:
  "task_db_inv db \<Longrightarrow> t \<in> set (tasks db) \<Longrightarrow> find_task db (nat_to_dec (task_id t)) = Some t"
  by (simp add: find_task_def task_db_inv_def find_id_distinct)

lemma update_fields_Inr:
  "update_fields t b = Inr t' \<Longrightarrow> task_id t' = task_id t \<and> task_title t' \<noteq> []"
  by (auto simp: update_fields_def Let_def split: option.splits sum.splits if_splits)

lemma new_task_Inr:
  "new_task i b = Inr t \<Longrightarrow> task_id t = i \<and> task_title t \<noteq> []"
  by (auto simp: new_task_def split: option.splits if_splits)

lemma addTask_inv: "task_db_inv db \<Longrightarrow> task_db_inv (fst (addTask db b))"
  by (auto simp: addTask_def task_db_inv_def list_all_iff less_Suc_eq
      split: sum.splits dest!: new_task_Inr)

lemma map_replace_ids:
  "task_id t' = task_id t \<Longrightarrow>
   map (task_id \<circ> (\<lambda>x. if task_id x = task_id t then t' else x)) xs = map task_id xs"
  by (induction xs) auto

lemma updateTask_inv: "task_db_inv db \<Longrightarrow> task_db_inv (fst (updateTask db sid b))"
  by (auto simp: updateTask_def task_db_inv_def list_all_iff map_replace_ids
      split: option.splits sum.splits dest!: update_fields_Inr find_task_Some)

lemma deleteTask_inv: "task_db_inv db \<Longrightarrow> task_db_inv (fst (deleteTask db sid))"
  by (auto simp: deleteTask_def task_db_inv_def list_all_iff distinct_map_filter
      split: option.splits)

lemma find_id_map_of:
  "distinct (map task_id xs) \<Longrightarrow>
   find (\<lambda>t. task_id t = i) xs = map_of (map (\<lambda>t. (task_id t, t)) xs) i"
  by (induction xs) (auto simp: map_of_eq_None_iff)

lemma find_task_map:
  "task_db_inv db \<Longrightarrow> find_task db sid = spec_lookup (task_map db) sid"
  by (simp add: find_task_def spec_lookup_def task_map_def task_db_inv_def find_id_map_of
      split: option.splits)


lemma map_of_snoc_new:
  "k \<notin> fst ` set xs \<Longrightarrow> [k \<mapsto> v] ++ map_of xs = (map_of xs)(k \<mapsto> v)"
  by (simp add: map_add_upd_left dom_map_of_conv_image_fst)

lemma map_of_replace:
  "task_id t' = i \<Longrightarrow>
   map_of (map ((\<lambda>t. (task_id t, t)) \<circ> (\<lambda>x. if task_id x = i then t' else x)) xs) =
   (if i \<in> task_id ` set xs then (map_of (map (\<lambda>t. (task_id t, t)) xs))(i \<mapsto> t')
    else map_of (map (\<lambda>t. (task_id t, t)) xs))"
  by (induction xs) (auto simp: fun_upd_twist)

lemma map_of_filter_id:
  "map_of (map (\<lambda>t. (task_id t, t)) (filter (\<lambda>x. task_id x \<noteq> i) xs)) =
   (map_of (map (\<lambda>t. (task_id t, t)) xs))(i := None)"
  by (induction xs) (auto simp: fun_eq_iff)

lemma addTask_refines:
  assumes inv: "task_db_inv db"
  shows "task_map (fst (addTask db b)) = spec_add (task_map db) (next_tid db) b"
proof (cases "new_task (next_tid db) b")
  case (Inl e)
  then show ?thesis by (simp add: addTask_def spec_add_def)
next
  case (Inr t)
  then have i: "task_id t = next_tid db" by (blast dest: new_task_Inr)
  have "next_tid db \<notin> task_id ` set (tasks db)"
    using inv by (auto simp: task_db_inv_def list_all_iff)
  with Inr i show ?thesis
    by (simp add: addTask_def spec_add_def task_map_def map_of_snoc_new image_image)
qed

lemma updateTask_refines:
  "task_db_inv db \<Longrightarrow> task_map (fst (updateTask db sid b)) = spec_update (task_map db) sid b"
proof (cases "find_task db sid")
  case None
  assume inv: "task_db_inv db"
  then show ?thesis using None find_task_map [OF inv, of sid]
    by (auto simp: updateTask_def spec_update_def spec_lookup_def split: option.splits)
next
  case (Some t)
  assume inv: "task_db_inv db"
  from Some have t: "t \<in> set (tasks db)" and i: "dec_to_nat sid = Some (task_id t)"
    by (auto dest: find_task_Some)
  have m: "task_map db (task_id t) = Some t"
    using Some find_task_map [OF inv, of sid] i by (simp add: spec_lookup_def)
  show ?thesis
  proof (cases "update_fields t b")
    case (Inl e)
    then show ?thesis using Some i m by (simp add: updateTask_def spec_update_def)
  next
    case (Inr t')
    then have "task_id t' = task_id t" by (blast dest: update_fields_Inr)
    with Inr Some i m t show ?thesis
      by (simp add: updateTask_def spec_update_def task_map_def map_of_replace)
  qed
qed

lemma deleteTask_refines:
  "task_db_inv db \<Longrightarrow> task_map (fst (deleteTask db sid)) = spec_delete (task_map db) sid"
proof (cases "find_task db sid")
  case None
  assume inv: "task_db_inv db"
  then have "spec_lookup (task_map db) sid = None" using None find_task_map [OF inv] by simp
  then show ?thesis using None
    by (auto simp: deleteTask_def spec_delete_def spec_lookup_def fun_upd_idem split: option.splits)
next
  case (Some t)
  then have i: "dec_to_nat sid = Some (task_id t)" by (blast dest: find_task_Some)
  with Some show ?thesis by (simp add: deleteTask_def spec_delete_def task_map_def map_of_filter_id)
qed

subsection \<open>Properties of the task resource\<close>

text \<open>
  Create, update and delete keep the collection's invariant: ObjectIds stay distinct
  and allocated, and no stored task has an empty title.
\<close>

theorem task_handlers_preserve_inv:
  assumes "task_db_inv db"
  shows "task_db_inv (fst (addTask db b)) \<and> task_db_inv (fst (updateTask db sid b')) \<and>
         task_db_inv (fst (deleteTask db sid'))"
  using assms by (simp add: addTask_inv updateTask_inv deleteTask_inv)

theorem task_handlers_preserve_inv_witness:
  "task_db_inv milk_db \<and>
   task_db_inv (fst (addTask milk_db \<lparr>tb_title = Some ''walk'', tb_description = None, tb_status = None\<rparr>)) \<and>
   task_db_inv (fst (updateTask milk_db ''0'' \<lparr>tb_title = None, tb_description = None, tb_status = Some ''completed''\<rparr>)) \<and>
   task_db_inv (fst (deleteTask milk_db ''0''))"
proof -
  have inv: "task_db_inv milk_db" by (simp add: task_db_inv_def)
  show ?thesis using inv task_handlers_preserve_inv [OF inv] by blast
qed
text \<open>
  C18. A task created by \<open>addTask\<close> (answered 201) is found by \<open>getTaskById\<close> under its
  new ObjectId, which answers 200 with the same JSON body.
\<close>

theorem add_then_get:
  assumes inv: "task_db_inv db" and add: "addTask db b = (db', r)" and ok: "status r = 201"
  shows "getTaskById db' (nat_to_dec (next_tid db)) = \<lparr>status = 200, body = body r\<rparr>"
proof -
  obtain t where nt: "new_task (next_tid db) b = Inr t"
    using add ok by (cases "new_task (next_tid db) b")
      (auto simp: addTask_def task_error_response_def json_error_def split: task_error.splits)
  then have db': "db' = \<lparr>tasks = tasks db @ [t], next_tid = Suc (next_tid db)\<rparr>"
    and r: "r = \<lparr>status = 201, body = task_json t\<rparr>" and i: "task_id t = next_tid db"
    using add by (auto simp: addTask_def dest: new_task_Inr)
  have "task_db_inv db'" using addTask_inv [OF inv, of b] add by simp
  moreover have "t \<in> set (tasks db')" by (simp add: db')
  ultimately have "find_task db' (nat_to_dec (task_id t)) = Some t" by (rule find_task_id)
  then show ?thesis by (simp add: getTaskById_def r i)
qed
theorem add_then_get_witness:
  "task_db_inv empty_task_db \<and>
   addTask empty_task_db \<lparr>tb_title = Some ''buy milk'', tb_description = None, tb_status = None\<rparr> =
     (milk_db, \<lparr>status = 201, body = task_json (hd (tasks milk_db))\<rparr>) \<and>
   getTaskById milk_db (nat_to_dec 0) = \<lparr>status = 200, body = task_json (hd (tasks milk_db))\<rparr>"
proof -
  have inv: "task_db_inv empty_task_db" by (simp add: task_db_inv_def empty_task_db_def)
  have add: "addTask empty_task_db \<lparr>tb_title = Some ''buy milk'', tb_description = None, tb_status = None\<rparr> =
     (milk_db, \<lparr>status = 201, body = task_json (hd (tasks milk_db))\<rparr>)"
    by (simp add: addTask_def new_task_def empty_task_db_def)
  have ok: "status \<lparr>status = 201, body = task_json (hd (tasks milk_db))\<rparr> = 201" by simp
  show ?thesis using inv add add_then_get [OF inv add ok] by (simp add: empty_task_db_def)
qed

text \<open>
  C19. An update whose body gives only \<open>status: 'completed'\<close> sets that task's status to
  completed, keeps its title and description, leaves every other task unchanged, and
  answers 200 with the updated task.
\<close>

theorem update_status_only:
  assumes inv: "task_db_inv db" and f: "find_task db sid = Some t"
  shows "updateTask db sid \<lparr>tb_title = None, tb_description = None, tb_status = Some ''completed''\<rparr> =
    (db\<lparr>tasks := map (\<lambda>x. if task_id x = task_id t then t\<lparr>task_status := Completed\<rparr> else x) (tasks db)\<rparr>,
     \<lparr>status = 200, body = task_json (t\<lparr>task_status := Completed\<rparr>)\<rparr>)"
proof -
  from f have "t \<in> set (tasks db)" by (blast dest: find_task_Some)
  with inv have "task_title t \<noteq> []" by (auto simp: task_db_inv_def list_all_iff)
  then have "update_fields t \<lparr>tb_title = None, tb_description = None, tb_status = Some ''completed''\<rparr> =
      Inr (t\<lparr>task_status := Completed\<rparr>)"
    by (simp add: update_fields_def parse_status_def)
  with f show ?thesis by (simp add: updateTask_def)
qed

theorem update_status_only_witness:
  "task_db_inv milk_db \<and> find_task milk_db ''0'' = Some (hd (tasks milk_db)) \<and>
   updateTask milk_db ''0'' \<lparr>tb_title = None, tb_description = None, tb_status = Some ''completed''\<rparr> =
    (\<lparr>tasks = [\<lparr>task_id = 0, task_title = ''buy milk'', task_description = None,
        task_status = Completed\<rparr>], next_tid = 1\<rparr>,
     \<lparr>status = 200, body = task_json \<lparr>task_id = 0, task_title = ''buy milk'', task_description = None,
        task_status = Completed\<rparr>\<rparr>)"
proof -
  have inv: "task_db_inv milk_db" by (simp add: task_db_inv_def)
  have f: "find_task milk_db ''0'' = Some (hd (tasks milk_db))" by (simp add: find_task_def dec_to_nat_0)
  show ?thesis using inv f update_status_only [OF inv f] by simp
qed

text \<open>
  C20. An update that gives a status outside the enum is rejected with 400 and leaves the
  collection unchanged.
\<close>

theorem update_bad_status:
  assumes "find_task db sid = Some t" "tb_status b = Some s" "parse_status s = None"
  shows "updateTask db sid b = (db, json_error 400 ''Invalid status'')"
  using assms by (simp add: updateTask_def update_fields_def task_error_response_def)

theorem update_bad_status_witness:
  "find_task milk_db ''0'' = Some (hd (tasks milk_db)) \<and>
   tb_status \<lparr>tb_title = None, tb_description = None, tb_status = Some ''done''\<rparr> = Some ''done'' \<and>
   parse_status ''done'' = None \<and>
   updateTask milk_db ''0'' \<lparr>tb_title = None, tb_description = None, tb_status = Some ''done''\<rparr> =
     (milk_db, json_error 400 ''Invalid status'')"
proof -
  have h: "find_task milk_db ''0'' = Some (hd (tasks milk_db))"
    "tb_status \<lparr>tb_title = None, tb_description = None, tb_status = Some ''done''\<rparr> = Some ''done''"
    "parse_status ''done'' = None"
    by (simp_all add: find_task_def dec_to_nat_0 parse_status_def)
  show ?thesis using h update_bad_status [OF h] by simp
qed

text \<open>
  After \<open>deleteTask\<close> with a path id, \<open>getTaskById\<close> with that id answers 404.
\<close>

theorem delete_then_get:
  assumes inv: "task_db_inv db" and del: "deleteTask db sid = (db', r)"
  shows "getTaskById db' sid = task_not_found"
proof (cases "find_task db sid")
  case None
  with del show ?thesis by (simp add: deleteTask_def getTaskById_def)
next
  case (Some t)
  then have i: "dec_to_nat sid = Some (task_id t)" by (blast dest: find_task_Some)
  from Some del have "tasks db' = filter (\<lambda>x. task_id x \<noteq> task_id t) (tasks db)"
    by (auto simp: deleteTask_def)
  then have "find_task db' sid = None" using i by (simp add: find_task_def find_None_iff)
  then show ?thesis by (simp add: getTaskById_def)
qed

theorem delete_then_get_witness:
  "task_db_inv milk_db \<and>
   deleteTask milk_db ''0'' = (empty_task_db\<lparr>next_tid := 1\<rparr>,
     \<lparr>status = 200, body = JObj [(''message'', JStr ''Task deleted'')]\<rparr>) \<and>
   getTaskById (empty_task_db\<lparr>next_tid := 1\<rparr>) ''0'' = task_not_found"
proof -
  have inv: "task_db_inv milk_db" by (simp add: task_db_inv_def)
  have del: "deleteTask milk_db ''0'' = (empty_task_db\<lparr>next_tid := 1\<rparr>,
     \<lparr>status = 200, body = JObj [(''message'', JStr ''Task deleted'')]\<rparr>)"
    by (simp add: deleteTask_def find_task_def dec_to_nat_0 empty_task_db_def)
  show ?thesis using inv del delete_then_get [OF inv del] by simp
qed

text \<open>
  C22. Creating a task without a title, or with an empty one, is rejected with 400 and
  leaves the collection unchanged.
\<close>

theorem add_requires_title:
  assumes "tb_title b = None \<or> tb_title b = Some []"
  shows "addTask db b = (db, json_error 400 ''Title is required'')"
  using assms by (auto simp: addTask_def new_task_def task_error_response_def)

theorem add_requires_title_witness:
  "(tb_title \<lparr>tb_title = Some [], tb_description = None, tb_status = None\<rparr> = None \<or>
    tb_title \<lparr>tb_title = Some [], tb_description = None, tb_status = None\<rparr> = Some []) \<and>
   addTask milk_db \<lparr>tb_title = Some [], tb_description = None, tb_status = None\<rparr> =
     (milk_db, json_error 400 ''Title is required'')"
proof -
  have h: "tb_title \<lparr>tb_title = Some [], tb_description = None, tb_status = None\<rparr> = None \<or>
    tb_title \<lparr>tb_title = Some [], tb_description = None, tb_status = None\<rparr> = Some []" by simp
  show ?thesis using h add_requires_title [OF h, of milk_db] by blast
qed

text \<open>
  C28. The handlers refine the abstract store: on a collection satisfying the invariant,
  \<open>Task.findById\<close> is map lookup, and the collection after create, update and
  delete is the map after the corresponding map operation.
\<close>

theorem task_store_refinement:
  assumes inv: "task_db_inv db"
  shows "find_task db sid = spec_lookup (task_map db) sid \<and>
         task_map (fst (addTask db b)) = spec_add (task_map db) (next_tid db) b \<and>
         task_map (fst (updateTask db sid b)) = spec_update (task_map db) sid b \<and>
         task_map (fst (deleteTask db sid)) = spec_delete (task_map db) sid"
  using find_task_map [OF inv] addTask_refines [OF inv] updateTask_refines [OF inv]
    deleteTask_refines [OF inv] by simp

theorem task_store_refinement_witness:
  "task_db_inv milk_db \<and>
   find_task milk_db ''0'' = spec_lookup (task_map milk_db) ''0'' \<and>
   task_map (fst (addTask milk_db \<lparr>tb_title = Some ''walk'', tb_description = None, tb_status = None\<rparr>)) =
     spec_add (task_map milk_db) 1 \<lparr>tb_title = Some ''walk'', tb_description = None, tb_status = None\<rparr> \<and>
   task_map (fst (updateTask milk_db ''0'' \<lparr>tb_title = Some ''walk'', tb_description = None, tb_status = None\<rparr>)) =
     spec_update (task_map milk_db) ''0'' \<lparr>tb_title = Some ''walk'', tb_description = None, tb_status = None\<rparr> \<and>
   task_map (fst (deleteTask milk_db ''0'')) = spec_delete (task_map milk_db) ''0''"
proof -
  have inv: "task_db_inv milk_db" by (simp add: task_db_inv_def)
  show ?thesis using inv task_store_refinement [OF inv, of "''0''"
      "\<lparr>tb_title = Some ''walk'', tb_description = None, tb_status = None\<rparr>"] by simp
qed

end
