(* ===== verification/Express.thy ===== *)
theory Express
  imports Prelude
begin

text \<open>
  The routing of Express 4, which \<open>src/server.js\<close> and the two routers rely on. A route
  path such as \<open>/tasks/:id\<close> is compiled by \<open>path-to-regexp\<close> into a case-insensitive
  regular expression that allows one trailing slash; here it is a list of segment
  patterns, a literal or a parameter, matched against the slash-separated segments of
  the request path. \<open>app.use('/api', router)\<close> mounts a router at a prefix that must
  end at a segment boundary and strips it from the path the router sees. A router
  tries its layers in the order they were added and answers with the first whose
  method and path match; when none does, Express moves on to the next router.
  Parameters are not percent-decoded here.
\<close>

datatype http_method = GET | POST | PUT | DELETE

datatype seg_pat = Lit string | Param

text \<open>Case folding of the \<open>i\<close> flag: ASCII upper case to lower case.\<close>

definition lower_char :: "char \<Rightarrow> char" where
  "lower_char c = (if 65 \<le> (of_char c :: nat) \<and> (of_char c :: nat) \<le> 90 then char_of (of_char c + (32::nat)) else c)"

text \<open>Splitting at every slash; the first argument is the current segment, reversed.\<close>

fun split_segs :: "string \<Rightarrow> string \<Rightarrow> string list" where
  "split_segs acc [] = [rev acc]"
| "split_segs acc (c # cs) = (if c = CHR ''/'' then rev acc # split_segs [] cs else split_segs (c # acc) cs)"

text \<open>The segments of a path that starts with a slash, after one trailing slash is
  dropped (\<open>strict: false\<close>); an empty segment matches no pattern.\<close>

definition path_segments :: "string \<Rightarrow> string list option" where
  "path_segments p =
     (case p of
        c # r \<Rightarrow>
          if c \<noteq> CHR ''/'' then None
          else (let r' = (if r \<noteq> [] \<and> last r = CHR ''/'' then butlast r else r);
                    ss = split_segs [] r'
                in if list_all (\<lambda>s. s \<noteq> []) ss then Some ss else None)
      | [] \<Rightarrow> None)"

text \<open>A pattern against the segments, giving the values of its parameters.\<close>

fun seg_match :: "seg_pat list \<Rightarrow> string list \<Rightarrow> string list option" where
  "seg_match [] [] = Some []"
| "seg_match (Lit l # ps) (s # ss) = (if map lower_char s = l then seg_match ps ss else None)"
| "seg_match (Param # ps) (s # ss) = map_option (Cons s) (seg_match ps ss)"
| "seg_match _ _ = None"

definition route_match :: "seg_pat list \<Rightarrow> string \<Rightarrow> string list option" where
  "route_match pat p = Option.bind (path_segments p) (seg_match pat)"

text \<open>A router's layer stack: method, path pattern, and the handler it selects given the
  parameters. The first matching layer wins.\<close>

fun route_dispatch ::
  "(http_method \<times> seg_pat list \<times> (string list \<Rightarrow> 'r)) list \<Rightarrow> http_method \<Rightarrow> string \<Rightarrow> 'r option" where
  "route_dispatch [] m p = None"
| "route_dispatch ((m', pat, h) # ls) m p =
     (if m' = m then (case route_match pat p of Some ps \<Rightarrow> Some (h ps) | None \<Rightarrow> route_dispatch ls m p)
      else route_dispatch ls m p)"

text \<open>\<open>app.use(prefix, ...)\<close>: the prefix \<open>/l\<close> matches case-insensitively when the path
  ends there or continues with a slash; the router sees the rest, one slash after the
  prefix included in what is stripped, and at least \<open>/\<close>.\<close>

definition mount_path :: "string \<Rightarrow> string \<Rightarrow> string option" where
  "mount_path l p =
     (case p of
        c # r \<Rightarrow>
          if c \<noteq> CHR ''/'' \<or> map lower_char (take (length l) r) \<noteq> l then None
          else (case drop (length l) r of
                  [] \<Rightarrow> Some ''/''
                | d # rest \<Rightarrow>
                    if d \<noteq> CHR ''/'' then None
                    else if rest \<noteq> [] \<and> hd rest = CHR ''/'' then Some rest else Some (d # rest))
      | [] \<Rightarrow> None)"

subsection \<open>Lemmas\<close>

lemmas lower_char_eval = lower_char_def char_of_eq_iff take_bit_eq_mod

end
