(* ===== verification/Router.thy ===== *)
theory Router
  imports AuthController Tasks Express
begin

text \<open>
  The request path through the server. \<open>src/server.js\<close> parses JSON bodies, mounts
  the task router and then the auth router at \<open>/api\<close>, and the Swagger UI at
  \<open>/api-docs\<close>; Express tries them in that order (theory \<open>Express\<close>) and answers
  404 when none has a matching route. \<open>src/src/routes/taskRoutes.js\<close> puts the
  authorization middleware in front of each of its five routes;
  \<open>src/src/routes/authRoutes.js\<close> has the two public routes. Each router is its layer
  stack, in source order. The middleware (\<open>src/middleware/authMiddleware.js\<close>) is not
  among the repository's files and is modelled from the spec (section 4.4): read a
  bearer token from the \<open>Authorization\<close> header, verify it, answer 401 with one
  generic message on any failure, or pass the request on with the user's id.
  Every router and the application also exist for a database that does not answer
  (the variants \<open>_at\<close>); the task controller's behaviour then, answering 500 from
  its \<open>catch\<close> after the checks that need no query, is modelled from the spec.
  The lemmas show the stack dispatch equal to a direct route table, that an outage
  either answers 500 without a change or acts as with the database up, and collect, under
  \<open>error_shape\<close>, that every handler's failures are JSON \<open>{error}\<close> objects.
  Not modelled here: HEAD requests, which Express sends to GET routes; the body
  parser's 400, 413 and 415 errors, which are in theory \<open>Server\<close>; and task fields of other JSON types than strings (the
  credential fields are passed on with their JSON type).
\<close>

record request =
  req_method :: http_method
  path :: string
  authorization :: "string option"
  req_body :: json

record app_state =
  udb :: user_db
  tdb :: task_db

text \<open>A string member of the parsed JSON body; the task fields are read this way.\<close>

definition json_str_field :: "string \<Rightarrow> json \<Rightarrow> string option" where
  "json_str_field k j = (case json_field k j of Some (JStr s) \<Rightarrow> Some s | _ \<Rightarrow> None)"

text \<open>\<open>const { username, password } = req.body\<close>: the two members, of any JSON type.\<close>

definition cred_of_json :: "json \<Rightarrow> cred_body" where
  "cred_of_json j = \<lparr>body_username = json_field ''username'' j, body_password = json_field ''password'' j\<rparr>"

definition task_body_of_json :: "json \<Rightarrow> task_body" where
  "task_body_of_json j =
     \<lparr>tb_title = json_str_field ''title'' j, tb_description = json_str_field ''description'' j,
      tb_status = json_str_field ''status'' j\<rparr>"

subsection \<open>The authorization middleware\<close>

definition unauthorized :: response where
  "unauthorized = json_error 401 ''Unauthorized''"

definition bearer_token :: "string option \<Rightarrow> string option" where
  "bearer_token h = (case h of None \<Rightarrow> None | Some v \<Rightarrow> strip_prefix ''Bearer '' v)"

definition authMiddleware ::
  "lib \<Rightarrow> string option \<Rightarrow> seconds \<Rightarrow> string option \<Rightarrow> response + oid" where
  "authMiddleware cr sec now h =
     (case bearer_token h of
        None \<Rightarrow> Inl unauthorized
      | Some t \<Rightarrow> (case jwt_verify cr sec now t of Inl _ \<Rightarrow> Inl unauthorized | Inr c \<Rightarrow> Inr (c_id c)))"

subsection \<open>Routers\<close>

datatype task_route =
  ListTasks | GetTask string | AddTask | UpdateTask string | DeleteTask string

text \<open>The layer stack of \<open>src/src/routes/taskRoutes.js\<close>, lines 56-60, in order.\<close>

definition task_layers :: "(http_method \<times> seg_pat list \<times> (string list \<Rightarrow> task_route)) list" where
  "task_layers =
     [(GET, [Lit ''tasks''], \<lambda>ps. ListTasks),
      (GET, [Lit ''tasks'', Param], \<lambda>ps. GetTask (hd ps)),
      (POST, [Lit ''tasks''], \<lambda>ps. AddTask),
      (PUT, [Lit ''tasks'', Param], \<lambda>ps. UpdateTask (hd ps)),
      (DELETE, [Lit ''tasks'', Param], \<lambda>ps. DeleteTask (hd ps))]"

text \<open>The same five routes as one case analysis on the path's segments.\<close>

definition match_task_route :: "http_method \<Rightarrow> string \<Rightarrow> task_route option" where
  "match_task_route m p =
     (case path_segments p of
        Some [s] \<Rightarrow>
          if map lower_char s \<noteq> ''tasks'' then None
          else (case m of GET \<Rightarrow> Some ListTasks | POST \<Rightarrow> Some AddTask | _ \<Rightarrow> None)
      | Some [s, i] \<Rightarrow>
          if map lower_char s \<noteq> ''tasks'' then None
          else (case m of
                  GET \<Rightarrow> Some (GetTask i) | PUT \<Rightarrow> Some (UpdateTask i)
                | DELETE \<Rightarrow> Some (DeleteTask i) | POST \<Rightarrow> None)
      | _ \<Rightarrow> None)"

definition task_handler :: "task_route \<Rightarrow> task_db \<Rightarrow> json \<Rightarrow> task_db \<times> response" where
  "task_handler rt db j =
     (case rt of
        ListTasks \<Rightarrow> (db, getAllTasks db)
      | GetTask i \<Rightarrow> (db, getTaskById db i)
      | AddTask \<Rightarrow> addTask db (task_body_of_json j)
      | UpdateTask i \<Rightarrow> updateTask db i (task_body_of_json j)
      | DeleteTask i \<Rightarrow> deleteTask db i)"

text \<open>
  The task controller when the database does not answer (\<open>up\<close> false), modelled
  from the spec (section 7: a store failure is a generic server error, nothing is
  written): every query rejects into the handler's \<open>catch\<close>, except that a new task
  that fails validation is rejected before its insert, and a path id that is not an
  ObjectId is answered 404 as with the database up.
\<close>

definition task_handler_at :: "bool \<Rightarrow> task_route \<Rightarrow> task_db \<Rightarrow> json \<Rightarrow> task_db \<times> response" where
  "task_handler_at up rt db j =
     (if up then task_handler rt db j
      else (case rt of
              ListTasks \<Rightarrow> (db, server_error)
            | AddTask \<Rightarrow>
                (case new_task (next_tid db) (task_body_of_json j) of
                   Inl e \<Rightarrow> (db, task_error_response e)
                 | Inr _ \<Rightarrow> (db, server_error))
            | GetTask i \<Rightarrow> (db, if dec_to_nat i = None then task_not_found else server_error)
            | UpdateTask i \<Rightarrow> (db, if dec_to_nat i = None then task_not_found else server_error)
            | DeleteTask i \<Rightarrow> (db, if dec_to_nat i = None then task_not_found else server_error)))"

text \<open>Every task route runs \<open>authMiddleware\<close> before its handler.\<close>

definition taskRoutes_at ::
  "bool \<Rightarrow> lib \<Rightarrow> string option \<Rightarrow> seconds \<Rightarrow> task_db \<Rightarrow> http_method \<Rightarrow> string \<Rightarrow>
   string option \<Rightarrow> json \<Rightarrow> (task_db \<times> response) option" where
  "taskRoutes_at up cr sec now db m p h j =
     (case route_dispatch task_layers m p of
        None \<Rightarrow> None
      | Some rt \<Rightarrow>
          Some (case authMiddleware cr sec now h of
                  Inl r \<Rightarrow> (db, r)
                | Inr _ \<Rightarrow> task_handler_at up rt db j))"

definition taskRoutes ::
  "lib \<Rightarrow> string option \<Rightarrow> seconds \<Rightarrow> task_db \<Rightarrow> http_method \<Rightarrow> string \<Rightarrow> string option \<Rightarrow>
   json \<Rightarrow> (task_db \<times> response) option" where
  "taskRoutes cr sec now db m p h j = taskRoutes_at True cr sec now db m p h j"

datatype auth_route = RegisterRoute | LoginRoute

text \<open>The layer stack of \<open>src/src/routes/authRoutes.js\<close>, lines 54-55.\<close>

definition auth_layers :: "(http_method \<times> seg_pat list \<times> (string list \<Rightarrow> auth_route)) list" where
  "auth_layers =
     [(POST, [Lit ''auth'', Lit ''register''], \<lambda>ps. RegisterRoute),
      (POST, [Lit ''auth'', Lit ''login''], \<lambda>ps. LoginRoute)]"

definition authRoutes_at ::
  "bool \<Rightarrow> lib \<Rightarrow> string option \<Rightarrow> seconds \<Rightarrow> string \<Rightarrow> user_db \<Rightarrow> http_method \<Rightarrow>
   string \<Rightarrow> json \<Rightarrow> (user_db \<times> response) option" where
  "authRoutes_at up cr sec now rnd db m p j =
     (case route_dispatch auth_layers m p of
        None \<Rightarrow> None
      | Some RegisterRoute \<Rightarrow> Some (registerUser_at up cr rnd db (cred_of_json j))
      | Some LoginRoute \<Rightarrow> Some (db, loginUser_at up cr sec now db (cred_of_json j)))"

definition authRoutes ::
  "lib \<Rightarrow> string option \<Rightarrow> seconds \<Rightarrow> string \<Rightarrow> user_db \<Rightarrow> http_method \<Rightarrow> string \<Rightarrow>
   json \<Rightarrow> (user_db \<times> response) option" where
  "authRoutes cr sec now rnd db m p j = authRoutes_at True cr sec now rnd db m p j"

subsection \<open>The application\<close>

definition show_method :: "http_method \<Rightarrow> string" where
  "show_method m = (case m of GET \<Rightarrow> ''GET'' | POST \<Rightarrow> ''POST'' | PUT \<Rightarrow> ''PUT'' | DELETE \<Rightarrow> ''DELETE'')"

text \<open>\<open>app.use('/api-docs', swaggerUi.serve, swaggerUi.setup(swaggerSpec))\<close>: the
  Swagger UI page for the documented API (its HTML is not modelled).\<close>

definition docs_page :: response where
  "docs_page = \<lparr>status = 200, body = JStr ''Swagger UI''\<rparr>"

text \<open>Express's final handler when no route matched: an HTML page with this text.\<close>

definition cannot_route :: "request \<Rightarrow> response" where
  "cannot_route req =
     \<lparr>status = 404, body = JStr (''Cannot '' @ show_method (req_method req) @ '' '' @ path req)\<rparr>"

text \<open>
  One request handled by the application: the environment gives whether the database
  answers, the signing secret \<open>process.env.JWT_SECRET\<close>, the current second and the
  random salt characters a registration may use.
\<close>

definition app_handle_at ::
  "bool \<Rightarrow> lib \<Rightarrow> string option \<Rightarrow> seconds \<Rightarrow> string \<Rightarrow> app_state \<Rightarrow> request \<Rightarrow>
   app_state \<times> response" where
  "app_handle_at up cr sec now rnd st req =
     (let rest = (case mount_path ''api-docs'' (path req) of
                    Some _ \<Rightarrow> (st, docs_page)
                  | None \<Rightarrow> (st, cannot_route req))
      in case mount_path ''api'' (path req) of
           None \<Rightarrow> rest
         | Some p \<Rightarrow>
             (case taskRoutes_at up cr sec now (tdb st) (req_method req) p (authorization req) (req_body req) of
                Some (d, r) \<Rightarrow> (st\<lparr>tdb := d\<rparr>, r)
              | None \<Rightarrow>
                  (case authRoutes_at up cr sec now rnd (udb st) (req_method req) p (req_body req) of
                     Some (u, r) \<Rightarrow> (st\<lparr>udb := u\<rparr>, r)
                   | None \<Rightarrow> rest)))"

definition app_handle ::
  "lib \<Rightarrow> string option \<Rightarrow> seconds \<Rightarrow> string \<Rightarrow> app_state \<Rightarrow> request \<Rightarrow> app_state \<times> response" where
  "app_handle cr sec now rnd st req = app_handle_at True cr sec now rnd st req"

text \<open>A token for user 0 issued at second 100 under the example secret \<open>key\<close>.\<close>

abbreviation alice_token :: string where
  "alice_token \<equiv> jwt_encode demo_lib ''key'' \<lparr>c_id = 0, c_iat = 100, c_exp = 100 + token_ttl\<rparr>"

subsection \<open>Lemmas\<close>

text \<open>The routers and the application with the database up, as the code reads.\<close>

lemma task_handler_at_True [simp]: "task_handler_at True = task_handler"
  by (intro ext) (simp add: task_handler_at_def)

lemma taskRoutes_unfold:
  "taskRoutes cr sec now db m p h j =
     (case route_dispatch task_layers m p of
        None \<Rightarrow> None
      | Some rt \<Rightarrow>
          Some (case authMiddleware cr sec now h of
                  Inl r \<Rightarrow> (db, r)
                | Inr _ \<Rightarrow> task_handler rt db j))"
  unfolding taskRoutes_def taskRoutes_at_def task_handler_at_True ..

lemma authRoutes_unfold:
  "authRoutes cr sec now rnd db m p j =
     (case route_dispatch auth_layers m p of
        None \<Rightarrow> None
      | Some RegisterRoute \<Rightarrow> Some (registerUser cr rnd db (cred_of_json j))
      | Some LoginRoute \<Rightarrow> Some (db, loginUser cr sec now db (cred_of_json j)))"
  unfolding authRoutes_def authRoutes_at_def registerUser_def loginUser_def ..

lemma app_handle_unfold:
  "app_handle cr sec now rnd st req =
     (let rest = (case mount_path ''api-docs'' (path req) of
                    Some _ \<Rightarrow> (st, docs_page)
                  | None \<Rightarrow> (st, cannot_route req))
      in case mount_path ''api'' (path req) of
           None \<Rightarrow> rest
         | Some p \<Rightarrow>
             (case taskRoutes cr sec now (tdb st) (req_method req) p (authorization req) (req_body req) of
                Some (d, r) \<Rightarrow> (st\<lparr>tdb := d\<rparr>, r)
              | None \<Rightarrow>
                  (case authRoutes cr sec now rnd (udb st) (req_method req) p (req_body req) of
                     Some (u, r) \<Rightarrow> (st\<lparr>udb := u\<rparr>, r)
                   | None \<Rightarrow> rest)))"
  unfolding app_handle_def app_handle_at_def taskRoutes_def authRoutes_def ..

lemma task_handler_at_outage:
  "task_handler_at False rt db j = (db, server_error) \<or>
   (task_handler_at False rt db j = task_handler rt db j \<and> fst (task_handler rt db j) = db)"
  by (cases rt) (auto simp: task_handler_at_def task_handler_def addTask_def getTaskById_def
      updateTask_def deleteTask_def find_task_def split: sum.splits option.splits)

lemma app_handle_at_outage:
  "app_handle_at False cr sec now rnd st req = (st, server_error) \<or>
   (app_handle_at False cr sec now rnd st req = app_handle cr sec now rnd st req \<and>
    fst (app_handle cr sec now rnd st req) = st)"
proof (cases "mount_path ''api'' (path req)")
  case (Some p)
  show ?thesis
  proof (cases "route_dispatch task_layers (req_method req) p")
    case (Some rt)
    show ?thesis
    proof (cases "authMiddleware cr sec now (authorization req)")
      case (Inr x)
      then show ?thesis using \<open>mount_path ''api'' (path req) = Some p\<close> Some
          task_handler_at_outage [of rt "tdb st" "req_body req"]
        by (auto simp: app_handle_def app_handle_at_def taskRoutes_at_def prod.case_eq_if)
    qed (use \<open>mount_path ''api'' (path req) = Some p\<close> Some in
         \<open>simp add: app_handle_def app_handle_at_def taskRoutes_at_def\<close>)
  next
    case None
    then show ?thesis using \<open>mount_path ''api'' (path req) = Some p\<close>
        registerUser_outage_cases [of cr rnd "udb st" "cred_of_json (req_body req)"]
        loginUser_outage_cases [of cr sec now "udb st" "cred_of_json (req_body req)"]
      by (auto simp: app_handle_def app_handle_at_def taskRoutes_at_def authRoutes_at_def
          registerUser_def loginUser_def Let_def split: option.splits auth_route.splits)
  qed
qed (simp add: app_handle_def app_handle_at_def Let_def split: option.split)

lemmas route_eval = match_task_route_def path_segments_def mount_path_def lower_char_def

lemma authMiddleware_Inl: "authMiddleware cr sec now h = Inl r \<Longrightarrow> r = unauthorized"
  by (simp add: authMiddleware_def split: option.splits sum.splits)

lemma task_layers_direct: "route_dispatch task_layers m p = match_task_route m p"
proof (cases "path_segments p")
  case None
  then show ?thesis by (simp add: task_layers_def match_task_route_def route_match_def)
next
  case (Some ss)
  then show ?thesis
    by (cases m; cases ss rule: remdups_adj.cases)
      (auto simp: task_layers_def match_task_route_def route_match_def split: list.splits)
qed

lemma task_layers_disjoint:
  "length (filter (\<lambda>(m', pat, h). m' = m \<and> route_match pat p \<noteq> None) task_layers) \<le> 1"
proof (cases "path_segments p")
  case None
  then show ?thesis by (simp add: task_layers_def route_match_def)
next
  case (Some ss)
  then show ?thesis
    by (cases m; cases ss rule: remdups_adj.cases)
      (auto simp: task_layers_def route_match_def split: list.splits)
qed

lemma taskRoutes_direct:
  "taskRoutes cr sec now db m p h j =
     (case match_task_route m p of
        None \<Rightarrow> None
      | Some rt \<Rightarrow> Some (case authMiddleware cr sec now h of Inl r \<Rightarrow> (db, r) | Inr _ \<Rightarrow> task_handler rt db j))"
  by (simp add: taskRoutes_unfold task_layers_direct)

lemma taskRoutes_None_iff: "taskRoutes cr sec now db m p h j = None \<longleftrightarrow> match_task_route m p = None"
  by (simp add: taskRoutes_direct split: option.splits)

lemma task_handler_error_shaped [error_shape]: "error_shaped (snd (task_handler rt db j))"
  by (cases rt) (simp_all add: task_handler_def error_shape)

lemma taskRoutes_error_shaped:
  "taskRoutes cr sec now db m p h j = Some (d, r) \<Longrightarrow> error_shaped r"
  by (auto simp: taskRoutes_direct unauthorized_def split: option.splits sum.splits dest: authMiddleware_Inl)
     (metis snd_conv task_handler_error_shaped)

lemma authRoutes_error_shaped:
  "authRoutes cr sec now rnd db m p j = Some (u, r) \<Longrightarrow> error_shaped r"
  by (auto simp: authRoutes_unfold error_shape split: option.splits auth_route.splits)
     (metis snd_conv registerUser_error_shaped)

lemma authRoutes_None_or_auth:
  "authRoutes cr sec now rnd db m p j = Some (db', r) \<Longrightarrow> db' \<noteq> db \<Longrightarrow>
   route_dispatch auth_layers m p = Some RegisterRoute"
  by (auto simp: authRoutes_unfold split: option.splits auth_route.splits)

lemma authMiddleware_accepts:
  "authMiddleware cr sec now h = Inr i \<longleftrightarrow>
   (\<exists>t c. h = Some (''Bearer '' @ t) \<and> jwt_verify cr sec now t = Inr c \<and> c_id c = i)"
  by (auto simp: authMiddleware_def bearer_token_def split: option.splits sum.splits
      dest: strip_prefix_Some)

lemma alice_token_gate:
  "authMiddleware demo_lib (Some ''key'') 200 (Some (''Bearer '' @ alice_token)) = Inr 0"
  by (simp add: authMiddleware_def bearer_token_def jwt_verify_encode
      token_ttl_def)

subsection \<open>Properties of the request path\<close>

text \<open>
  C22. A request to any of the five task routes whose \<open>Authorization\<close> header the middleware
  rejects (absent, not a bearer header, or a token \<open>jwt_verify\<close> refuses) is answered
  401 before it reaches a handler, and the application state is unchanged.
\<close>

theorem protected_routes_require_token:
  assumes "mount_path ''api'' (path req) = Some p" and "match_task_route (req_method req) p \<noteq> None"
    and "isl (authMiddleware cr sec now (authorization req))"
  shows "app_handle cr sec now rnd st req = (st, unauthorized)"
  using assms
  by (auto simp: app_handle_unfold taskRoutes_direct isl_def Let_def split: option.splits sum.splits
      dest: authMiddleware_Inl)

theorem protected_routes_require_token_witness:
  "mount_path ''api'' ''/api/tasks'' = Some ''/tasks'' \<and> match_task_route GET ''/tasks'' \<noteq> None \<and>
   isl (authMiddleware demo_lib (Some ''key'') 200 None) \<and>
   app_handle demo_lib (Some ''key'') 200 ''abcdefghijklmnopqrstuv''
     \<lparr>udb = empty_user_db, tdb = milk_db\<rparr>
     \<lparr>req_method = GET, path = ''/api/tasks'', authorization = None, req_body = JNull\<rparr> =
   (\<lparr>udb = empty_user_db, tdb = milk_db\<rparr>, unauthorized)"
proof -
  have h: "mount_path ''api'' (path \<lparr>req_method = GET, path = ''/api/tasks'', authorization = None, req_body = JNull\<rparr>) = Some ''/tasks''"
    "match_task_route (req_method \<lparr>req_method = GET, path = ''/api/tasks'', authorization = None, req_body = JNull\<rparr>) ''/tasks'' \<noteq> None"
    "isl (authMiddleware demo_lib (Some ''key'') 200 (authorization \<lparr>req_method = GET, path = ''/api/tasks'', authorization = None, req_body = JNull\<rparr>))"
    by (simp_all add: route_eval authMiddleware_def bearer_token_def)
  show ?thesis using h protected_routes_require_token [OF h, of "''abcdefghijklmnopqrstuv''"
      "\<lparr>udb = empty_user_db, tdb = milk_db\<rparr>"] by simp
qed

text \<open>
  C23. A request to a task route whose header is \<open>Bearer \<close> followed by a token that
  \<open>jwt_verify\<close> accepts passes the middleware and is answered by that route's handler.
\<close>

theorem task_route_reaches_handler:
  assumes "match_task_route m p = Some rt"
    and "h = Some (''Bearer '' @ t)" and "jwt_verify cr sec now t = Inr c"
  shows "taskRoutes cr sec now db m p h j = Some (task_handler rt db j)"
proof -
  have "authMiddleware cr sec now h = Inr (c_id c)"
    using assms(2,3) authMiddleware_accepts [of cr sec now h "c_id c"] by blast
  with assms(1) show ?thesis by (simp add: taskRoutes_direct)
qed

theorem task_route_reaches_handler_witness:
  "match_task_route GET ''/tasks'' = Some ListTasks \<and>
   Some (''Bearer '' @ alice_token) = Some (''Bearer '' @ alice_token) \<and>
   jwt_verify demo_lib (Some ''key'') 200 alice_token =
     Inr \<lparr>c_id = 0, c_iat = 100, c_exp = 100 + token_ttl\<rparr> \<and>
   taskRoutes demo_lib (Some ''key'') 200 milk_db GET ''/tasks'' (Some (''Bearer '' @ alice_token)) JNull =
     Some (milk_db, getAllTasks milk_db)"
proof -
  have h: "match_task_route GET ''/tasks'' = Some ListTasks"
    "Some (''Bearer '' @ alice_token) = Some (''Bearer '' @ alice_token)"
    "jwt_verify demo_lib (Some ''key'') 200 alice_token =
       Inr \<lparr>c_id = 0, c_iat = 100, c_exp = 100 + token_ttl\<rparr>"
    by (simp_all add: route_eval jwt_verify_encode token_ttl_def)
  show ?thesis using h task_route_reaches_handler [OF h, of milk_db JNull]
    by (simp add: task_handler_def)
qed

text \<open>
  C24. The application state changes only on a request that carries a token the
  middleware accepts, or on a registration: no unauthenticated request alters the
  task collection.
\<close>

theorem state_changes_need_token:
  assumes "fst (app_handle cr sec now rnd st req) \<noteq> st"
  shows "(\<exists>i. authMiddleware cr sec now (authorization req) = Inr i) \<or>
         (\<exists>p. mount_path ''api'' (path req) = Some p \<and>
              route_dispatch auth_layers (req_method req) p = Some RegisterRoute)"
  using assms
  by (auto simp: app_handle_unfold taskRoutes_direct Let_def split: option.splits sum.splits
      dest!: authRoutes_None_or_auth)

theorem state_changes_need_token_witness:
  "fst (app_handle demo_lib (Some ''key'') 200 ''abcdefghijklmnopqrstuv''
      \<lparr>udb = empty_user_db, tdb = milk_db\<rparr>
      \<lparr>req_method = DELETE, path = ''/api/tasks/0'', authorization = Some (''Bearer '' @ alice_token),
       req_body = JNull\<rparr>) \<noteq> \<lparr>udb = empty_user_db, tdb = milk_db\<rparr> \<and>
   ((\<exists>i. authMiddleware demo_lib (Some ''key'') 200 (Some (''Bearer '' @ alice_token)) = Inr i) \<or>
    (\<exists>p. mount_path ''api'' ''/api/tasks/0'' = Some p \<and>
         route_dispatch auth_layers DELETE p = Some RegisterRoute))"
proof -
  have h: "fst (app_handle demo_lib (Some ''key'') 200 ''abcdefghijklmnopqrstuv''
      \<lparr>udb = empty_user_db, tdb = milk_db\<rparr>
      \<lparr>req_method = DELETE, path = ''/api/tasks/0'', authorization = Some (''Bearer '' @ alice_token),
       req_body = JNull\<rparr>) \<noteq> \<lparr>udb = empty_user_db, tdb = milk_db\<rparr>"
    using alice_token_gate
    by (simp add: app_handle_unfold taskRoutes_direct route_eval task_handler_def
        deleteTask_def find_task_def dec_to_nat_0)
  show ?thesis using h state_changes_need_token [OF h] by simp
qed

text \<open>
  The task routes do not depend on which user is authenticated: two requests that
  differ only in their accepted tokens, for whatever users, get the same answer and
  leave the same state (tasks have no owner; every user sees and changes every task).
\<close>

lemma no_task_ownership:
  assumes "authMiddleware cr sec now h1 = Inr i" and "authMiddleware cr sec now h2 = Inr j"
  shows "app_handle cr sec now rnd st (req\<lparr>authorization := h1\<rparr>) =
         app_handle cr sec now rnd st (req\<lparr>authorization := h2\<rparr>)"
  using assms by (simp add: app_handle_unfold taskRoutes_unfold Let_def cannot_route_def split: option.splits)
lemma no_task_ownership_example:
  "authMiddleware demo_lib (Some ''key'') 200 (Some (''Bearer '' @ alice_token)) = Inr 0 \<and>
   authMiddleware demo_lib (Some ''key'') 200
     (Some (''Bearer '' @ jwt_encode demo_lib ''key'' \<lparr>c_id = 1, c_iat = 100, c_exp = 100 + token_ttl\<rparr>)) = Inr 1 \<and>
   app_handle demo_lib (Some ''key'') 200 ''abcdefghijklmnopqrstuv'' \<lparr>udb = empty_user_db, tdb = milk_db\<rparr>
     \<lparr>req_method = DELETE, path = ''/api/tasks/0'', authorization = Some (''Bearer '' @ alice_token),
      req_body = JNull\<rparr> =
   app_handle demo_lib (Some ''key'') 200 ''abcdefghijklmnopqrstuv'' \<lparr>udb = empty_user_db, tdb = milk_db\<rparr>
     \<lparr>req_method = DELETE, path = ''/api/tasks/0'',
      authorization = Some (''Bearer '' @ jwt_encode demo_lib ''key'' \<lparr>c_id = 1, c_iat = 100, c_exp = 100 + token_ttl\<rparr>),
      req_body = JNull\<rparr>"
proof -
  have h2: "authMiddleware demo_lib (Some ''key'') 200
     (Some (''Bearer '' @ jwt_encode demo_lib ''key'' \<lparr>c_id = 1, c_iat = 100, c_exp = 100 + token_ttl\<rparr>)) = Inr 1"
    by (simp add: authMiddleware_def bearer_token_def jwt_verify_encode
        token_ttl_def)
  show ?thesis using alice_token_gate h2 no_task_ownership [OF alice_token_gate h2, of
      "''abcdefghijklmnopqrstuv''" "\<lparr>udb = empty_user_db, tdb = milk_db\<rparr>"
      "\<lparr>req_method = DELETE, path = ''/api/tasks/0'', authorization = None, req_body = JNull\<rparr>"]
    by simp
qed

text \<open>
  C32. Express's first-match dispatch over the layer stack of \<open>taskRoutes.js\<close> is the
  direct case analysis \<open>match_task_route\<close> on every method and path, and no two layers
  of the stack match the same request, so the order of lines 56-60 does not matter.
\<close>

theorem task_routes_equivalence:
  "route_dispatch task_layers m p = match_task_route m p \<and>
   length (filter (\<lambda>(m', pat, h). m' = m \<and> route_match pat p \<noteq> None) task_layers) \<le> 1"
  by (rule conjI [OF task_layers_direct task_layers_disjoint])

text \<open>
  The error-handling design asks that every failure return a JSON object with an
  \<open>error\<close> field. Every response of the application, on every route, token and
  body, is below 400 or has that shape, with one exception: a request no router
  matches gets Express's final 404 handler, whose body is the HTML text
  \<open>Cannot METHOD path\<close>.
\<close>

theorem app_failures_error_shaped:
  "error_shaped (snd (app_handle cr sec now rnd st req)) \<or>
   snd (app_handle cr sec now rnd st req) = cannot_route req"
  by (auto simp: app_handle_unfold Let_def docs_page_def error_shaped_def
      split: option.splits prod.splits dest: taskRoutes_error_shaped authRoutes_error_shaped)

end
