(* ===== verification/ApiDoc.thy ===== *)
theory ApiDoc
  imports Router
begin

text \<open>
  The API documentation. The \<open>@swagger\<close> comment blocks of the two route files are code:
  \<open>swagger-jsdoc\<close> compiles them into the OpenAPI document that \<open>/api-docs\<close> serves.
  They declare two request-body schemas (\<open>UserCredentials\<close>, \<open>authRoutes.js\<close> lines 5-19;
  \<open>Task\<close>, \<open>taskRoutes.js\<close> lines 6-25) and four operations with their response codes
  (\<open>authRoutes.js\<close> lines 21-52, \<open>taskRoutes.js\<close> lines 27-54). A schema is an object
  of string properties, some required and some restricted to an enumeration; a JSON
  value conforms when it is an object, every required property is present, and every
  declared property that is present is a string of its enumeration. Operation paths
  are relative to the \<open>/api\<close> mount (the server entry of \<open>src/config/swagger.js\<close>,
  which is not in the repository). Descriptions, summaries and defaults are prose.
\<close>

datatype str_schema = AnyStr | EnumStr "string list"

record obj_schema =
  props :: "(string \<times> str_schema) list"
  required :: "string list"

record api_op =
  op_method :: http_method
  op_path :: string
  op_secured :: bool \<comment> \<open>\<open>security: - bearerAuth: []\<close>\<close>
  op_body :: "obj_schema option" \<comment> \<open>the \<open>requestBody\<close> schema\<close>
  op_statuses :: "nat list" \<comment> \<open>the documented \<open>responses\<close>\<close>

definition user_credentials :: obj_schema where
  "user_credentials =
     \<lparr>props = [(''username'', AnyStr), (''password'', AnyStr)], required = [''username'', ''password'']\<rparr>"

definition task_schema :: obj_schema where
  "task_schema =
     \<lparr>props = [(''title'', AnyStr), (''description'', AnyStr), (''status'', EnumStr [''pending'', ''completed''])],
      required = [''title'']\<rparr>"

text \<open>The operations of \<open>authRoutes.js\<close>, lines 21-52.\<close>

definition auth_api_doc :: "api_op list" where
  "auth_api_doc =
     [\<lparr>op_method = POST, op_path = ''/auth/register'', op_secured = False,
       op_body = Some user_credentials, op_statuses = [201, 400]\<rparr>,
      \<lparr>op_method = POST, op_path = ''/auth/login'', op_secured = False,
       op_body = Some user_credentials, op_statuses = [200, 400]\<rparr>]"

text \<open>The operations of \<open>taskRoutes.js\<close>, lines 27-54.\<close>

definition task_api_doc :: "api_op list" where
  "task_api_doc =
     [\<lparr>op_method = GET, op_path = ''/tasks'', op_secured = True,
       op_body = None, op_statuses = [200, 401]\<rparr>,
      \<lparr>op_method = POST, op_path = ''/tasks'', op_secured = True,
       op_body = Some task_schema, op_statuses = [201, 400]\<rparr>]"

text \<open>The OpenAPI document: the operations of both files.\<close>

definition api_doc :: "api_op list" where
  "api_doc = auth_api_doc @ task_api_doc"

fun str_conforms :: "str_schema \<Rightarrow> json \<Rightarrow> bool" where
  "str_conforms AnyStr v = (case v of JStr s \<Rightarrow> True | _ \<Rightarrow> False)"
| "str_conforms (EnumStr es) v = (case v of JStr s \<Rightarrow> s \<in> set es | _ \<Rightarrow> False)"

definition conforms :: "obj_schema \<Rightarrow> json \<Rightarrow> bool" where
  "conforms sc v =
     (case v of
        JObj ms \<Rightarrow>
          list_all (\<lambda>k. json_field k v \<noteq> None) (required sc) \<and>
          list_all (\<lambda>(k, s). case json_field k v of None \<Rightarrow> True | Some x \<Rightarrow> str_conforms s x) (props sc)
      | _ \<Rightarrow> False)"

lemma conforms_credentials:
  "conforms user_credentials j \<Longrightarrow>
   \<exists>u p. cred_of_json j = \<lparr>body_username = Some (JStr u), body_password = Some (JStr p)\<rparr>"
  by (auto simp: conforms_def user_credentials_def cred_of_json_def split: json.splits option.splits)

lemmas response_status = registered_def username_taken_def fields_required_def server_error_def
  invalid_credentials_def login_success_def json_error_def

lemma registerUser_typed:
  assumes rnd: "length rnd = 22"
  shows "status (snd (registerUser cr rnd db
           \<lparr>body_username = Some (JStr u), body_password = Some (JStr p)\<rparr>)) \<in> {201, 400}"
proof (cases "u = [] \<or> p = []")
  case True
  then show ?thesis by (auto simp: registerUser_unfold register_check_unfold truthy_def response_status)
next
  case False
  then show ?thesis using rnd
    by (cases "find_by_username db u")
      (auto simp: register_defs find_by_username_def bcrypt_hash_gen_salt truthy_def response_status)
qed

lemma loginUser_typed:
  "usable_secret sec \<noteq> None \<Longrightarrow>
   status (loginUser cr sec now db \<lparr>body_username = Some (JStr u), body_password = Some (JStr p)\<rparr>) \<in> {200, 400}"
  by (auto simp: loginUser_unfold truthy_def jwt_sign_def response_status
      split: option.splits if_splits)

lemma addTask_status: "status (snd (addTask db b)) \<in> {201, 400}"
  by (auto simp: addTask_def task_error_response_def json_error_def split: sum.splits task_error.splits)

lemma api_doc_cases:
  "a \<in> set api_doc \<Longrightarrow>
   a = api_doc ! 0 \<or> a = api_doc ! 1 \<or> a = api_doc ! 2 \<or> a = api_doc ! 3"
  by (auto simp: api_doc_def auth_api_doc_def task_api_doc_def)

lemmas dispatch_eval = app_handle_unfold taskRoutes_direct authRoutes_unfold auth_layers_def
  route_match_def route_eval Let_def

lemma app_handle_register:
  "req_method req = POST \<Longrightarrow> path req = ''/api/auth/register'' \<Longrightarrow>
   snd (app_handle cr sec now rnd st req) = snd (registerUser cr rnd (udb st) (cred_of_json (req_body req)))"
  by (simp add: dispatch_eval split: prod.split)

lemma app_handle_login:
  "req_method req = POST \<Longrightarrow> path req = ''/api/auth/login'' \<Longrightarrow>
   snd (app_handle cr sec now rnd st req) = loginUser cr sec now (udb st) (cred_of_json (req_body req))"
  by (simp add: dispatch_eval)

lemma app_handle_tasks:
  "path req = ''/api/tasks'' \<Longrightarrow> match_task_route (req_method req) ''/tasks'' = Some rt \<Longrightarrow>
   snd (app_handle cr sec now rnd st req) =
     (case authMiddleware cr sec now (authorization req) of
        Inl r \<Rightarrow> r | Inr _ \<Rightarrow> snd (task_handler rt (tdb st) (req_body req)))"
  by (simp add: app_handle_unfold taskRoutes_direct route_eval Let_def split: sum.split prod.split)

subsection \<open>Properties of the documented interface\<close>

lemma typed_credentials_statuses_up:
  assumes conf: "conforms user_credentials j" and rnd: "length rnd = 22"
    and sec: "usable_secret sec \<noteq> None"
  shows "status (snd (registerUser cr rnd db (cred_of_json j))) \<in> {201, 400} \<and>
         status (loginUser cr sec now db (cred_of_json j)) \<in> {200, 400}"
proof -
  obtain u p where c: "cred_of_json j = \<lparr>body_username = Some (JStr u), body_password = Some (JStr p)\<rparr>"
    using conforms_credentials [OF conf] by blast
  show ?thesis using registerUser_typed [OF rnd] loginUser_typed [OF sec] by (simp add: c)
qed



lemma documented_statuses_up:
  assumes a: "a \<in> set api_doc" and m: "req_method req = op_method a"
    and pth: "path req = ''/api'' @ op_path a"
    and b: "case op_body a of None \<Rightarrow> True | Some sc \<Rightarrow> conforms sc (req_body req)"
    and rnd: "length rnd = 22" and sec: "usable_secret sec \<noteq> None"
  shows "status (snd (app_handle cr sec now rnd st req)) \<in> set (op_statuses a) \<or>
         (op_secured a \<and> status (snd (app_handle cr sec now rnd st req)) = 401)"
  using api_doc_cases [OF a]
proof (elim disjE)
  assume a0: "a = api_doc ! 0"
  then obtain u p where "cred_of_json (req_body req) =
      \<lparr>body_username = Some (JStr u), body_password = Some (JStr p)\<rparr>"
    using b conforms_credentials by (fastforce simp: api_doc_def auth_api_doc_def task_api_doc_def)
  with a0 m pth show ?thesis
    using registerUser_typed [OF rnd, of cr "udb st" u p] by (simp add: api_doc_def auth_api_doc_def task_api_doc_def app_handle_register)
next
  assume a1: "a = api_doc ! 1"
  then obtain u p where "cred_of_json (req_body req) =
      \<lparr>body_username = Some (JStr u), body_password = Some (JStr p)\<rparr>"
    using b conforms_credentials by (fastforce simp: api_doc_def auth_api_doc_def task_api_doc_def)
  with a1 m pth show ?thesis
    using loginUser_typed [OF sec, of cr now "udb st" u p] by (simp add: api_doc_def auth_api_doc_def task_api_doc_def app_handle_login)
next
  assume a2: "a = api_doc ! 2"
  then have "match_task_route (req_method req) ''/tasks'' = Some ListTasks" using m
    by (simp add: api_doc_def auth_api_doc_def task_api_doc_def route_eval)
  with a2 pth show ?thesis
    by (auto simp: api_doc_def auth_api_doc_def task_api_doc_def app_handle_tasks task_handler_def getAllTasks_def unauthorized_def
        json_error_def split: sum.split dest: authMiddleware_Inl)
next
  assume a3: "a = api_doc ! 3"
  then have "match_task_route (req_method req) ''/tasks'' = Some AddTask" using m
    by (simp add: api_doc_def auth_api_doc_def task_api_doc_def route_eval)
  with a3 pth show ?thesis using addTask_status
    by (auto simp: api_doc_def auth_api_doc_def task_api_doc_def app_handle_tasks task_handler_def unauthorized_def
        json_error_def split: sum.split dest: authMiddleware_Inl)
qed



text \<open>
  The documentation and the code disagree: \<open>POST /tasks\<close> is secured, and without a
  token it answers 401, which its documented responses (201, 400) omit; and three of
  the five task routes (\<open>GET\<close>, \<open>PUT\<close> and \<open>DELETE\<close> on \<open>/tasks/:id\<close>) match no
  documented operation.
\<close>

theorem undocumented_responses:
  "status (snd (app_handle cr (Some ''key'') now rnd st
     \<lparr>req_method = POST, path = ''/api/tasks'', authorization = None,
      req_body = JObj [(''title'', JStr ''buy milk'')]\<rparr>)) = 401 \<and>
   op_method (api_doc ! 3) = POST \<and> op_path (api_doc ! 3) = ''/tasks'' \<and>
   401 \<notin> set (op_statuses (api_doc ! 3)) \<and>
   length (filter (\<lambda>(m, pat, h). \<not> list_ex (\<lambda>a. op_method a = m \<and> route_match pat (op_path a) \<noteq> None) api_doc)
     task_layers) = 3"
proof -
  have "match_task_route POST ''/tasks'' = Some AddTask" by (simp add: route_eval)
  then have "snd (app_handle cr (Some ''key'') now rnd st
     \<lparr>req_method = POST, path = ''/api/tasks'', authorization = None,
      req_body = JObj [(''title'', JStr ''buy milk'')]\<rparr>) = unauthorized"
    by (simp add: app_handle_tasks authMiddleware_def bearer_token_def)
  then show ?thesis
    by (simp add: unauthorized_def json_error_def api_doc_def auth_api_doc_def task_api_doc_def task_layers_def route_match_def
        path_segments_def lower_char_def)
qed

end
