(* ===== verification/Server.thy ===== *)
theory Server
  imports Complex_Main "HOL-Library.Word" Router
begin

text \<open>
  The startup code of \<open>src/server.js\<close>. After mounting the routers the server calls
  \<open>mongoose.connect(process.env.DATABASE_URL, ...)\<close> without awaiting it (lines
  13-15): a failed connection is only logged by the \<open>.catch\<close>. It then listens on
  \<open>process.env.PORT || 3000\<close> (lines 25-26). \<open>app.listen(PORT)\<close> is Node's
  \<open>net.Server.listen\<close>: a string that \<open>Number()\<close> does not read as a number
  \<open>\<ge> 0\<close> is taken as the path of a local socket (\<open>isPipeName\<close>); any other value
  is checked by \<open>validatePort\<close>, which throws \<open>ERR_SOCKET_BAD_PORT\<close> unless it is an
  integer from 0 to 65535 (and, for a string, not blank). A TCP port is 16 bits wide,
  so it is a \<^typ>\<open>16 word\<close> here. \<open>Number()\<close> on a string is ECMAScript's
  \<open>StringToNumber\<close>: surrounding white space is trimmed, a blank string is 0, and the
  rest must be a decimal literal (sign, digits, fraction, exponent, or
  \<open>Infinity\<close>) or a \<open>0x\<close>, \<open>0o\<close> or \<open>0b\<close> integer; anything else is NaN.
  The running server then takes requests one after another: each body goes through
  \<open>express.json()\<close> (\<open>app_receive\<close>), and each request finds the database
  answering or not, since the connection was never awaited. The properties: the port
  bound, the shape of every response, and the invariants of both collections over any
  run.
\<close>

subsection \<open>\<open>Number()\<close> on strings\<close>

datatype js_number = NaN | Inf bool \<comment> \<open>\<open>True\<close>: negative\<close> | Finite rat

text \<open>\<open>String.prototype.trim\<close> on the white space of one-byte characters: tab, line
  feed, vertical tab, form feed, carriage return and space.\<close>

definition js_trim :: "string \<Rightarrow> string" where
  "js_trim s =
     (let sp = (\<lambda>c. c \<in> set [CHR 0x09, CHR 0x0A, CHR 0x0B, CHR 0x0C, CHR 0x0D, CHR 0x20])
      in rev (dropWhile sp (rev (dropWhile sp s))))"

text \<open>The value of a digit in radix 2, 8 or 16 (letters of either case).\<close>

definition radix_digit :: "nat \<Rightarrow> char \<Rightarrow> nat option" where
  "radix_digit r c =
     (let n = of_char c :: nat;
          d = (if 48 \<le> n \<and> n \<le> 57 then Some (n - 48)
               else if 97 \<le> n \<and> n \<le> 102 then Some (n - 87)
               else if 65 \<le> n \<and> n \<le> 70 then Some (n - 55) else None)
      in case d of Some v \<Rightarrow> if v < r then Some v else None | None \<Rightarrow> None)"

fun radix_val :: "nat \<Rightarrow> nat \<Rightarrow> string \<Rightarrow> nat option" where
  "radix_val r acc [] = Some acc"
| "radix_val r acc (c # cs) =
     (case radix_digit r c of None \<Rightarrow> None | Some d \<Rightarrow> radix_val r (r * acc + d) cs)"

text \<open>\<open>NonDecimalIntegerLiteral\<close>: \<open>0b\<close>, \<open>0o\<close> or \<open>0x\<close> and at least one digit.\<close>

definition non_decimal :: "string \<Rightarrow> nat option" where
  "non_decimal s =
     (case s of
        z # p # ds \<Rightarrow>
          if z \<noteq> CHR ''0'' \<or> ds = [] then None
          else if p = CHR ''b'' \<or> p = CHR ''B'' then radix_val 2 0 ds
          else if p = CHR ''o'' \<or> p = CHR ''O'' then radix_val 8 0 ds
          else if p = CHR ''x'' \<or> p = CHR ''X'' then radix_val 16 0 ds
          else None
      | _ \<Rightarrow> None)"

text \<open>The digits before the exponent: \<open>d.\<close>, \<open>d.d\<close>, \<open>.d\<close> or \<open>d\<close>.\<close>

definition mantissa_val :: "string \<Rightarrow> rat option" where
  "mantissa_val m =
     (let i = takeWhile is_digit m; r = dropWhile is_digit m in
      if r = [] then (if i = [] then None else Some (of_nat (dec_val i)))
      else if hd r \<noteq> CHR ''.'' then None
      else (let f = tl r in
            if \<not> list_all is_digit f \<or> (i = [] \<and> f = []) then None
            else Some (of_nat (dec_val (i @ f)) / of_nat (10 ^ length f))))"

definition exponent_val :: "string \<Rightarrow> int option" where
  "exponent_val e =
     (case e of
        [] \<Rightarrow> None
      | c # ds \<Rightarrow>
          if c = CHR ''+'' \<or> c = CHR ''-'' then
            (if ds \<noteq> [] \<and> list_all is_digit ds
             then Some (if c = CHR ''-'' then - int (dec_val ds) else int (dec_val ds)) else None)
          else if list_all is_digit e then Some (int (dec_val e)) else None)"

text \<open>\<open>StrUnsignedDecimalLiteral\<close>: \<open>Infinity\<close>, or a mantissa with an optional
  exponent after \<open>e\<close> or \<open>E\<close>.\<close>

definition unsigned_decimal :: "string \<Rightarrow> js_number" where
  "unsigned_decimal s =
     (if s = ''Infinity'' then Inf False
      else (let m = takeWhile (\<lambda>c. c \<noteq> CHR ''e'' \<and> c \<noteq> CHR ''E'') s;
                r = dropWhile (\<lambda>c. c \<noteq> CHR ''e'' \<and> c \<noteq> CHR ''E'') s in
            case mantissa_val m of
              None \<Rightarrow> NaN
            | Some q \<Rightarrow>
                if r = [] then Finite q
                else (case exponent_val (tl r) of None \<Rightarrow> NaN | Some k \<Rightarrow>
                   Finite (if 0 \<le> k then q * 10 ^ nat k else q / 10 ^ nat (- k)))))"

definition js_to_number :: "string \<Rightarrow> js_number" where
  "js_to_number s =
     (let t = js_trim s in
      if t = [] then Finite 0
      else (case non_decimal t of
              Some n \<Rightarrow> Finite (of_nat n)
            | None \<Rightarrow>
                (case t of
                   c # r \<Rightarrow>
                     if c = CHR ''+'' then unsigned_decimal r
                     else if c = CHR ''-'' then
                       (case unsigned_decimal r of
                          NaN \<Rightarrow> NaN | Inf b \<Rightarrow> Inf (\<not> b) | Finite q \<Rightarrow> Finite (- q))
                     else unsigned_decimal t)))"

subsection \<open>Listening\<close>

text \<open>The value of \<open>process.env.PORT || 3000\<close>: an environment variable is a string,
  and the empty string is falsy.\<close>

datatype port_arg = PortNum nat | PortStr string

definition port_setting :: "string option \<Rightarrow> port_arg" where
  "port_setting env = (case env of None \<Rightarrow> PortNum 3000 | Some s \<Rightarrow> if s = [] then PortNum 3000 else PortStr s)"

datatype listen_target = TcpPort "16 word" | PipePath string

datatype start_error = ERR_SOCKET_BAD_PORT port_arg

text \<open>\<open>+port !== (+port >>> 0) || port > 0xFFFF\<close>: the number must be an integer
  from 0 to 65535; \<open>port | 0\<close> is then that integer.\<close>

definition valid_port :: "js_number \<Rightarrow> nat option" where
  "valid_port v =
     (case v of
        Finite q \<Rightarrow> if of_int \<lfloor>q\<rfloor> = q \<and> 0 \<le> q \<and> q \<le> 65535 then Some (nat \<lfloor>q\<rfloor>) else None
      | _ \<Rightarrow> None)"

text \<open>\<open>app.listen(PORT)\<close>: a string whose number is NaN or negative
  (\<open>toNumber(x) === false\<close>) names a pipe; anything else goes through
  \<open>validatePort\<close>.\<close>

definition app_listen :: "port_arg \<Rightarrow> start_error + listen_target" where
  "app_listen a =
     (case a of
        PortNum n \<Rightarrow>
          (case valid_port (Finite (of_nat n)) of
             Some p \<Rightarrow> Inr (TcpPort (word_of_nat p))
           | None \<Rightarrow> Inl (ERR_SOCKET_BAD_PORT a))
      | PortStr s \<Rightarrow>
          (let v = js_to_number s in
           if (case v of NaN \<Rightarrow> True | Inf b \<Rightarrow> b | Finite q \<Rightarrow> q < 0)
           then Inr (PipePath s)
           else if js_trim s = [] then Inl (ERR_SOCKET_BAD_PORT a)
           else (case valid_port v of
                   Some p \<Rightarrow> Inr (TcpPort (word_of_nat p))
                 | None \<Rightarrow> Inl (ERR_SOCKET_BAD_PORT a))))"

subsection \<open>Serving requests\<close>

text \<open>
  \<open>mongoose.connect\<close> is not awaited and its failure is only logged (lines 13-15),
  so the server serves requests whether or not the database answers; each request
  finds it up or not, and the handlers themselves (\<^const>\<open>app_handle_at\<close>) meet a
  rejected query in their \<open>catch\<close>.

  \<open>express.json()\<close> (line 10) runs before any router, with its defaults. A request
  without a JSON body gets \<open>req.body = {}\<close>. For a JSON body it checks, in this order:
  the charset of \<open>Content-Type\<close> (default \<open>utf-8\<close>) must begin with \<open>utf-\<close>
  (else 415); the \<open>Content-Encoding\<close> must be \<open>identity\<close>, \<open>gzip\<close> or \<open>deflate\<close>
  (else 415); the body may have at most 100kb = 102400 bytes (else 413); the charset
  must be one the decoder knows (else 415); and the text must parse as JSON whose top
  level is an object or an array (strict mode, else 400). Each error goes to Express's
  default error handler, which answers its status with an HTML page. The outcome of
  \<open>JSON.parse\<close> on the text is an input of the model (\<open>None\<close>: it does not parse).
\<close>

datatype body_in =
    NoJsonBody
  | JsonBody string nat "string option" "json option"
      \<comment> \<open>\<open>Content-Encoding\<close>, length in bytes, charset, outcome of \<open>JSON.parse\<close>\<close>

definition utf_decoders :: "string list" where
  "utf_decoders = [''utf-8'', ''utf8'', ''utf-16'', ''utf16'', ''utf-16le'', ''utf16le'', ''utf-16be'',
     ''utf16be'', ''utf-32'', ''utf32'', ''utf-32le'', ''utf32le'', ''utf-32be'', ''utf32be'', ''utf-7'',
     ''utf7'', ''utf-7-imap'', ''utf7imap'']"

definition parse_body :: "body_in \<Rightarrow> nat + json" where
  "parse_body b =
     (case b of
        NoJsonBody \<Rightarrow> Inr (JObj [])
      | JsonBody enc len cs r \<Rightarrow>
          (let charset = map lower_char (case cs of None \<Rightarrow> ''utf-8'' | Some c \<Rightarrow> c) in
           if take 4 charset \<noteq> ''utf-'' then Inl 415
           else if map lower_char enc \<notin> set [''identity'', ''gzip'', ''deflate''] then Inl 415
           else if 102400 < len then Inl 413
           else if charset \<notin> set utf_decoders then Inl 415
           else (case r of
                   Some (JObj ms) \<Rightarrow> Inr (JObj ms)
                 | Some (JArr vs) \<Rightarrow> Inr (JArr vs)
                 | _ \<Rightarrow> Inl 400)))"

text \<open>Express's default error handler: the status and its HTML page, whose text is the
  status message in production.\<close>

definition parser_error :: "nat \<Rightarrow> response" where
  "parser_error n =
     \<lparr>status = n, body = JStr (if n = 413 then ''Payload Too Large''
                             else if n = 415 then ''Unsupported Media Type'' else ''Bad Request'')\<rparr>"

text \<open>A request as it arrives: its body goes through the parser, then \<open>app\<close>
  handles it with the parsed body.\<close>

definition app_receive ::
  "lib \<Rightarrow> string option \<Rightarrow> seconds \<Rightarrow> string \<Rightarrow> bool \<Rightarrow> app_state \<Rightarrow> request \<Rightarrow> body_in \<Rightarrow>
   app_state \<times> response" where
  "app_receive cr sec now rnd up st req b =
     (case parse_body b of
        Inl n \<Rightarrow> (st, parser_error n)
      | Inr j \<Rightarrow> app_handle_at up cr sec now rnd st (req\<lparr>req_body := j\<rparr>))"

text \<open>The listening server hands each request to \<open>app\<close> in arrival order; a
  request arrives at a second \<open>now\<close>, with the random salt characters of its
  \<open>genSalt\<close> if it registers a user, finds the store reachable or not, and carries
  its body. Requests are taken one at a time here; the interleaving of concurrent
  registrations is the theory \<open>Registration\<close>.\<close>

fun serve ::
  "lib \<Rightarrow> string option \<Rightarrow> app_state \<Rightarrow> (seconds \<times> string \<times> bool \<times> request \<times> body_in) list \<Rightarrow>
   app_state \<times> response list" where
  "serve cr sec st [] = (st, [])"
| "serve cr sec st ((now, rnd, up, q, b) # qs) =
     (let (st1, r) = app_receive cr sec now rnd up st q b;
          (st2, rs) = serve cr sec st1 qs
      in (st2, r # rs))"

text \<open>The invariant of the application state: both collections keep theirs.\<close>

definition app_inv :: "app_state \<Rightarrow> bool" where
  "app_inv st \<longleftrightarrow> user_db_inv (udb st) \<and> task_db_inv (tdb st)"

subsection \<open>Lemmas\<close>

lemma valid_port_Some: "valid_port v = Some p \<longleftrightarrow> v = Finite (of_nat p) \<and> p \<le> 65535"
proof
  assume "valid_port v = Some p"
  then obtain q where v: "v = Finite q" and i: "of_int \<lfloor>q\<rfloor> = q" and b: "0 \<le> q" "q \<le> 65535"
    and p: "p = nat \<lfloor>q\<rfloor>"
    by (auto simp: valid_port_def split: js_number.splits if_splits)
  from i b p have "q = of_nat p" by (metis of_nat_int_floor)
  with v b show "v = Finite (of_nat p) \<and> p \<le> 65535" by simp
next
  assume "v = Finite (of_nat p) \<and> p \<le> 65535"
  then show "valid_port v = Some p" by (simp add: valid_port_def)
qed

lemma unat_le_65535: "unat (w :: 16 word) \<le> 65535"
  using unsigned_less [of w, where 'a = nat] by simp

lemma task_handler_inv: "task_db_inv db \<Longrightarrow> task_db_inv (fst (task_handler rt db j))"
  by (cases rt) (simp_all add: task_handler_def addTask_inv updateTask_inv deleteTask_inv)

lemma taskRoutes_inv:
  "taskRoutes cr sec now db m p h j = Some (d, r) \<Longrightarrow> task_db_inv db \<Longrightarrow> task_db_inv d"
  by (auto simp: taskRoutes_direct split: option.splits sum.splits)
     (metis fst_conv task_handler_inv)

lemma authRoutes_inv:
  "authRoutes cr sec now rnd db m p j = Some (u, r) \<Longrightarrow> user_db_inv db \<Longrightarrow> user_db_inv u"
  by (auto simp: authRoutes_unfold split: option.splits auth_route.splits)
     (metis fst_conv registerUser_inv)

lemma app_handle_inv: "app_inv st \<Longrightarrow> app_inv (fst (app_handle cr sec now rnd st req))"
  by (auto simp: app_handle_unfold Let_def app_inv_def split: option.splits prod.splits
      dest: taskRoutes_inv authRoutes_inv)

lemma app_handle_at_inv: "app_inv st \<Longrightarrow> app_inv (fst (app_handle_at up cr sec now rnd st req))"
  using app_handle_at_outage [of cr sec now rnd st req] app_handle_inv [of st cr sec now rnd req]
  by (cases up) (auto simp: app_handle_def)

lemma app_receive_inv: "app_inv st \<Longrightarrow> app_inv (fst (app_receive cr sec now rnd up st req b))"
  by (simp add: app_receive_def app_handle_at_inv split: sum.split)

lemma parse_body_Inl: "parse_body b = Inl n \<Longrightarrow> n \<in> {400, 413, 415}"
  by (auto simp: parse_body_def Let_def split: body_in.splits if_splits option.splits json.splits)

lemma serve_inv: "app_inv st \<Longrightarrow> app_inv (fst (serve cr sec st qs))"
proof (induction cr sec st qs rule: serve.induct)
  case (2 cr sec st now rnd up q b qs)
  obtain st1 r where h: "app_receive cr sec now rnd up st q b = (st1, r)" by fastforce
  from app_receive_inv [OF "2.prems", of cr sec now rnd up q b] h have "app_inv st1" by simp
  then have "app_inv (fst (serve cr sec st1 qs))" by (rule "2.IH" [OF h [symmetric] refl])
  with h show ?case by (cases "serve cr sec st1 qs") simp
qed simp


lemmas listen_eval = app_listen_def port_setting_def js_to_number_def js_trim_def non_decimal_def
  unsigned_decimal_def mantissa_val_def valid_port_def is_digit_def dec_val_def digit_val_def Let_def

text \<open>What the startup does for some values of \<open>PORT\<close>: unset gives 3000, a
  decimal port is used as given, 70000 fails startup, and a value that is not a
  non-negative number, such as \<open>abc\<close> or \<open>-1\<close>, makes the server listen on a
  local socket of that name.\<close>

lemma listen_examples:
  "app_listen (port_setting None) = Inr (TcpPort 3000)"
  "app_listen (port_setting (Some ''8080'')) = Inr (TcpPort 8080)"
  "app_listen (port_setting (Some ''70000'')) = Inl (ERR_SOCKET_BAD_PORT (PortStr ''70000''))"
  "app_listen (port_setting (Some ''abc'')) = Inr (PipePath ''abc'')"
  "app_listen (port_setting (Some ''-1'')) = Inr (PipePath ''-1'')"
  by (simp_all add: listen_eval)

subsection \<open>Properties of the running server\<close>

text \<open>
  C35. The port is never wrapped around: \<open>app.listen\<close> binds the TCP port
  \<open>w\<close> for the string \<open>PORT\<close> exactly when the string is not blank and
  \<open>Number(PORT)\<close> is the number \<open>w\<close> itself. A \<open>PORT\<close> that reads as 65536 or more
  binds no port (it fails startup with \<open>ERR_SOCKET_BAD_PORT\<close>).
\<close>

theorem listen_port_exact:
  "app_listen (PortStr s) = Inr (TcpPort w) \<longleftrightarrow>
   js_trim s \<noteq> [] \<and> js_to_number s = Finite (of_nat (unat w))"
proof
  assume l: "app_listen (PortStr s) = Inr (TcpPort w)"
  then obtain p where t: "js_trim s \<noteq> []" and vp: "valid_port (js_to_number s) = Some p"
    and w: "w = word_of_nat p"
    by (auto simp: app_listen_def Let_def split: js_number.splits if_splits option.splits)
  from vp have n: "js_to_number s = Finite (of_nat p)" and b: "p \<le> 65535"
    by (simp_all add: valid_port_Some)
  from b w have "unat w = p" by (simp add: unat_of_nat)
  with t n show "js_trim s \<noteq> [] \<and> js_to_number s = Finite (of_nat (unat w))" by simp
next
  assume "js_trim s \<noteq> [] \<and> js_to_number s = Finite (of_nat (unat w))"
  then have t: "js_trim s \<noteq> []" and n: "js_to_number s = Finite (of_nat (unat w))" by simp_all
  have vp: "valid_port (Finite (of_nat (unat w))) = Some (unat w)"
    by (rule valid_port_Some [THEN iffD2]) (simp add: unat_le_65535)
  have nn: "\<not> (unsigned w :: rat) < 0" by (metis not_less of_nat_0_le_iff of_nat_unat)
  show "app_listen (PortStr s) = Inr (TcpPort w)"
    using t vp nn by (simp add: app_listen_def Let_def n)
qed

text \<open>
  C17. Whatever sequence of requests the server receives, on any route, with any
  token and body, starting from collections that satisfy their invariants, both
  still do afterwards: usernames unique, every password a bcrypt hash, ObjectIds
  distinct and allocated, and every task titled.
\<close>

theorem serve_preserves_inv:
  assumes "user_db_inv (udb st)" and "task_db_inv (tdb st)"
  shows "user_db_inv (udb (fst (serve cr sec st qs))) \<and> task_db_inv (tdb (fst (serve cr sec st qs)))"
  using serve_inv [of st cr sec qs] assms by (simp add: app_inv_def)

theorem serve_preserves_inv_witness:
  "user_db_inv (udb \<lparr>udb = empty_user_db, tdb = empty_task_db\<rparr>) \<and>
   task_db_inv (tdb \<lparr>udb = empty_user_db, tdb = empty_task_db\<rparr>) \<and>
   user_db_inv (udb (fst (serve demo_lib (Some ''key'') \<lparr>udb = empty_user_db, tdb = empty_task_db\<rparr>
     [(100, ''abcdefghijklmnopqrstuv'', True, \<lparr>req_method = POST, path = ''/api/auth/register'',
        authorization = None, req_body = JNull\<rparr>,
       JsonBody ''identity'' 42 None (Some (JObj [(''username'', JStr ''alice''), (''password'', JStr ''s3cret!'')])))]))) \<and>
   task_db_inv (tdb (fst (serve demo_lib (Some ''key'') \<lparr>udb = empty_user_db, tdb = empty_task_db\<rparr>
     [(100, ''abcdefghijklmnopqrstuv'', True, \<lparr>req_method = POST, path = ''/api/auth/register'',
        authorization = None, req_body = JNull\<rparr>,
       JsonBody ''identity'' 42 None (Some (JObj [(''username'', JStr ''alice''), (''password'', JStr ''s3cret!'')])))])))"
proof -
  have u: "user_db_inv (udb \<lparr>udb = empty_user_db, tdb = empty_task_db\<rparr>)"
    using user_db_inv_empty by simp
  have t: "task_db_inv (tdb \<lparr>udb = empty_user_db, tdb = empty_task_db\<rparr>)"
    by (simp add: task_db_inv_def empty_task_db_def)
  show ?thesis using u t serve_preserves_inv [OF u t] by blast
qed

text \<open>
  C9. The error-handling design asks that every failure return a JSON object with an
  \<open>error\<close> field. Every response of the server, on every route, token, body and
  state of the database, is below 400 or has that shape, except the HTML pages of
  Express: the 404 of its final handler for a request no router matches
  (\<open>Cannot METHOD path\<close>), and the 400, 413 or 415 of its error handler for a body
  \<open>express.json()\<close> rejects.
\<close>

theorem server_failures_error_shaped:
  "error_shaped (snd (app_receive cr sec now rnd up st req b)) \<or>
   snd (app_receive cr sec now rnd up st req b) = cannot_route req \<or>
   snd (app_receive cr sec now rnd up st req b) \<in> parser_error ` {400, 413, 415}"
proof (cases "parse_body b")
  case (Inr j)
  have "error_shaped (snd (app_handle cr sec now rnd st (req\<lparr>req_body := j\<rparr>))) \<or>
        snd (app_handle cr sec now rnd st (req\<lparr>req_body := j\<rparr>)) = cannot_route (req\<lparr>req_body := j\<rparr>)"
    by (rule app_failures_error_shaped)
  moreover have "cannot_route (req\<lparr>req_body := j\<rparr>) = cannot_route req" by (simp add: cannot_route_def)
  ultimately show ?thesis
    using Inr app_handle_at_outage [of cr sec now rnd st "req\<lparr>req_body := j\<rparr>"]
    by (cases up) (auto simp: app_receive_def app_handle_def error_shape)
next
  case (Inl n)
  then show ?thesis using parse_body_Inl [OF Inl] by (auto simp: app_receive_def)
qed

end
