(* ===== verification/Spec2Isabelle.thy ===== *)
theory Spec2Isabelle
  imports Prelude Base64 Bcrypt Jwt Users AuthController Registration Tasks Express Router ApiDoc Server
begin

text \<open>
  \<^bold>\<open>Verification development of the VE3 task-tracking API.\<close>

  The program is an Express server (\<open>src/server.js\<close>) over MongoDB. It parses JSON
  bodies and mounts two routers at \<open>/api\<close>, in this order, and Swagger UI at
  \<open>/api-docs\<close>:
  \<^item> the task router \<open>src/src/routes/taskRoutes.js\<close>: five routes on \<open>/tasks\<close> and
    \<open>/tasks/:id\<close>, each behind the authorization middleware;
  \<^item> the auth router \<open>src/src/routes/authRoutes.js\<close>: \<open>POST /auth/register\<close> and
    \<open>POST /auth/login\<close>, handled by \<open>src/src/controllers/authController.js\<close>.
  Users (\<open>src/src/models/User.js\<close>) are stored with a bcrypt hash made by a pre-save
  hook; a login that matches answers a JSON Web Token signed with HS256 that the
  middleware later verifies. Tasks (\<open>src/src/models/Task.js\<close>) have a title, an
  optional description and a status \<open>pending\<close> or \<open>completed\<close>. The
  \<open>@swagger\<close> comments of both route files are the API's documentation.

  \<^bold>\<open>Theories.\<close>
  \<^item> \<open>Prelude\<close>: JSON values, responses, the shape \<^const>\<open>error_shaped\<close> of a
    failure response, the record \<^typ>\<open>lib\<close> of the library primitives (the bcrypt
    digest, HMAC-SHA256, MongoDB's reading of operator objects; parameters of the
    whole model), decimal numerals, string helpers and the JavaScript readings of a
    value (truthiness, Mongoose's cast to String). The collection \<open>error_shape\<close>
    gathers the lemmas that a handler's responses have the error shape.
  \<^item> \<open>Base64\<close>: base64url, the encoding of token segments, as
    \<^const>\<open>b64_encode\<close> and \<^const>\<open>b64_decode\<close>, with the round trip, the
    alphabet and the unpadded length proved.
  \<^item> \<open>Bcrypt\<close>: \<open>bcrypt.genSalt\<close>, \<open>bcrypt.hash\<close> and \<open>bcrypt.compare\<close> as
    \<^const>\<open>gen_salt\<close>, \<^const>\<open>bcrypt_hash\<close>, \<^const>\<open>bcrypt_compare\<close>: the
    29-character setting \<open>$2b$NN$\<close> with 22 salt characters, the key cut at 72 bytes
    after a NUL terminator, comparison by re-hashing. Proved: compare succeeds exactly
    when the keys agree (C7), and passwords that agree on their first 72 bytes are
    interchangeable (C8).
  \<^item> \<open>Jwt\<close>: \<open>jwt.sign\<close> and \<open>jwt.verify\<close> as \<^const>\<open>jwt_sign\<close> and
    \<^const>\<open>jwt_verify\<close>, with the checks in the library's order (secret, three
    segments, payload, algorithm, signature, expiry). Proved: a verified token was
    signed with the secret (C3), a signed token verifies for 24 hours (C4) and then
    expires (C5), a token with another signature (C6) or one flipped bit (lemma \<open>jwt_verify_flipped_bit\<close>) is
    rejected, and every issued token is three base64url segments that decode to the
    HS256 header and the signed claims (C26).
  \<^item> \<open>Users\<close>: the user schema as \<^typ>\<open>user_doc\<close> in a collection
    \<^typ>\<open>user_db\<close> (insertion order, ObjectId counter), \<open>save()\<close> as
    \<^const>\<open>user_save\<close> (required validators, the pre-save hook, the unique index),
    \<open>User.findOne\<close> with Mongoose's query casting as \<^const>\<open>user_find_one\<close>, and
    the invariant \<^const>\<open>user_db_inv\<close>.
  \<^item> \<open>AuthController\<close>: \<^const>\<open>registerUser\<close> and \<^const>\<open>loginUser\<close>, every
    branch and status code. Registration is split at its await into
    \<^const>\<open>register_check\<close> and \<^const>\<open>register_commit\<close>. Each handler
    also exists for a database that does not answer (\<^const>\<open>registerUser_at\<close>,
    \<^const>\<open>loginUser_at\<close> with the flag \<open>False\<close>, through
    \<^const>\<open>user_find_one_at\<close>): \<open>User.findOne\<close> then rejects and the
    handler's own \<open>catch\<close> answers. Proved: the invariant (C2), the outcome of each
    branch (C10 to C14), atomicity (C27), the answers during an outage (C28), and two
    defects: an operator object as username logs in without the password (C30), and a
    numeric password registers but can never log in (C31).
  \<^item> \<open>Registration\<close>: concurrent registrations as the step relation
    \<^const>\<open>reg_step\<close>, one phase of one request per step, where either await may also
    fail on the store. Proved: the invariant in every reachable state (C15), the lost
    race of two equal usernames answered 500 (C16), stored documents as many as 201
    answers (C29); the witnesses of C15 and C29 run the race of C16. Lemmas show every
    run finite (\<open>reg_step_terminates\<close>, by the measure \<^const>\<open>pending\<close> of the
    phases left), at most twice as long as there are requests
    (\<open>reg_steps_bounded\<close>), and no state stuck before every request is answered
    (\<open>reg_deadlock_free\<close>).
  \<^item> \<open>Tasks\<close>: the task schema and the task controller's five handlers, with the
    invariant \<^const>\<open>task_db_inv\<close> kept by each handler, their behaviour (C18 to C21) and an
    abstract specification of the store as a finite map from ObjectId to task, which
    the handlers refine (C25).
  \<^item> \<open>Express\<close>: the matching Express does: path patterns of \<open>path-to-regexp\<close>
    (literal segments compared case-insensitively, \<open>:param\<close> segments, an optional
    trailing slash) as \<^const>\<open>route_match\<close>, the first-match walk of a router's
    layer stack as \<^const>\<open>route_dispatch\<close>, and the prefix test of \<open>app.use\<close>
    as \<^const>\<open>mount_path\<close>.
  \<^item> \<open>Router\<close>: the middleware \<^const>\<open>authMiddleware\<close>, the layer stacks
    \<^const>\<open>task_layers\<close> and \<^const>\<open>auth_layers\<close> of the two route files, the
    routers \<^const>\<open>taskRoutes\<close> and \<^const>\<open>authRoutes\<close>, and the application
    \<^const>\<open>app_handle\<close> of \<open>server.js\<close>: one request at a time on the state of both
    collections, falling through to \<open>/api-docs\<close> and to Express's 404. The
    variants \<^const>\<open>app_handle_at\<close>, \<^const>\<open>authRoutes_at\<close> and
    \<^const>\<open>taskRoutes_at\<close> take whether the database answers; the task controller's
    outage behaviour (\<^const>\<open>task_handler_at\<close>: its \<open>catch\<close> answers 500, after
    the checks that need no query) is modelled from the spec. Proved: the
    token gate (C22 to C24), the layer stack equal to a
    direct route table with no two routes overlapping (C32), and every response of
    the error shape except the 404 (lemma \<open>app_failures_error_shaped\<close>).
  \<^item> \<open>ApiDoc\<close>: the \<open>@swagger\<close> blocks as data (\<^const>\<open>auth_api_doc\<close>,
    \<^const>\<open>task_api_doc\<close>) with schema conformance \<^const>\<open>conforms\<close>. Proved: a
    body of the documented credentials schema gets only documented statuses, and 500
    when the database does not answer (C33), every documented operation answers a
    documented status, 401, or during an outage 500 (C34), and what the
    documentation omits (lemma \<open>undocumented_responses\<close>).
  \<^item> \<open>Server\<close>: the startup of \<open>server.js\<close>: \<open>process.env.PORT || 3000\<close> as
    \<^const>\<open>port_setting\<close> and \<open>app.listen\<close> as \<^const>\<open>app_listen\<close>, with
    ECMAScript's \<open>Number()\<close> on strings (\<^const>\<open>js_to_number\<close>) and Node's
    choice between a local socket and a TCP port checked by \<open>validatePort\<close>
    (\<^const>\<open>valid_port\<close>), the port a \<^typ>\<open>16 word\<close>; the unawaited
    \<open>mongoose.connect\<close> as a flag, per request, whether the database answers; the
    \<open>express.json()\<close> body parser (\<^const>\<open>parse_body\<close>: charset and
    encoding checks answered 415, the 100kb limit answered 413, a body that is not an
    object or array answered 400) in front of \<^const>\<open>app_handle_at\<close> as
    \<^const>\<open>app_receive\<close>; and the running server \<^const>\<open>serve\<close>, which hands
    each request of a sequence to it. Proved: the port bound is exactly the number
    \<open>PORT\<close> reads as, never wrapped (C35), every response of the server is of the
    error shape except Express's 404 page and the parser's HTML error pages (C9), and
    every sequence of requests and outages keeps the invariants of both collections
    (C17).
  \<^item> This theory: registration followed by login (C1) and the spec's end-to-end run
    through \<^const>\<open>app_handle\<close> (lemma \<open>api_scenario\<close>).

  \<^bold>\<open>Code outside the repository.\<close> \<open>src/controllers/taskController.js\<close>,
  \<open>src/middleware/authMiddleware.js\<close> and \<open>src/config/swagger.js\<close> are required by the
  code but are not among its files. The first two are modelled from the spec (task
  handlers, sections 4.5 to 4.9; middleware, section 4.4), the third as the merge of the
  \<open>@swagger\<close> blocks. bcrypt, jsonwebtoken, Mongoose and Express are modelled from
  their documented behaviour.

  \<^bold>\<open>Parameters and bounds.\<close> The library primitives are arbitrary functions, and
  no theorem assumes a property of them except C7, which assumes the bcrypt digest
  injective in the key; \<^const>\<open>demo_lib\<close> only serves the concrete witnesses. A
  registration takes 22 random salt characters (\<open>genSalt(10)\<close> gives cost 10).
  Tokens live \<^const>\<open>token_ttl\<close> = 86400 seconds (\<open>'24h'\<close>). Time is whole
  seconds, as in the \<open>iat\<close> and \<open>exp\<close> claims. \<open>Number()\<close> is computed
  exactly on rationals; JavaScript rounds a decimal to the nearest double, which gives
  another result only for strings of more than 15 significant digits, and white space
  outside the one-byte characters is not trimmed. No model needs fuel: every operation
  is a total function over finite data, and the only unbounded behaviour, the
  interleaving of concurrent registrations, is an inductive relation whose runs are
  proved finite (lemma \<open>reg_step_terminates\<close>) with the bound of lemma
  \<open>reg_steps_bounded\<close>.

  \<^bold>\<open>Not modelled.\<close>
  \<^item> The JSON parser of token segments: the payload decoder reads exactly the text
    the encoder writes, and the header must be exactly the HS256 header.
  \<^item> A store that fails in the middle of a request: for a single request the store
    is up or down throughout; only registration, whose two awaits may each fail,
    interleaves failures between its phases (theory \<open>Registration\<close>).
  \<^item> Percent-decoding of route parameters, \<open>HEAD\<close> requests answered by
    \<open>GET\<close> routes, the JSON parser itself (its outcome on the body text is an
    input), and task fields that are not strings.
  \<^item> The \<open>__v\<close> version key Mongoose adds to every document.
  \<^item> The HTML of the Swagger UI page (modelled as a 200 answer), \<open>dotenv\<close>
    (it only loads the environment variables the model takes as inputs), the time a
    buffered Mongoose operation waits before it fails, and errors of the bound socket
    (\<open>EADDRINUSE\<close>): I/O.
\<close>

section \<open>Properties across components\<close>

text \<open>The JSON body of a registration or login request.\<close>

abbreviation cred_json :: "string \<Rightarrow> string \<Rightarrow> json" where
  "cred_json u p \<equiv> JObj [(''username'', JStr u), (''password'', JStr p)]"

lemmas app_defs = app_handle_unfold taskRoutes_direct authRoutes_unfold auth_layers_def route_match_def
  route_eval task_handler_def cred_of_json_def task_body_of_json_def authMiddleware_def
  bearer_token_def json_str_field_def Let_def


text \<open>
  C1. Registration followed by login: after a fresh username registers, a login with
  the same username and password answers 200 with a token, and that token is accepted
  by \<open>jwt_verify\<close> for the next 24 hours and resolves to the ObjectId the new document
  received.
\<close>

theorem register_login_token:
  assumes sec: "usable_secret sec = Some k"
    and fresh: "find_by_username db u = None" and u: "u \<noteq> []" and p: "p \<noteq> []"
    and rnd: "length rnd = 22"
    and reg: "registerUser cr rnd db \<lparr>body_username = Some (JStr u), body_password = Some (JStr p)\<rparr> = (db', r)"
    and time: "now' < now + token_ttl"
  shows "r = registered \<and>
    (\<exists>t. loginUser cr sec now db' \<lparr>body_username = Some (JStr u), body_password = Some (JStr p)\<rparr> =
           login_success t \<and>
         jwt_verify cr sec now' t = Inr \<lparr>c_id = next_oid db, c_iat = now, c_exp = now + token_ttl\<rparr>)"
proof -
  let ?d = "\<lparr>uid = next_oid db, username = u,
      password = gen_salt 10 rnd @ eks_digest cr (gen_salt 10 rnd) (bcrypt_key p), pw_modified = False\<rparr>"
  have "registerUser cr rnd db \<lparr>body_username = Some (JStr u), body_password = Some (JStr p)\<rparr> =
      (\<lparr>users = users db @ [?d], next_oid = Suc (next_oid db)\<rparr>, registered)"
    using fresh u p rnd by (simp add: register_defs find_by_username_def bcrypt_hash_gen_salt)
  with reg have r: "r = registered" and db': "db' = \<lparr>users = users db @ [?d], next_oid = Suc (next_oid db)\<rparr>"
    by simp_all
  have f: "find_by_username db' u = Some ?d"
    using fresh by (simp add: db' find_by_username_append_new)
  have c: "comparePassword cr ?d (JStr p) = Some True"
    using bcrypt_hash_compare [OF bcrypt_hash_gen_salt [OF rnd, of cr p 10]]
    by (simp add: comparePassword_def)
  let ?t = "jwt_encode cr k \<lparr>c_id = next_oid db, c_iat = now, c_exp = now + token_ttl\<rparr>"
  have s: "jwt_sign cr sec now (uid ?d) = Inr ?t" using sec by (simp add: jwt_sign_def)
  have "loginUser cr sec now db' \<lparr>body_username = Some (JStr u), body_password = Some (JStr p)\<rparr> =
      login_success ?t"
    by (rule loginUser_success [OF u p f c s])
  moreover have "jwt_verify cr sec now' ?t = Inr \<lparr>c_id = next_oid db, c_iat = now, c_exp = now + token_ttl\<rparr>"
    using time by (simp add: jwt_verify_encode [OF sec])
  ultimately show ?thesis using r by blast
qed

theorem register_login_token_witness:
  "registerUser demo_lib ''abcdefghijklmnopqrstuv'' empty_user_db
     \<lparr>body_username = Some (JStr ''alice''), body_password = Some (JStr ''s3cret!'')\<rparr> = (alice_db, registered) \<and>
   (\<exists>t. loginUser demo_lib (Some ''key'') 100 alice_db
     \<lparr>body_username = Some (JStr ''alice''), body_password = Some (JStr ''s3cret!'')\<rparr> =
       login_success t \<and>
     jwt_verify demo_lib (Some ''key'') 200 t = Inr \<lparr>c_id = 0, c_iat = 100, c_exp = 100 + token_ttl\<rparr>)"
proof -
  have h: "usable_secret (Some ''key'') = Some ''key''"
    "find_by_username empty_user_db ''alice'' = None" "''alice'' \<noteq> []" "''s3cret!'' \<noteq> []"
    "length ''abcdefghijklmnopqrstuv'' = 22" "(200::nat) < 100 + token_ttl"
    by (simp_all add: find_by_username_def empty_user_db_def token_ttl_def)
  have reg: "registerUser demo_lib ''abcdefghijklmnopqrstuv'' empty_user_db
     \<lparr>body_username = Some (JStr ''alice''), body_password = Some (JStr ''s3cret!'')\<rparr> = (alice_db, registered)"
    by (simp add: register_defs empty_user_db_def find_by_username_def bcrypt_hash_gen_salt
        demo_lib_def)
  from register_login_token [OF h(1-5) reg h(6)] reg show ?thesis
    by (auto simp: empty_user_db_def)
qed

text \<open>
  The end-to-end run of the spec (section 8), request by request through the
  application: \<open>alice\<close> registers (201) and logs in (200, token \<open>T\<close>);
  \<open>GET /api/tasks\<close> with \<open>Bearer T\<close> answers 200 with an empty list, without the
  header 401; \<open>POST /api/tasks {"title":"buy milk"}\<close> answers 201 with status
  \<open>pending\<close>; \<open>PUT /api/tasks/0 {"status":"completed"}\<close> answers 200 with status
  \<open>completed\<close>; \<open>GET /api/tasks/bad-id\<close> answers 404.
\<close>

lemma api_scenario:
  "app_handle demo_lib (Some ''key'') 100 ''abcdefghijklmnopqrstuv''
     \<lparr>udb = empty_user_db, tdb = empty_task_db\<rparr>
     \<lparr>req_method = POST, path = ''/api/auth/register'', authorization = None,
      req_body = cred_json ''alice'' ''s3cret!''\<rparr> =
     (\<lparr>udb = alice_db, tdb = empty_task_db\<rparr>, registered) \<and>
   app_handle demo_lib (Some ''key'') 100 ''abcdefghijklmnopqrstuv''
     \<lparr>udb = alice_db, tdb = empty_task_db\<rparr>
     \<lparr>req_method = POST, path = ''/api/auth/login'', authorization = None,
      req_body = cred_json ''alice'' ''s3cret!''\<rparr> =
     (\<lparr>udb = alice_db, tdb = empty_task_db\<rparr>, login_success alice_token) \<and>
   app_handle demo_lib (Some ''key'') 200 ''abcdefghijklmnopqrstuv''
     \<lparr>udb = alice_db, tdb = empty_task_db\<rparr>
     \<lparr>req_method = GET, path = ''/api/tasks'', authorization = Some (''Bearer '' @ alice_token),
      req_body = JNull\<rparr> =
     (\<lparr>udb = alice_db, tdb = empty_task_db\<rparr>, \<lparr>status = 200, body = JArr []\<rparr>) \<and>
   app_handle demo_lib (Some ''key'') 200 ''abcdefghijklmnopqrstuv''
     \<lparr>udb = alice_db, tdb = empty_task_db\<rparr>
     \<lparr>req_method = GET, path = ''/api/tasks'', authorization = None, req_body = JNull\<rparr> =
     (\<lparr>udb = alice_db, tdb = empty_task_db\<rparr>, unauthorized) \<and>
   app_handle demo_lib (Some ''key'') 200 ''abcdefghijklmnopqrstuv''
     \<lparr>udb = alice_db, tdb = empty_task_db\<rparr>
     \<lparr>req_method = POST, path = ''/api/tasks'', authorization = Some (''Bearer '' @ alice_token),
      req_body = JObj [(''title'', JStr ''buy milk'')]\<rparr> =
     (\<lparr>udb = alice_db, tdb = milk_db\<rparr>,
      \<lparr>status = 201, body = JObj [(''_id'', JStr ''0''), (''title'', JStr ''buy milk''),
                                  (''status'', JStr ''pending'')]\<rparr>) \<and>
   app_handle demo_lib (Some ''key'') 200 ''abcdefghijklmnopqrstuv''
     \<lparr>udb = alice_db, tdb = milk_db\<rparr>
     \<lparr>req_method = PUT, path = ''/api/tasks/0'', authorization = Some (''Bearer '' @ alice_token),
      req_body = JObj [(''status'', JStr ''completed'')]\<rparr> =
     (\<lparr>udb = alice_db, tdb = \<lparr>tasks = [\<lparr>task_id = 0, task_title = ''buy milk'',
         task_description = None, task_status = Completed\<rparr>], next_tid = 1\<rparr>\<rparr>,
      \<lparr>status = 200, body = JObj [(''_id'', JStr ''0''), (''title'', JStr ''buy milk''),
                                  (''status'', JStr ''completed'')]\<rparr>) \<and>
   app_handle demo_lib (Some ''key'') 200 ''abcdefghijklmnopqrstuv''
     \<lparr>udb = alice_db, tdb = milk_db\<rparr>
     \<lparr>req_method = GET, path = ''/api/tasks/bad-id'', authorization = Some (''Bearer '' @ alice_token),
      req_body = JNull\<rparr> =
     (\<lparr>udb = alice_db, tdb = milk_db\<rparr>, task_not_found)"
proof -
  have tok: "jwt_verify demo_lib (Some ''key'') 200 alice_token =
      Inr \<lparr>c_id = 0, c_iat = 100, c_exp = 100 + token_ttl\<rparr>"
    by (simp add: jwt_verify_encode token_ttl_def)
  have d0: "nat_to_dec 0 = ''0''"
    using char_of_char [of "CHR ''0''"] by (simp add: nat_to_dec.simps digit_char_def)
  have r1: "app_handle demo_lib (Some ''key'') 100 ''abcdefghijklmnopqrstuv''
     \<lparr>udb = empty_user_db, tdb = empty_task_db\<rparr>
     \<lparr>req_method = POST, path = ''/api/auth/register'', authorization = None,
      req_body = cred_json ''alice'' ''s3cret!''\<rparr> =
     (\<lparr>udb = alice_db, tdb = empty_task_db\<rparr>, registered)"
    by (simp add: app_defs register_defs empty_user_db_def find_by_username_def
        bcrypt_hash_gen_salt demo_lib_def)
  have r2: "app_handle demo_lib (Some ''key'') 100 ''abcdefghijklmnopqrstuv''
     \<lparr>udb = alice_db, tdb = empty_task_db\<rparr>
     \<lparr>req_method = POST, path = ''/api/auth/login'', authorization = None,
      req_body = cred_json ''alice'' ''s3cret!''\<rparr> =
     (\<lparr>udb = alice_db, tdb = empty_task_db\<rparr>, login_success alice_token)"
  proof -
    have "comparePassword demo_lib (hd (users alice_db)) (JStr ''s3cret!'') = Some True"
      using bcrypt_hash_compare [OF bcrypt_hash_gen_salt [of "''abcdefghijklmnopqrstuv''" demo_lib
          "''s3cret!''" 10]]
      by (simp add: comparePassword_def demo_lib_def)
    then show ?thesis
      by (simp add: app_defs loginUser_unfold find_by_username_def jwt_sign_def)
  qed
  have r3: "app_handle demo_lib (Some ''key'') 200 ''abcdefghijklmnopqrstuv''
     \<lparr>udb = alice_db, tdb = empty_task_db\<rparr>
     \<lparr>req_method = GET, path = ''/api/tasks'', authorization = Some (''Bearer '' @ alice_token),
      req_body = JNull\<rparr> =
     (\<lparr>udb = alice_db, tdb = empty_task_db\<rparr>, \<lparr>status = 200, body = JArr []\<rparr>)"
    using tok by (simp add: app_defs getAllTasks_def empty_task_db_def)
  have r4: "app_handle demo_lib (Some ''key'') 200 ''abcdefghijklmnopqrstuv''
     \<lparr>udb = alice_db, tdb = empty_task_db\<rparr>
     \<lparr>req_method = GET, path = ''/api/tasks'', authorization = None, req_body = JNull\<rparr> =
     (\<lparr>udb = alice_db, tdb = empty_task_db\<rparr>, unauthorized)"
    by (simp add: app_defs)
  have r5: "app_handle demo_lib (Some ''key'') 200 ''abcdefghijklmnopqrstuv''
     \<lparr>udb = alice_db, tdb = empty_task_db\<rparr>
     \<lparr>req_method = POST, path = ''/api/tasks'', authorization = Some (''Bearer '' @ alice_token),
      req_body = JObj [(''title'', JStr ''buy milk'')]\<rparr> =
     (\<lparr>udb = alice_db, tdb = milk_db\<rparr>,
      \<lparr>status = 201, body = JObj [(''_id'', JStr ''0''), (''title'', JStr ''buy milk''),
                                  (''status'', JStr ''pending'')]\<rparr>)"
    using tok d0 by (simp add: app_defs addTask_def new_task_def empty_task_db_def task_json_def
        show_status_def)
  have r6: "app_handle demo_lib (Some ''key'') 200 ''abcdefghijklmnopqrstuv''
     \<lparr>udb = alice_db, tdb = milk_db\<rparr>
     \<lparr>req_method = PUT, path = ''/api/tasks/0'', authorization = Some (''Bearer '' @ alice_token),
      req_body = JObj [(''status'', JStr ''completed'')]\<rparr> =
     (\<lparr>udb = alice_db, tdb = \<lparr>tasks = [\<lparr>task_id = 0, task_title = ''buy milk'',
         task_description = None, task_status = Completed\<rparr>], next_tid = 1\<rparr>\<rparr>,
      \<lparr>status = 200, body = JObj [(''_id'', JStr ''0''), (''title'', JStr ''buy milk''),
                                  (''status'', JStr ''completed'')]\<rparr>)"
    using tok d0 by (simp add: app_defs updateTask_def update_fields_def find_task_def dec_to_nat_0
        parse_status_def task_json_def show_status_def)
  have r7: "app_handle demo_lib (Some ''key'') 200 ''abcdefghijklmnopqrstuv''
     \<lparr>udb = alice_db, tdb = milk_db\<rparr>
     \<lparr>req_method = GET, path = ''/api/tasks/bad-id'', authorization = Some (''Bearer '' @ alice_token),
      req_body = JNull\<rparr> =
     (\<lparr>udb = alice_db, tdb = milk_db\<rparr>, task_not_found)"
    using tok by (simp add: app_defs getTaskById_def find_task_def dec_to_nat_def is_digit_def)
  show ?thesis using r1 r2 r3 r4 r5 r6 r7 by (intro conjI)
qed
end
